theory Spec2Isabelle
  imports Main "HOL-Library.AList"
begin

section \<open>Errors\<close>

text \<open>
  A Go function of the program returns an \<open>error\<close> value or panics. Both are
  values of the model: \<open>Error msg\<close> is a returned \<open>error\<close> (built by
  \<open>errors.New\<close>, \<open>fmt.Errorf\<close>, the YAML decoder or the embedded file system),
  \<open>Panic msg\<close> is a run-time panic (index out of range, failed type assertion) or the
  process exit of \<open>output.Fatal\<close>. A fallible function returns \<open>error + 'a\<close>, with
  \<open>Inl\<close> the failure.
\<close>

datatype error = Error string | Panic string

section \<open>Rule patterns and pattern filters (package settings)\<close>

text \<open>
  \<open>type RuleReferenceScope string\<close> with its five constants and \<open>DefaultScope\<close>.
  The type is a string type: deserialisation stores whatever text the rule file holds.
\<close>

type_synonym RuleReferenceScope = string

definition CURSOR_STRICT_SCOPE :: RuleReferenceScope where
  "CURSOR_STRICT_SCOPE = ''cursor_strict''"

definition CURSOR_SCOPE :: RuleReferenceScope where
  "CURSOR_SCOPE = ''cursor''"

definition NESTED_SCOPE :: RuleReferenceScope where
  "NESTED_SCOPE = ''nested''"

definition NESTED_STRICT_SCOPE :: RuleReferenceScope where
  "NESTED_STRICT_SCOPE = ''nested_strict''"

definition RESULT_SCOPE :: RuleReferenceScope where
  "RESULT_SCOPE = ''result''"

definition DefaultScope :: RuleReferenceScope where
  "DefaultScope = NESTED_SCOPE"

text \<open>\<open>RuleReferenceImport\<close>; the fields carry the prefix \<open>rri_\<close>.\<close>

record RuleReferenceImport =
  rri_Variable :: string
  rri_As :: string

text \<open>
  Modelled from the spec: the type \<open>Regexp\<close>, whose declaration is in another file
  of the package. The spec gives the regex filters as \<open>{variable, regex}\<close>,
  \<open>{variable, string_regex}\<close> and \<open>{filename_regex}\<close>: a value of the type is
  represented by the text of its pattern, which is what a rule file holds under these
  keys.
\<close>

type_synonym Regexp = string

text \<open>
  \<open>PatternFilter\<close>, field by field in the order of the struct; the selectors carry the
  prefix \<open>pf_\<close>. The struct contains itself (\<open>Not\<close>, \<open>Either\<close>, \<open>Filters\<close>), so it
  is a datatype with one constructor, and each field has an update function in place of
  an assignment to the field. A pointer field is an \<open>option\<close> (\<open>None\<close> is \<open>nil\<close>); a
  slice is a list (no function here tells a \<open>nil\<close> slice of these types from an empty
  one); an \<open>int\<close> is an integer of the 64-bit range.
\<close>

datatype PatternFilter = PatternFilter
  (pf_Not: "PatternFilter option")
  (pf_Either: "PatternFilter list")
  (pf_Variable: string)
  (pf_Detection: string)
  (pf_Scope: RuleReferenceScope)
  (pf_Filters: "PatternFilter list")
  (pf_Imports: "RuleReferenceImport list")
  (pf_Contains: "bool option")
  (pf_Regex: "Regexp option")
  (pf_Values: "string list")
  (pf_LengthLessThan: "int option")
  (pf_LessThan: "int option")
  (pf_LessThanOrEqual: "int option")
  (pf_GreaterThan: "int option")
  (pf_GreaterThanOrEqual: "int option")
  (pf_StringRegex: "Regexp option")
  (pf_FilenameRegex: "Regexp option")

primrec pf_Not_update :: "(PatternFilter option) \<Rightarrow> PatternFilter \<Rightarrow> PatternFilter" where
  "pf_Not_update v (PatternFilter a1 a2 a3 a4 a5 a6 a7 a8 a9 a10 a11 a12 a13 a14 a15 a16 a17) =
     PatternFilter v a2 a3 a4 a5 a6 a7 a8 a9 a10 a11 a12 a13 a14 a15 a16 a17"

primrec pf_Either_update :: "(PatternFilter list) \<Rightarrow> PatternFilter \<Rightarrow> PatternFilter" where
  "pf_Either_update v (PatternFilter a1 a2 a3 a4 a5 a6 a7 a8 a9 a10 a11 a12 a13 a14 a15 a16 a17) =
     PatternFilter a1 v a3 a4 a5 a6 a7 a8 a9 a10 a11 a12 a13 a14 a15 a16 a17"

primrec pf_Variable_update :: "string \<Rightarrow> PatternFilter \<Rightarrow> PatternFilter" where
  "pf_Variable_update v (PatternFilter a1 a2 a3 a4 a5 a6 a7 a8 a9 a10 a11 a12 a13 a14 a15 a16 a17) =
     PatternFilter a1 a2 v a4 a5 a6 a7 a8 a9 a10 a11 a12 a13 a14 a15 a16 a17"

primrec pf_Detection_update :: "string \<Rightarrow> PatternFilter \<Rightarrow> PatternFilter" where
  "pf_Detection_update v (PatternFilter a1 a2 a3 a4 a5 a6 a7 a8 a9 a10 a11 a12 a13 a14 a15 a16 a17) =
     PatternFilter a1 a2 a3 v a5 a6 a7 a8 a9 a10 a11 a12 a13 a14 a15 a16 a17"

primrec pf_Scope_update :: "RuleReferenceScope \<Rightarrow> PatternFilter \<Rightarrow> PatternFilter" where
  "pf_Scope_update v (PatternFilter a1 a2 a3 a4 a5 a6 a7 a8 a9 a10 a11 a12 a13 a14 a15 a16 a17) =
     PatternFilter a1 a2 a3 a4 v a6 a7 a8 a9 a10 a11 a12 a13 a14 a15 a16 a17"

primrec pf_Filters_update :: "(PatternFilter list) \<Rightarrow> PatternFilter \<Rightarrow> PatternFilter" where
  "pf_Filters_update v (PatternFilter a1 a2 a3 a4 a5 a6 a7 a8 a9 a10 a11 a12 a13 a14 a15 a16 a17) =
     PatternFilter a1 a2 a3 a4 a5 v a7 a8 a9 a10 a11 a12 a13 a14 a15 a16 a17"

primrec pf_Imports_update :: "(RuleReferenceImport list) \<Rightarrow> PatternFilter \<Rightarrow> PatternFilter" where
  "pf_Imports_update v (PatternFilter a1 a2 a3 a4 a5 a6 a7 a8 a9 a10 a11 a12 a13 a14 a15 a16 a17) =
     PatternFilter a1 a2 a3 a4 a5 a6 v a8 a9 a10 a11 a12 a13 a14 a15 a16 a17"

primrec pf_Contains_update :: "(bool option) \<Rightarrow> PatternFilter \<Rightarrow> PatternFilter" where
  "pf_Contains_update v (PatternFilter a1 a2 a3 a4 a5 a6 a7 a8 a9 a10 a11 a12 a13 a14 a15 a16 a17) =
     PatternFilter a1 a2 a3 a4 a5 a6 a7 v a9 a10 a11 a12 a13 a14 a15 a16 a17"

primrec pf_Regex_update :: "(Regexp option) \<Rightarrow> PatternFilter \<Rightarrow> PatternFilter" where
  "pf_Regex_update v (PatternFilter a1 a2 a3 a4 a5 a6 a7 a8 a9 a10 a11 a12 a13 a14 a15 a16 a17) =
     PatternFilter a1 a2 a3 a4 a5 a6 a7 a8 v a10 a11 a12 a13 a14 a15 a16 a17"

primrec pf_Values_update :: "(string list) \<Rightarrow> PatternFilter \<Rightarrow> PatternFilter" where
  "pf_Values_update v (PatternFilter a1 a2 a3 a4 a5 a6 a7 a8 a9 a10 a11 a12 a13 a14 a15 a16 a17) =
     PatternFilter a1 a2 a3 a4 a5 a6 a7 a8 a9 v a11 a12 a13 a14 a15 a16 a17"

primrec pf_LengthLessThan_update :: "(int option) \<Rightarrow> PatternFilter \<Rightarrow> PatternFilter" where
  "pf_LengthLessThan_update v (PatternFilter a1 a2 a3 a4 a5 a6 a7 a8 a9 a10 a11 a12 a13 a14 a15 a16 a17) =
     PatternFilter a1 a2 a3 a4 a5 a6 a7 a8 a9 a10 v a12 a13 a14 a15 a16 a17"

primrec pf_LessThan_update :: "(int option) \<Rightarrow> PatternFilter \<Rightarrow> PatternFilter" where
  "pf_LessThan_update v (PatternFilter a1 a2 a3 a4 a5 a6 a7 a8 a9 a10 a11 a12 a13 a14 a15 a16 a17) =
     PatternFilter a1 a2 a3 a4 a5 a6 a7 a8 a9 a10 a11 v a13 a14 a15 a16 a17"

primrec pf_LessThanOrEqual_update :: "(int option) \<Rightarrow> PatternFilter \<Rightarrow> PatternFilter" where
  "pf_LessThanOrEqual_update v (PatternFilter a1 a2 a3 a4 a5 a6 a7 a8 a9 a10 a11 a12 a13 a14 a15 a16 a17) =
     PatternFilter a1 a2 a3 a4 a5 a6 a7 a8 a9 a10 a11 a12 v a14 a15 a16 a17"

primrec pf_GreaterThan_update :: "(int option) \<Rightarrow> PatternFilter \<Rightarrow> PatternFilter" where
  "pf_GreaterThan_update v (PatternFilter a1 a2 a3 a4 a5 a6 a7 a8 a9 a10 a11 a12 a13 a14 a15 a16 a17) =
     PatternFilter a1 a2 a3 a4 a5 a6 a7 a8 a9 a10 a11 a12 a13 v a15 a16 a17"

primrec pf_GreaterThanOrEqual_update :: "(int option) \<Rightarrow> PatternFilter \<Rightarrow> PatternFilter" where
  "pf_GreaterThanOrEqual_update v (PatternFilter a1 a2 a3 a4 a5 a6 a7 a8 a9 a10 a11 a12 a13 a14 a15 a16 a17) =
     PatternFilter a1 a2 a3 a4 a5 a6 a7 a8 a9 a10 a11 a12 a13 a14 v a16 a17"

primrec pf_StringRegex_update :: "(Regexp option) \<Rightarrow> PatternFilter \<Rightarrow> PatternFilter" where
  "pf_StringRegex_update v (PatternFilter a1 a2 a3 a4 a5 a6 a7 a8 a9 a10 a11 a12 a13 a14 a15 a16 a17) =
     PatternFilter a1 a2 a3 a4 a5 a6 a7 a8 a9 a10 a11 a12 a13 a14 a15 v a17"

primrec pf_FilenameRegex_update :: "(Regexp option) \<Rightarrow> PatternFilter \<Rightarrow> PatternFilter" where
  "pf_FilenameRegex_update v (PatternFilter a1 a2 a3 a4 a5 a6 a7 a8 a9 a10 a11 a12 a13 a14 a15 a16 a17) =
     PatternFilter a1 a2 a3 a4 a5 a6 a7 a8 a9 a10 a11 a12 a13 a14 a15 a16 v"

definition zero_PatternFilter :: PatternFilter where
  "zero_PatternFilter =
     PatternFilter None [] '''' '''' '''' [] [] None None [] None None None None None None None"

text \<open>\<open>RulePattern\<close>; the fields carry the prefix \<open>rp_\<close>.\<close>

record RulePattern =
  rp_Pattern :: string
  rp_Focus :: string
  rp_Filters :: "PatternFilter list"

definition zero_RulePattern :: RulePattern where
  "zero_RulePattern = \<lparr>rp_Pattern = '''', rp_Focus = '''', rp_Filters = []\<rparr>"

subsection \<open>The custom deserialisers\<close>

text \<open>
  Both methods receive the decoder as a callback \<open>unmarshal func(interface{}) error\<close>:
  called with a pointer, it decodes the current YAML node into the pointed-to value or
  returns an error. In the model a callback for targets of type \<open>'a\<close> maps the
  target's contents before the call to the error or to its contents after the call.
\<close>

type_synonym 'a unmarshal = "'a \<Rightarrow> error + 'a"

text \<open>
  \<open>RulePattern.UnmarshalYAML\<close> calls the callback with a \<open>*string\<close> and, when that
  fails, with the receiver converted to \<open>*rawRulePattern\<close> (the same struct without the
  method). The two uses of the one Go callback are the two components of the argument.
  The result is the receiver after the call.
\<close>

record unmarshal_RulePattern =
  into_string :: "string unmarshal"
  into_rawRulePattern :: "RulePattern unmarshal"

definition RulePattern_UnmarshalYAML ::
  "unmarshal_RulePattern \<Rightarrow> RulePattern \<Rightarrow> error + RulePattern" where
  "RulePattern_UnmarshalYAML unmarshal rulePattern =
     (case into_string unmarshal '''' of
        Inr pattern \<Rightarrow> Inr (rulePattern\<lparr>rp_Pattern := pattern\<rparr>)
      | Inl err \<Rightarrow> into_rawRulePattern unmarshal rulePattern)"

text \<open>
  \<open>PatternFilter.UnmarshalYAML\<close> decodes into a fresh \<open>wrapper\<close> (the struct without
  the method), overwrites the receiver with it and then settles the scope of a filter
  that names a detection. The receiver \<open>filter\<close> is \<open>flt\<close> here.
\<close>

definition PatternFilter_UnmarshalYAML ::
  "PatternFilter unmarshal \<Rightarrow> PatternFilter \<Rightarrow> error + PatternFilter" where
  "PatternFilter_UnmarshalYAML unmarshal flt =
     (case unmarshal zero_PatternFilter of
        Inl err \<Rightarrow> Inl err
      | Inr wrapped \<Rightarrow>
          (let flt = wrapped;
               flt =
                 (if pf_Detection flt \<noteq> '''' then
                    (let flt =
                           (case pf_Contains flt of
                              Some c \<Rightarrow> if \<not> c then pf_Scope_update CURSOR_SCOPE flt else flt
                            | None \<Rightarrow> flt)
                     in if pf_Scope flt = '''' then pf_Scope_update NESTED_SCOPE flt else flt)
                  else flt)
           in Inr flt))"

section \<open>Rules (package settings)\<close>

type_synonym MatchOn = string

definition PRESENCE :: MatchOn where
  "PRESENCE = ''presence''"

definition ABSENCE :: MatchOn where
  "ABSENCE = ''absence''"

definition STORED_DATA_TYPES :: MatchOn where
  "STORED_DATA_TYPES = ''stored_data_types''"

text \<open>\<open>RuleTrigger\<close>; the fields carry the prefix \<open>rt_\<close>.\<close>

record RuleTrigger =
  rt_MatchOn :: MatchOn
  rt_DataTypesRequired :: bool
  rt_RequiredDetection :: "string option"

text \<open>\<open>Dependency\<close>; the fields carry the prefix \<open>dep_\<close>.\<close>

record Dependency =
  dep_Filename :: string
  dep_Name :: string
  dep_MinVersion :: string

text \<open>\<open>MetaVar\<close>; the fields carry the prefix \<open>mv_\<close>.\<close>

record MetaVar =
  mv_Input :: string
  mv_Output :: int
  mv_Regex :: string

text \<open>
  \<open>Rule\<close>, field by field; the fields carry the prefix \<open>rule_\<close>. \<open>Languages\<close> is
  an \<open>option\<close>, \<open>None\<close> for the \<open>nil\<close> slice, because \<open>Rule.Language\<close> compares it
  with \<open>nil\<close>. The map \<open>Metavars\<close> is an association list.
\<close>

record Rule =
  rule_Id :: string
  rule_AssociatedRecipe :: string
  rule_Type :: string
  rule_Trigger :: RuleTrigger
  rule_IsLocal :: bool
  rule_Detectors :: "string list"
  rule_Processors :: "string list"
  rule_Stored :: bool
  rule_AutoEncrytPrefix :: string
  rule_HasDetailedContext :: bool
  rule_SkipDataTypes :: "string list"
  rule_OnlyDataTypes :: "string list"
  rule_Severity :: string
  rule_Description :: string
  rule_RemediationMessage :: string
  rule_CWEIDs :: "string list"
  rule_Languages :: "string list option"
  rule_Patterns :: "RulePattern list"
  rule_SanitizerRuleID :: string
  rule_DocumentationUrl :: string
  rule_IsAuxilary :: bool
  rule_DependencyCheck :: bool
  rule_Dependency :: "Dependency option"
  rule_Metavars :: "(string \<times> MetaVar) list"
  rule_ParamParenting :: bool
  rule_DetectPresence :: bool
  rule_OmitParent :: bool

definition zero_Rule :: Rule where
  "zero_Rule =
     \<lparr>rule_Id = '''', rule_AssociatedRecipe = '''', rule_Type = '''',
      rule_Trigger = \<lparr>rt_MatchOn = '''', rt_DataTypesRequired = False, rt_RequiredDetection = None\<rparr>,
      rule_IsLocal = False, rule_Detectors = [], rule_Processors = [], rule_Stored = False,
      rule_AutoEncrytPrefix = '''', rule_HasDetailedContext = False, rule_SkipDataTypes = [],
      rule_OnlyDataTypes = [], rule_Severity = '''', rule_Description = '''',
      rule_RemediationMessage = '''', rule_CWEIDs = [], rule_Languages = None,
      rule_Patterns = [], rule_SanitizerRuleID = '''', rule_DocumentationUrl = '''',
      rule_IsAuxilary = False, rule_DependencyCheck = False, rule_Dependency = None,
      rule_Metavars = [], rule_ParamParenting = False, rule_DetectPresence = False,
      rule_OmitParent = False\<rparr>"

text \<open>The zero values of the structs above.\<close>

definition zero_RuleReferenceImport :: RuleReferenceImport where
  "zero_RuleReferenceImport = \<lparr>rri_Variable = '''', rri_As = ''''\<rparr>"

definition zero_Dependency :: Dependency where
  "zero_Dependency =
     \<lparr>dep_Filename = '''', dep_Name = '''', dep_MinVersion = ''''\<rparr>"

definition zero_MetaVar :: MetaVar where
  "zero_MetaVar =
     \<lparr>mv_Input = '''', mv_Output = 0, mv_Regex = ''''\<rparr>"

definition zero_RuleTrigger :: RuleTrigger where
  "zero_RuleTrigger =
     \<lparr>rt_MatchOn = '''', rt_DataTypesRequired = False, rt_RequiredDetection = None\<rparr>"

subsection \<open>Rule definitions\<close>

text \<open>\<open>RuleDefinitionTrigger\<close>; the fields carry the prefix \<open>dt_\<close>.\<close>

record RuleDefinitionTrigger =
  dt_MatchOn :: "string option"
  dt_RequiredDetection :: "string option"
  dt_DataTypesRequired :: "bool option"

definition zero_RuleDefinitionTrigger :: RuleDefinitionTrigger where
  "zero_RuleDefinitionTrigger =
     \<lparr>dt_MatchOn = None, dt_RequiredDetection = None, dt_DataTypesRequired = None\<rparr>"

text \<open>\<open>RuleMetadata\<close>; the fields carry the prefix \<open>meta_\<close>.\<close>

record RuleMetadata =
  meta_Description :: string
  meta_RemediationMessage :: string
  meta_CWEIDs :: "string list"
  meta_AssociatedRecipe :: string
  meta_ID :: string
  meta_DocumentationUrl :: string

definition zero_RuleMetadata :: RuleMetadata where
  "zero_RuleMetadata =
     \<lparr>meta_Description = '''', meta_RemediationMessage = '''', meta_CWEIDs = [],
      meta_AssociatedRecipe = '''', meta_ID = '''', meta_DocumentationUrl = ''''\<rparr>"

text \<open>\<open>Auxiliary\<close>; the fields carry the prefix \<open>aux_\<close>.\<close>

record Auxiliary =
  aux_Id :: string
  aux_Type :: string
  aux_Languages :: "string list option"
  aux_Patterns :: "RulePattern list"
  aux_SanitizerRuleID :: string
  aux_RootSingularize :: bool
  aux_RootLowercase :: bool
  aux_Stored :: bool
  aux_Detectors :: "string list"
  aux_Processors :: "string list"
  aux_AutoEncrytPrefix :: string
  aux_ParamParenting :: bool
  aux_DetectPresence :: bool
  aux_OmitParent :: bool

definition zero_Auxiliary :: Auxiliary where
  "zero_Auxiliary =
     \<lparr>aux_Id = '''', aux_Type = '''', aux_Languages = None, aux_Patterns = [],
      aux_SanitizerRuleID = '''', aux_RootSingularize = False,
      aux_RootLowercase = False, aux_Stored = False, aux_Detectors = [],
      aux_Processors = [], aux_AutoEncrytPrefix = '''', aux_ParamParenting = False,
      aux_DetectPresence = False, aux_OmitParent = False\<rparr>"

text \<open>
  \<open>RuleDefinition\<close>, the struct of a rule file; the fields carry the prefix \<open>def_\<close>.
  A list of languages is an \<open>option\<close> here, in \<open>Auxiliary\<close> and in \<open>Rule\<close>.
\<close>

record RuleDefinition =
  def_Disabled :: bool
  def_Type :: string
  def_Languages :: "string list option"
  def_Imports :: "string list"
  def_ParamParenting :: bool
  def_Patterns :: "RulePattern list"
  def_SanitizerRuleID :: string
  def_Stored :: bool
  def_Detectors :: "string list"
  def_Processors :: "string list"
  def_AutoEncrytPrefix :: string
  def_DetectPresence :: bool
  def_Trigger :: "RuleDefinitionTrigger option"
  def_Severity :: string
  def_SkipDataTypes :: "string list"
  def_OnlyDataTypes :: "string list"
  def_HasDetailedContext :: bool
  def_Metadata :: "RuleMetadata option"
  def_Auxiliary :: "Auxiliary list"
  def_DependencyCheck :: bool
  def_Dependency :: "Dependency option"

definition zero_RuleDefinition :: RuleDefinition where
  "zero_RuleDefinition =
     \<lparr>def_Disabled = False, def_Type = '''', def_Languages = None, def_Imports = [],
      def_ParamParenting = False, def_Patterns = [], def_SanitizerRuleID = '''',
      def_Stored = False, def_Detectors = [], def_Processors = [],
      def_AutoEncrytPrefix = '''', def_DetectPresence = False, def_Trigger = None,
      def_Severity = '''', def_SkipDataTypes = [], def_OnlyDataTypes = [],
      def_HasDetailedContext = False, def_Metadata = None, def_Auxiliary = [],
      def_DependencyCheck = False, def_Dependency = None\<rparr>"

subsection \<open>The methods of a rule\<close>

definition PolicyType :: "Rule \<Rightarrow> bool" where
  "PolicyType rule = (rule_Type rule = ''risk'')"

text \<open>
  Modelled from the spec: the constant \<open>LevelLow\<close>, which is declared in the package
  \<open>internal/types\<close>. The spec gives the severities as
  \<open>critical, high, medium, low, warning\<close> with the default \<open>low\<close>.
\<close>

definition LevelLow :: string where
  "LevelLow = ''low''"

definition GetSeverity :: "Rule \<Rightarrow> string" where
  "GetSeverity rule = (if rule_Severity rule = '''' then LevelLow else rule_Severity rule)"

text \<open>
  An index expression \<open>xs[i]\<close> panics when \<open>i\<close> is not below the length of the slice.
\<close>

definition index :: "'a list \<Rightarrow> nat \<Rightarrow> error + 'a" where
  "index xs i =
     (if i < length xs then Inr (xs ! i) else Inl (Panic ''runtime error: index out of range''))"

text \<open>
  \<open>Rule.Language\<close>: the comparison with \<open>nil\<close>, then the switch on
  \<open>rule.Languages[0]\<close>, whose default case reads the element once more.
\<close>

definition Language :: "Rule \<Rightarrow> error + string" where
  "Language rule =
     (case rule_Languages rule of
        None \<Rightarrow> Inr ''secret''
      | Some languages \<Rightarrow>
          (case index languages 0 of
             Inl p \<Rightarrow> Inl p
           | Inr tag \<Rightarrow>
               if tag = ''java'' then Inr ''Java''
               else if tag = ''javascript'' then Inr ''JavaScript''
               else if tag = ''ruby'' then Inr ''Ruby''
               else if tag = ''sql'' then Inr ''SQL''
               else index languages 0))"

section \<open>YAML documents and the decoder behind the callback\<close>

text \<open>
  The decoder that calls the two methods is the library \<open>gopkg.in/yaml.v3\<close>. Its part
  is fixed by the \<open>yaml:"..."\<close> tags of the struct fields and by the types of the
  fields; the functions of this section are that part, so that the methods can be run
  on documents. A document is a tree of nodes. A scalar carries its text and what the
  text resolves to: a string, a boolean, an integer (of the signed or unsigned 64-bit
  range) or a float; of a float the model keeps the integer that the decoder stores
  into an integer target, when the float is integral and in the 64-bit range. A mapping
  is the list of its keys with the nodes under them, in the order of the document; a key
  is the text of an ordinary scalar key. Anchors and aliases are not part of the model,
  nor is the merge key (an unquoted \<open><<\<close>, which the decoder does not look up among
  the fields of a struct but whose mapping it merges): no document of the model has one.
\<close>

datatype resolved = RStr | RBool bool | RInt int | RFloat "int option"

datatype yaml =
    YNull
  | YScalar string resolved
  | YSeq "yaml list"
  | YMap "(string \<times> yaml) list"

text \<open>
  The settings of a decoder: \<open>knownFields\<close> is \<open>Decoder.KnownFields\<close> (a key of a
  mapping that names no field of the target struct is an error when set, and is skipped
  otherwise); \<open>regexpCompiles\<close> tells the patterns that the type \<open>Regexp\<close> accepts.
\<close>

record decoder =
  knownFields :: bool
  regexpCompiles :: "string \<Rightarrow> bool"

fun yaml_tag :: "yaml \<Rightarrow> string" where
  "yaml_tag YNull = ''!!null''"
| "yaml_tag (YScalar text RStr) = ''!!str''"
| "yaml_tag (YScalar text (RBool b)) = ''!!bool''"
| "yaml_tag (YScalar text (RInt i)) = ''!!int''"
| "yaml_tag (YScalar text (RFloat c)) = ''!!float''"
| "yaml_tag (YSeq ns) = ''!!seq''"
| "yaml_tag (YMap kvs) = ''!!map''"

definition cannot_unmarshal :: "yaml \<Rightarrow> string \<Rightarrow> error" where
  "cannot_unmarshal n ty = Error (''cannot unmarshal '' @ yaml_tag n @ '' into '' @ ty)"

definition field_not_found :: "string \<Rightarrow> string \<Rightarrow> error" where
  "field_not_found k ty = Error (''field '' @ k @ '' not found in type '' @ ty)"

definition key_already_defined :: error where
  "key_already_defined = Error ''mapping key already defined''"

definition into_field :: "('b \<Rightarrow> 'a \<Rightarrow> 'a) \<Rightarrow> 'a \<Rightarrow> error + 'b \<Rightarrow> error + 'a" where
  "into_field upd out r = (case r of Inl err \<Rightarrow> Inl err | Inr x \<Rightarrow> Inr (upd x out))"

subsection \<open>Scalars\<close>

text \<open>
  A null node leaves a string, a boolean or an integer as it is; a scalar gives a string
  its text, whatever it resolves to; a sequence or a mapping is no string.
\<close>

fun yaml_string :: "yaml \<Rightarrow> string unmarshal" where
  "yaml_string YNull out = Inr out"
| "yaml_string (YScalar text r) out = Inr text"
| "yaml_string n out = Inl (cannot_unmarshal n ''string'')"

text \<open>
  A boolean target takes a scalar that resolves to a boolean and, of the scalars that
  resolve to a string, the words of YAML 1.1.
\<close>

definition bool_words_true :: "string list" where
  "bool_words_true = [''y'', ''Y'', ''yes'', ''Yes'', ''YES'', ''on'', ''On'', ''ON'']"

definition bool_words_false :: "string list" where
  "bool_words_false = [''n'', ''N'', ''no'', ''No'', ''NO'', ''off'', ''Off'', ''OFF'']"

fun yaml_bool :: "yaml \<Rightarrow> bool unmarshal" where
  "yaml_bool YNull out = Inr out"
| "yaml_bool (YScalar text (RBool b)) out = Inr b"
| "yaml_bool (YScalar text RStr) out =
     (if text \<in> set bool_words_true then Inr True
      else if text \<in> set bool_words_false then Inr False
      else Inl (cannot_unmarshal (YScalar text RStr) ''bool''))"
| "yaml_bool n out = Inl (cannot_unmarshal n ''bool'')"

text \<open>
  An integer target (a Go \<open>int\<close> of 64 bits) takes an integer in its range and a float
  that is integral.
\<close>

definition int_range :: "int \<Rightarrow> bool" where
  "int_range i = (- (2 ^ 63) \<le> i \<and> i < 2 ^ 63)"

fun yaml_int :: "yaml \<Rightarrow> int unmarshal" where
  "yaml_int YNull out = Inr out"
| "yaml_int (YScalar text (RInt i)) out =
     (if int_range i then Inr i else Inl (cannot_unmarshal (YScalar text (RInt i)) ''int''))"
| "yaml_int (YScalar text (RFloat (Some i))) out =
     (if int_range i then Inr i
      else Inl (cannot_unmarshal (YScalar text (RFloat (Some i))) ''int''))"
| "yaml_int n out = Inl (cannot_unmarshal n ''int'')"

text \<open>
  The type \<open>Regexp\<close> takes the text of a scalar as its pattern, when the pattern
  compiles.
\<close>

fun yaml_Regexp :: "decoder \<Rightarrow> yaml \<Rightarrow> Regexp unmarshal" where
  "yaml_Regexp d YNull out = Inr out"
| "yaml_Regexp d (YScalar text r) out =
     (if regexpCompiles d text then Inr text
      else Inl (Error (''error parsing regexp: '' @ text)))"
| "yaml_Regexp d n out = Inl (cannot_unmarshal n ''settings.Regexp'')"

subsection \<open>Pointers, slices and structs\<close>

text \<open>
  A pointer target: a null node sets it to \<open>nil\<close>; any other node is decoded into the
  value it points to, a fresh zero value when the pointer is \<open>nil\<close>.
\<close>

definition decode_ptr :: "(yaml \<Rightarrow> 'a unmarshal) \<Rightarrow> 'a \<Rightarrow> yaml \<Rightarrow> ('a option) unmarshal" where
  "decode_ptr elem zero n out =
     (case n of
        YNull \<Rightarrow> Inr None
      | _ \<Rightarrow>
          (case elem n (case out of None \<Rightarrow> zero | Some x \<Rightarrow> x) of
             Inl err \<Rightarrow> Inl err
           | Inr x \<Rightarrow> Inr (Some x)))"

text \<open>
  A slice target: a null node sets it to \<open>nil\<close>; a sequence gives it one element for
  each node of the sequence that is not null, decoded from a fresh zero value; a null
  element is dropped. Here \<open>elem n\<close> is the decoding of the node \<open>n\<close> from the zero
  value of the element type.
\<close>

fun decode_elems :: "(yaml \<Rightarrow> error + 'a) \<Rightarrow> yaml list \<Rightarrow> error + 'a list" where
  "decode_elems elem [] = Inr []"
| "decode_elems elem (n # ns) =
     (if n = YNull then decode_elems elem ns
      else
        (case elem n of
           Inl err \<Rightarrow> Inl err
         | Inr x \<Rightarrow>
             (case decode_elems elem ns of
                Inl err \<Rightarrow> Inl err
              | Inr xs \<Rightarrow> Inr (x # xs))))"

definition decode_slice ::
  "string \<Rightarrow> (yaml \<Rightarrow> error + 'a) \<Rightarrow> yaml \<Rightarrow> ('a list) unmarshal" where
  "decode_slice ty elem n out =
     (case n of
        YNull \<Rightarrow> Inr []
      | YSeq ns \<Rightarrow> decode_elems elem ns
      | _ \<Rightarrow> Inl (cannot_unmarshal n ty))"

text \<open>
  A slice that the program compares with \<open>nil\<close> is an \<open>option\<close>: a sequence, also the
  empty one, gives a slice that is not \<open>nil\<close>.
\<close>

definition decode_slice_nil ::
  "string \<Rightarrow> (yaml \<Rightarrow> error + 'a) \<Rightarrow> yaml \<Rightarrow> ('a list option) unmarshal" where
  "decode_slice_nil ty elem n out =
     (case n of
        YNull \<Rightarrow> Inr None
      | YSeq ns \<Rightarrow>
          (case decode_elems elem ns of
             Inl err \<Rightarrow> Inl err
           | Inr xs \<Rightarrow> Inr (Some xs))
      | _ \<Rightarrow> Inl (cannot_unmarshal n ty))"

definition yaml_string_slice :: "yaml \<Rightarrow> (string list) unmarshal" where
  "yaml_string_slice n out = decode_slice ''[]string'' (\<lambda>e. yaml_string e '''') n out"

definition yaml_string_slice_nil :: "yaml \<Rightarrow> (string list option) unmarshal" where
  "yaml_string_slice_nil n out = decode_slice_nil ''[]string'' (\<lambda>e. yaml_string e '''') n out"

text \<open>
  A map target with string keys, an association list here: a null node sets it to
  \<open>nil\<close>; a mapping must not repeat a key, and enters under each key the value decoded
  from the node under the key, the zero value for a null node under a key that the map
  does not hold yet.
\<close>

fun decode_entries ::
  "(yaml \<Rightarrow> error + 'a) \<Rightarrow> 'a \<Rightarrow> (string \<times> yaml) list \<Rightarrow> (string \<times> 'a) list \<Rightarrow>
   error + (string \<times> 'a) list" where
  "decode_entries elem zero [] m = Inr m"
| "decode_entries elem zero ((k, v) # kvs) m =
     (if v = YNull then
        decode_entries elem zero kvs (if map_of m k = None then AList.update k zero m else m)
      else
        (case elem v of
           Inl err \<Rightarrow> Inl err
         | Inr x \<Rightarrow> decode_entries elem zero kvs (AList.update k x m)))"

definition decode_map ::
  "string \<Rightarrow> (yaml \<Rightarrow> error + 'a) \<Rightarrow> 'a \<Rightarrow> yaml \<Rightarrow> ((string \<times> 'a) list) unmarshal" where
  "decode_map ty elem zero n out =
     (case n of
        YNull \<Rightarrow> Inr []
      | YMap kvs \<Rightarrow>
          if distinct (map fst kvs) then decode_entries elem zero kvs out
          else Inl key_already_defined
      | _ \<Rightarrow> Inl (cannot_unmarshal n ty))"

text \<open>
  A struct target of the type named \<open>ty\<close>, with the keys \<open>keys\<close> of its \<open>yaml\<close> tags:
  a null node leaves it as it is; a mapping must not repeat a key, and is decoded pair
  by pair in the order of the document, \<open>field k v\<close> decoding the node \<open>v\<close> under the
  key \<open>k\<close> into the field of that key. A key that names no field is an error for a
  decoder with \<open>knownFields\<close> and is passed over otherwise.
\<close>

fun decode_fields ::
  "decoder \<Rightarrow> string \<Rightarrow> string list \<Rightarrow> (string \<Rightarrow> yaml \<Rightarrow> 'a unmarshal) \<Rightarrow>
   (string \<times> yaml) list \<Rightarrow> 'a unmarshal" where
  "decode_fields d ty keys field [] out = Inr out"
| "decode_fields d ty keys field ((k, v) # kvs) out =
     (if k \<notin> set keys then
        (if knownFields d then Inl (field_not_found k ty)
         else decode_fields d ty keys field kvs out)
      else
        (case field k v out of
           Inl err \<Rightarrow> Inl err
         | Inr out' \<Rightarrow> decode_fields d ty keys field kvs out'))"

definition decode_struct ::
  "decoder \<Rightarrow> string \<Rightarrow> string list \<Rightarrow> (string \<Rightarrow> yaml \<Rightarrow> 'a unmarshal) \<Rightarrow>
   yaml \<Rightarrow> 'a unmarshal" where
  "decode_struct d ty keys field n out =
     (case n of
        YNull \<Rightarrow> Inr out
      | YMap kvs \<Rightarrow>
          if distinct (map fst kvs) then decode_fields d ty keys field kvs out
          else Inl key_already_defined
      | _ \<Rightarrow> Inl (cannot_unmarshal n ty))"

subsection \<open>Decoding pattern filters and rule patterns\<close>

text \<open>The struct \<open>RuleReferenceImport\<close>.\<close>

definition RuleReferenceImport_keys :: "string list" where
  "RuleReferenceImport_keys =
     [''variable'', ''as'']"

definition yaml_RuleReferenceImport_field :: "decoder \<Rightarrow> string \<Rightarrow> yaml \<Rightarrow> RuleReferenceImport unmarshal" where
  "yaml_RuleReferenceImport_field d k v out =
     (if k = ''variable'' then
        into_field (\<lambda>x r. r\<lparr>rri_Variable := x\<rparr>) out (yaml_string v (rri_Variable out))
      else if k = ''as'' then
        into_field (\<lambda>x r. r\<lparr>rri_As := x\<rparr>) out (yaml_string v (rri_As out))
      else Inl (field_not_found k ''settings.RuleReferenceImport''))"

definition yaml_RuleReferenceImport :: "decoder \<Rightarrow> yaml \<Rightarrow> RuleReferenceImport unmarshal" where
  "yaml_RuleReferenceImport d n out =
     decode_struct d ''settings.RuleReferenceImport'' RuleReferenceImport_keys (yaml_RuleReferenceImport_field d) n out"

definition yaml_RuleReferenceImport_slice :: "decoder \<Rightarrow> yaml \<Rightarrow> (RuleReferenceImport list) unmarshal" where
  "yaml_RuleReferenceImport_slice d n out =
     decode_slice ''[]settings.RuleReferenceImport'' (\<lambda>e. yaml_RuleReferenceImport d e zero_RuleReferenceImport) n out"


text \<open>The keys of a \<open>PatternFilter\<close> mapping: the \<open>yaml\<close> tags of the struct.\<close>

definition PatternFilter_keys :: "string list" where
  "PatternFilter_keys =
     [''not'', ''either'', ''variable'', ''detection'', ''scope'', ''filters'', ''imports'',
      ''contains'', ''regex'', ''values'', ''length_less_than'', ''less_than'',
      ''less_than_or_equal'', ''greater_than'', ''greater_than_or_equal'', ''string_regex'',
      ''filename_regex'']"

text \<open>
  The value under a key whose field holds no filter is decoded into that field as its
  type asks.
\<close>

definition yaml_wrapper_leaf :: "decoder \<Rightarrow> string \<Rightarrow> yaml \<Rightarrow> PatternFilter unmarshal" where
  "yaml_wrapper_leaf d k v out =
     (if k = ''variable'' then
        into_field pf_Variable_update out (yaml_string v (pf_Variable out))
      else if k = ''detection'' then
        into_field pf_Detection_update out (yaml_string v (pf_Detection out))
      else if k = ''scope'' then
        into_field pf_Scope_update out (yaml_string v (pf_Scope out))
      else if k = ''imports'' then
        into_field pf_Imports_update out (yaml_RuleReferenceImport_slice d v (pf_Imports out))
      else if k = ''contains'' then
        into_field pf_Contains_update out (decode_ptr yaml_bool False v (pf_Contains out))
      else if k = ''regex'' then
        into_field pf_Regex_update out (decode_ptr (yaml_Regexp d) '''' v (pf_Regex out))
      else if k = ''values'' then
        into_field pf_Values_update out (yaml_string_slice v (pf_Values out))
      else if k = ''length_less_than'' then
        into_field pf_LengthLessThan_update out (decode_ptr yaml_int 0 v (pf_LengthLessThan out))
      else if k = ''less_than'' then
        into_field pf_LessThan_update out (decode_ptr yaml_int 0 v (pf_LessThan out))
      else if k = ''less_than_or_equal'' then
        into_field pf_LessThanOrEqual_update out (decode_ptr yaml_int 0 v (pf_LessThanOrEqual out))
      else if k = ''greater_than'' then
        into_field pf_GreaterThan_update out (decode_ptr yaml_int 0 v (pf_GreaterThan out))
      else if k = ''greater_than_or_equal'' then
        into_field pf_GreaterThanOrEqual_update out
          (decode_ptr yaml_int 0 v (pf_GreaterThanOrEqual out))
      else if k = ''string_regex'' then
        into_field pf_StringRegex_update out (decode_ptr (yaml_Regexp d) '''' v (pf_StringRegex out))
      else if k = ''filename_regex'' then
        into_field pf_FilenameRegex_update out
          (decode_ptr (yaml_Regexp d) '''' v (pf_FilenameRegex out))
      else Inl (field_not_found k ''settings.wrapper''))"

text \<open>
  A definition of the recursion below may pass the decoder to
  \<open>PatternFilter.UnmarshalYAML\<close>, which calls it on the fresh wrapper only.
\<close>

lemma PatternFilter_UnmarshalYAML_cong [fundef_cong]:
  "unmarshal zero_PatternFilter = unmarshal' zero_PatternFilter \<Longrightarrow> flt = flt' \<Longrightarrow>
   PatternFilter_UnmarshalYAML unmarshal flt = PatternFilter_UnmarshalYAML unmarshal' flt'"
  by (simp add: PatternFilter_UnmarshalYAML_def)

text \<open>
  \<open>yaml_PatternFilter d n\<close> decodes the node \<open>n\<close> into a target of type
  \<open>PatternFilter\<close>: the type has the method, so the decoder calls it with itself as the
  callback, unless the node is null, which it never hands to a method.
  \<open>yaml_wrapper d n\<close> is that callback on a \<open>*wrapper\<close>: a plain struct, decoded as
  \<open>decode_struct\<close> does, with \<open>yaml_wrapper_field d k v\<close> for the node \<open>v\<close> under the
  key \<open>k\<close>. The fields \<open>Not\<close>, \<open>Either\<close> and \<open>Filters\<close> hold filters, whose nodes go
  through \<open>yaml_PatternFilter\<close> again: a pointer as \<open>decode_ptr\<close> does, the elements
  of a slice as \<open>decode_elems\<close> does. The recursion is written out, since it runs
  through the nodes of the document.
\<close>

fun yaml_PatternFilter :: "decoder \<Rightarrow> yaml \<Rightarrow> PatternFilter unmarshal"
  and yaml_wrapper :: "decoder \<Rightarrow> yaml \<Rightarrow> PatternFilter unmarshal"
  and yaml_wrapper_fields :: "decoder \<Rightarrow> (string \<times> yaml) list \<Rightarrow> PatternFilter unmarshal"
  and yaml_wrapper_field :: "decoder \<Rightarrow> string \<Rightarrow> yaml \<Rightarrow> PatternFilter unmarshal"
  and yaml_PatternFilters :: "decoder \<Rightarrow> yaml list \<Rightarrow> error + PatternFilter list"
where
  "yaml_PatternFilter d n out =
     (case n of
        YNull \<Rightarrow> Inr out
      | _ \<Rightarrow> PatternFilter_UnmarshalYAML (\<lambda>target. yaml_wrapper d n target) out)"
| "yaml_wrapper d n out =
     (case n of
        YNull \<Rightarrow> Inr out
      | YMap kvs \<Rightarrow>
          if distinct (map fst kvs) then yaml_wrapper_fields d kvs out
          else Inl key_already_defined
      | _ \<Rightarrow> Inl (cannot_unmarshal n ''settings.wrapper''))"
| "yaml_wrapper_fields d [] out = Inr out"
| "yaml_wrapper_fields d ((k, v) # kvs) out =
     (if k \<notin> set PatternFilter_keys then
        (if knownFields d then Inl (field_not_found k ''settings.wrapper'')
         else yaml_wrapper_fields d kvs out)
      else
        (case yaml_wrapper_field d k v out of
           Inl err \<Rightarrow> Inl err
         | Inr out' \<Rightarrow> yaml_wrapper_fields d kvs out'))"
| "yaml_wrapper_field d k v out =
     (if k = ''not'' then
        (case v of
           YNull \<Rightarrow> Inr (pf_Not_update None out)
         | _ \<Rightarrow>
             (case yaml_PatternFilter d v
                     (case pf_Not out of None \<Rightarrow> zero_PatternFilter | Some f \<Rightarrow> f) of
                Inl err \<Rightarrow> Inl err
              | Inr f \<Rightarrow> Inr (pf_Not_update (Some f) out)))
      else if k = ''either'' then
        (case v of
           YNull \<Rightarrow> Inr (pf_Either_update [] out)
         | YSeq ns \<Rightarrow>
             (case yaml_PatternFilters d ns of
                Inl err \<Rightarrow> Inl err
              | Inr fs \<Rightarrow> Inr (pf_Either_update fs out))
         | _ \<Rightarrow> Inl (cannot_unmarshal v ''[]settings.PatternFilter''))
      else if k = ''filters'' then
        (case v of
           YNull \<Rightarrow> Inr (pf_Filters_update [] out)
         | YSeq ns \<Rightarrow>
             (case yaml_PatternFilters d ns of
                Inl err \<Rightarrow> Inl err
              | Inr fs \<Rightarrow> Inr (pf_Filters_update fs out))
         | _ \<Rightarrow> Inl (cannot_unmarshal v ''[]settings.PatternFilter''))
      else yaml_wrapper_leaf d k v out)"
| "yaml_PatternFilters d [] = Inr []"
| "yaml_PatternFilters d (n # ns) =
     (if n = YNull then yaml_PatternFilters d ns
      else
        (case yaml_PatternFilter d n zero_PatternFilter of
           Inl err \<Rightarrow> Inl err
         | Inr f \<Rightarrow>
             (case yaml_PatternFilters d ns of
                Inl err \<Rightarrow> Inl err
              | Inr fs \<Rightarrow> Inr (f # fs))))"

fun yaml_PatternFilter_slice :: "decoder \<Rightarrow> yaml \<Rightarrow> (PatternFilter list) unmarshal" where
  "yaml_PatternFilter_slice d YNull out = Inr []"
| "yaml_PatternFilter_slice d (YSeq ns) out = yaml_PatternFilters d ns"
| "yaml_PatternFilter_slice d n out = Inl (cannot_unmarshal n ''[]settings.PatternFilter'')"

text \<open>
  The callback of \<open>RulePattern.UnmarshalYAML\<close> on a \<open>*rawRulePattern\<close>: the plain
  struct with the keys \<open>pattern\<close>, \<open>focus\<close> and \<open>filters\<close>.
\<close>

definition RulePattern_keys :: "string list" where
  "RulePattern_keys =
     [''pattern'', ''focus'', ''filters'']"

definition yaml_rawRulePattern_field :: "decoder \<Rightarrow> string \<Rightarrow> yaml \<Rightarrow> RulePattern unmarshal" where
  "yaml_rawRulePattern_field d k v out =
     (if k = ''pattern'' then
        into_field (\<lambda>x r. r\<lparr>rp_Pattern := x\<rparr>) out (yaml_string v (rp_Pattern out))
      else if k = ''focus'' then
        into_field (\<lambda>x r. r\<lparr>rp_Focus := x\<rparr>) out (yaml_string v (rp_Focus out))
      else if k = ''filters'' then
        into_field (\<lambda>x r. r\<lparr>rp_Filters := x\<rparr>) out (yaml_PatternFilter_slice d v (rp_Filters out))
      else Inl (field_not_found k ''settings.rawRulePattern''))"

definition yaml_rawRulePattern :: "decoder \<Rightarrow> yaml \<Rightarrow> RulePattern unmarshal" where
  "yaml_rawRulePattern d n out =
     decode_struct d ''settings.rawRulePattern'' RulePattern_keys (yaml_rawRulePattern_field d) n out"


text \<open>The callback that the decoder hands to \<open>RulePattern.UnmarshalYAML\<close> at a node.\<close>

definition yaml_unmarshal :: "decoder \<Rightarrow> yaml \<Rightarrow> unmarshal_RulePattern" where
  "yaml_unmarshal d n =
     \<lparr>into_string = yaml_string n, into_rawRulePattern = yaml_rawRulePattern d n\<rparr>"

text \<open>Decoding a node into a target of type \<open>RulePattern\<close>, which has the method.\<close>

definition yaml_RulePattern :: "decoder \<Rightarrow> yaml \<Rightarrow> RulePattern unmarshal" where
  "yaml_RulePattern d n out =
     (case n of
        YNull \<Rightarrow> Inr out
      | _ \<Rightarrow> RulePattern_UnmarshalYAML (yaml_unmarshal d n) out)"

definition yaml_RulePattern_slice :: "decoder \<Rightarrow> yaml \<Rightarrow> (RulePattern list) unmarshal" where
  "yaml_RulePattern_slice d n out =
     decode_slice ''[]settings.RulePattern'' (\<lambda>e. yaml_RulePattern d e zero_RulePattern) n out"


subsection \<open>Decoding rules\<close>

text \<open>
  The other structs of a rule have no method of their own: each is decoded as a plain
  struct, field by field, from the keys of its \<open>yaml\<close> tags.
\<close>

text \<open>The struct \<open>Dependency\<close>.\<close>

definition Dependency_keys :: "string list" where
  "Dependency_keys =
     [''filename'', ''name'', ''min_version'']"

definition yaml_Dependency_field :: "decoder \<Rightarrow> string \<Rightarrow> yaml \<Rightarrow> Dependency unmarshal" where
  "yaml_Dependency_field d k v out =
     (if k = ''filename'' then
        into_field (\<lambda>x r. r\<lparr>dep_Filename := x\<rparr>) out (yaml_string v (dep_Filename out))
      else if k = ''name'' then
        into_field (\<lambda>x r. r\<lparr>dep_Name := x\<rparr>) out (yaml_string v (dep_Name out))
      else if k = ''min_version'' then
        into_field (\<lambda>x r. r\<lparr>dep_MinVersion := x\<rparr>) out (yaml_string v (dep_MinVersion out))
      else Inl (field_not_found k ''settings.Dependency''))"

definition yaml_Dependency :: "decoder \<Rightarrow> yaml \<Rightarrow> Dependency unmarshal" where
  "yaml_Dependency d n out =
     decode_struct d ''settings.Dependency'' Dependency_keys (yaml_Dependency_field d) n out"

text \<open>The struct \<open>MetaVar\<close>.\<close>

definition MetaVar_keys :: "string list" where
  "MetaVar_keys =
     [''input'', ''output'', ''regex'']"

definition yaml_MetaVar_field :: "decoder \<Rightarrow> string \<Rightarrow> yaml \<Rightarrow> MetaVar unmarshal" where
  "yaml_MetaVar_field d k v out =
     (if k = ''input'' then
        into_field (\<lambda>x r. r\<lparr>mv_Input := x\<rparr>) out (yaml_string v (mv_Input out))
      else if k = ''output'' then
        into_field (\<lambda>x r. r\<lparr>mv_Output := x\<rparr>) out (yaml_int v (mv_Output out))
      else if k = ''regex'' then
        into_field (\<lambda>x r. r\<lparr>mv_Regex := x\<rparr>) out (yaml_string v (mv_Regex out))
      else Inl (field_not_found k ''settings.MetaVar''))"

definition yaml_MetaVar :: "decoder \<Rightarrow> yaml \<Rightarrow> MetaVar unmarshal" where
  "yaml_MetaVar d n out =
     decode_struct d ''settings.MetaVar'' MetaVar_keys (yaml_MetaVar_field d) n out"

definition yaml_MetaVar_map ::
  "decoder \<Rightarrow> yaml \<Rightarrow> ((string \<times> MetaVar) list) unmarshal" where
  "yaml_MetaVar_map d n out =
     decode_map ''map[string]settings.MetaVar'' (\<lambda>e. yaml_MetaVar d e zero_MetaVar) zero_MetaVar n out"

text \<open>The struct \<open>RuleTrigger\<close>.\<close>

definition RuleTrigger_keys :: "string list" where
  "RuleTrigger_keys =
     [''match_on'', ''data_types_required'', ''required_detection'']"

definition yaml_RuleTrigger_field :: "decoder \<Rightarrow> string \<Rightarrow> yaml \<Rightarrow> RuleTrigger unmarshal" where
  "yaml_RuleTrigger_field d k v out =
     (if k = ''match_on'' then
        into_field (\<lambda>x r. r\<lparr>rt_MatchOn := x\<rparr>) out (yaml_string v (rt_MatchOn out))
      else if k = ''data_types_required'' then
        into_field (\<lambda>x r. r\<lparr>rt_DataTypesRequired := x\<rparr>) out (yaml_bool v (rt_DataTypesRequired out))
      else if k = ''required_detection'' then
        into_field (\<lambda>x r. r\<lparr>rt_RequiredDetection := x\<rparr>) out (decode_ptr yaml_string '''' v (rt_RequiredDetection out))
      else Inl (field_not_found k ''settings.RuleTrigger''))"

definition yaml_RuleTrigger :: "decoder \<Rightarrow> yaml \<Rightarrow> RuleTrigger unmarshal" where
  "yaml_RuleTrigger d n out =
     decode_struct d ''settings.RuleTrigger'' RuleTrigger_keys (yaml_RuleTrigger_field d) n out"

text \<open>The struct \<open>RuleDefinitionTrigger\<close>.\<close>

definition RuleDefinitionTrigger_keys :: "string list" where
  "RuleDefinitionTrigger_keys =
     [''match_on'', ''required_detection'', ''data_types_required'']"

definition yaml_RuleDefinitionTrigger_field :: "decoder \<Rightarrow> string \<Rightarrow> yaml \<Rightarrow> RuleDefinitionTrigger unmarshal" where
  "yaml_RuleDefinitionTrigger_field d k v out =
     (if k = ''match_on'' then
        into_field (\<lambda>x r. r\<lparr>dt_MatchOn := x\<rparr>) out (decode_ptr yaml_string '''' v (dt_MatchOn out))
      else if k = ''required_detection'' then
        into_field (\<lambda>x r. r\<lparr>dt_RequiredDetection := x\<rparr>) out (decode_ptr yaml_string '''' v (dt_RequiredDetection out))
      else if k = ''data_types_required'' then
        into_field (\<lambda>x r. r\<lparr>dt_DataTypesRequired := x\<rparr>) out (decode_ptr yaml_bool False v (dt_DataTypesRequired out))
      else Inl (field_not_found k ''settings.RuleDefinitionTrigger''))"

definition yaml_RuleDefinitionTrigger :: "decoder \<Rightarrow> yaml \<Rightarrow> RuleDefinitionTrigger unmarshal" where
  "yaml_RuleDefinitionTrigger d n out =
     decode_struct d ''settings.RuleDefinitionTrigger'' RuleDefinitionTrigger_keys (yaml_RuleDefinitionTrigger_field d) n out"

text \<open>The struct \<open>RuleMetadata\<close>.\<close>

definition RuleMetadata_keys :: "string list" where
  "RuleMetadata_keys =
     [''description'', ''remediation_message'', ''cwe_id'', ''associated_recipe'',
      ''id'', ''documentation_url'']"

definition yaml_RuleMetadata_field :: "decoder \<Rightarrow> string \<Rightarrow> yaml \<Rightarrow> RuleMetadata unmarshal" where
  "yaml_RuleMetadata_field d k v out =
     (if k = ''description'' then
        into_field (\<lambda>x r. r\<lparr>meta_Description := x\<rparr>) out (yaml_string v (meta_Description out))
      else if k = ''remediation_message'' then
        into_field (\<lambda>x r. r\<lparr>meta_RemediationMessage := x\<rparr>) out (yaml_string v (meta_RemediationMessage out))
      else if k = ''cwe_id'' then
        into_field (\<lambda>x r. r\<lparr>meta_CWEIDs := x\<rparr>) out (yaml_string_slice v (meta_CWEIDs out))
      else if k = ''associated_recipe'' then
        into_field (\<lambda>x r. r\<lparr>meta_AssociatedRecipe := x\<rparr>) out (yaml_string v (meta_AssociatedRecipe out))
      else if k = ''id'' then
        into_field (\<lambda>x r. r\<lparr>meta_ID := x\<rparr>) out (yaml_string v (meta_ID out))
      else if k = ''documentation_url'' then
        into_field (\<lambda>x r. r\<lparr>meta_DocumentationUrl := x\<rparr>) out (yaml_string v (meta_DocumentationUrl out))
      else Inl (field_not_found k ''settings.RuleMetadata''))"

definition yaml_RuleMetadata :: "decoder \<Rightarrow> yaml \<Rightarrow> RuleMetadata unmarshal" where
  "yaml_RuleMetadata d n out =
     decode_struct d ''settings.RuleMetadata'' RuleMetadata_keys (yaml_RuleMetadata_field d) n out"

text \<open>The struct \<open>Auxiliary\<close>.\<close>

definition Auxiliary_keys :: "string list" where
  "Auxiliary_keys =
     [''id'', ''type'', ''languages'', ''patterns'', ''sanitizer'',
      ''root_singularize'', ''root_lowercase'', ''stored'', ''detectors'',
      ''processors'', ''auto_encrypt_prefix'', ''param_parenting'', ''detect_presence'',
      ''omit_parent'']"

definition yaml_Auxiliary_field :: "decoder \<Rightarrow> string \<Rightarrow> yaml \<Rightarrow> Auxiliary unmarshal" where
  "yaml_Auxiliary_field d k v out =
     (if k = ''id'' then
        into_field (\<lambda>x r. r\<lparr>aux_Id := x\<rparr>) out (yaml_string v (aux_Id out))
      else if k = ''type'' then
        into_field (\<lambda>x r. r\<lparr>aux_Type := x\<rparr>) out (yaml_string v (aux_Type out))
      else if k = ''languages'' then
        into_field (\<lambda>x r. r\<lparr>aux_Languages := x\<rparr>) out (yaml_string_slice_nil v (aux_Languages out))
      else if k = ''patterns'' then
        into_field (\<lambda>x r. r\<lparr>aux_Patterns := x\<rparr>) out (yaml_RulePattern_slice d v (aux_Patterns out))
      else if k = ''sanitizer'' then
        into_field (\<lambda>x r. r\<lparr>aux_SanitizerRuleID := x\<rparr>) out (yaml_string v (aux_SanitizerRuleID out))
      else if k = ''root_singularize'' then
        into_field (\<lambda>x r. r\<lparr>aux_RootSingularize := x\<rparr>) out (yaml_bool v (aux_RootSingularize out))
      else if k = ''root_lowercase'' then
        into_field (\<lambda>x r. r\<lparr>aux_RootLowercase := x\<rparr>) out (yaml_bool v (aux_RootLowercase out))
      else if k = ''stored'' then
        into_field (\<lambda>x r. r\<lparr>aux_Stored := x\<rparr>) out (yaml_bool v (aux_Stored out))
      else if k = ''detectors'' then
        into_field (\<lambda>x r. r\<lparr>aux_Detectors := x\<rparr>) out (yaml_string_slice v (aux_Detectors out))
      else if k = ''processors'' then
        into_field (\<lambda>x r. r\<lparr>aux_Processors := x\<rparr>) out (yaml_string_slice v (aux_Processors out))
      else if k = ''auto_encrypt_prefix'' then
        into_field (\<lambda>x r. r\<lparr>aux_AutoEncrytPrefix := x\<rparr>) out (yaml_string v (aux_AutoEncrytPrefix out))
      else if k = ''param_parenting'' then
        into_field (\<lambda>x r. r\<lparr>aux_ParamParenting := x\<rparr>) out (yaml_bool v (aux_ParamParenting out))
      else if k = ''detect_presence'' then
        into_field (\<lambda>x r. r\<lparr>aux_DetectPresence := x\<rparr>) out (yaml_bool v (aux_DetectPresence out))
      else if k = ''omit_parent'' then
        into_field (\<lambda>x r. r\<lparr>aux_OmitParent := x\<rparr>) out (yaml_bool v (aux_OmitParent out))
      else Inl (field_not_found k ''settings.Auxiliary''))"

definition yaml_Auxiliary :: "decoder \<Rightarrow> yaml \<Rightarrow> Auxiliary unmarshal" where
  "yaml_Auxiliary d n out =
     decode_struct d ''settings.Auxiliary'' Auxiliary_keys (yaml_Auxiliary_field d) n out"

definition yaml_Auxiliary_slice :: "decoder \<Rightarrow> yaml \<Rightarrow> (Auxiliary list) unmarshal" where
  "yaml_Auxiliary_slice d n out =
     decode_slice ''[]settings.Auxiliary'' (\<lambda>e. yaml_Auxiliary d e zero_Auxiliary) n out"

text \<open>The struct \<open>RuleDefinition\<close>.\<close>

definition RuleDefinition_keys :: "string list" where
  "RuleDefinition_keys =
     [''disabled'', ''type'', ''languages'', ''imports'', ''param_parenting'',
      ''patterns'', ''sanitizer'', ''stored'', ''detectors'', ''processors'',
      ''auto_encrypt_prefix'', ''detect_presence'', ''trigger'', ''severity'',
      ''skip_data_types'', ''only_data_types'', ''has_detailed_context'', ''metadata'',
      ''auxiliary'', ''dependency_check'', ''dependency'']"

definition yaml_RuleDefinition_field :: "decoder \<Rightarrow> string \<Rightarrow> yaml \<Rightarrow> RuleDefinition unmarshal" where
  "yaml_RuleDefinition_field d k v out =
     (if k = ''disabled'' then
        into_field (\<lambda>x r. r\<lparr>def_Disabled := x\<rparr>) out (yaml_bool v (def_Disabled out))
      else if k = ''type'' then
        into_field (\<lambda>x r. r\<lparr>def_Type := x\<rparr>) out (yaml_string v (def_Type out))
      else if k = ''languages'' then
        into_field (\<lambda>x r. r\<lparr>def_Languages := x\<rparr>) out (yaml_string_slice_nil v (def_Languages out))
      else if k = ''imports'' then
        into_field (\<lambda>x r. r\<lparr>def_Imports := x\<rparr>) out (yaml_string_slice v (def_Imports out))
      else if k = ''param_parenting'' then
        into_field (\<lambda>x r. r\<lparr>def_ParamParenting := x\<rparr>) out (yaml_bool v (def_ParamParenting out))
      else if k = ''patterns'' then
        into_field (\<lambda>x r. r\<lparr>def_Patterns := x\<rparr>) out (yaml_RulePattern_slice d v (def_Patterns out))
      else if k = ''sanitizer'' then
        into_field (\<lambda>x r. r\<lparr>def_SanitizerRuleID := x\<rparr>) out (yaml_string v (def_SanitizerRuleID out))
      else if k = ''stored'' then
        into_field (\<lambda>x r. r\<lparr>def_Stored := x\<rparr>) out (yaml_bool v (def_Stored out))
      else if k = ''detectors'' then
        into_field (\<lambda>x r. r\<lparr>def_Detectors := x\<rparr>) out (yaml_string_slice v (def_Detectors out))
      else if k = ''processors'' then
        into_field (\<lambda>x r. r\<lparr>def_Processors := x\<rparr>) out (yaml_string_slice v (def_Processors out))
      else if k = ''auto_encrypt_prefix'' then
        into_field (\<lambda>x r. r\<lparr>def_AutoEncrytPrefix := x\<rparr>) out (yaml_string v (def_AutoEncrytPrefix out))
      else if k = ''detect_presence'' then
        into_field (\<lambda>x r. r\<lparr>def_DetectPresence := x\<rparr>) out (yaml_bool v (def_DetectPresence out))
      else if k = ''trigger'' then
        into_field (\<lambda>x r. r\<lparr>def_Trigger := x\<rparr>) out (decode_ptr (yaml_RuleDefinitionTrigger d) zero_RuleDefinitionTrigger v (def_Trigger out))
      else if k = ''severity'' then
        into_field (\<lambda>x r. r\<lparr>def_Severity := x\<rparr>) out (yaml_string v (def_Severity out))
      else if k = ''skip_data_types'' then
        into_field (\<lambda>x r. r\<lparr>def_SkipDataTypes := x\<rparr>) out (yaml_string_slice v (def_SkipDataTypes out))
      else if k = ''only_data_types'' then
        into_field (\<lambda>x r. r\<lparr>def_OnlyDataTypes := x\<rparr>) out (yaml_string_slice v (def_OnlyDataTypes out))
      else if k = ''has_detailed_context'' then
        into_field (\<lambda>x r. r\<lparr>def_HasDetailedContext := x\<rparr>) out (yaml_bool v (def_HasDetailedContext out))
      else if k = ''metadata'' then
        into_field (\<lambda>x r. r\<lparr>def_Metadata := x\<rparr>) out (decode_ptr (yaml_RuleMetadata d) zero_RuleMetadata v (def_Metadata out))
      else if k = ''auxiliary'' then
        into_field (\<lambda>x r. r\<lparr>def_Auxiliary := x\<rparr>) out (yaml_Auxiliary_slice d v (def_Auxiliary out))
      else if k = ''dependency_check'' then
        into_field (\<lambda>x r. r\<lparr>def_DependencyCheck := x\<rparr>) out (yaml_bool v (def_DependencyCheck out))
      else if k = ''dependency'' then
        into_field (\<lambda>x r. r\<lparr>def_Dependency := x\<rparr>) out (decode_ptr (yaml_Dependency d) zero_Dependency v (def_Dependency out))
      else Inl (field_not_found k ''settings.RuleDefinition''))"

definition yaml_RuleDefinition :: "decoder \<Rightarrow> yaml \<Rightarrow> RuleDefinition unmarshal" where
  "yaml_RuleDefinition d n out =
     decode_struct d ''settings.RuleDefinition'' RuleDefinition_keys (yaml_RuleDefinition_field d) n out"

text \<open>The struct \<open>Rule\<close>.\<close>

definition Rule_keys :: "string list" where
  "Rule_keys =
     [''id'', ''associated_recipe'', ''type'', ''trigger'', ''is_local'', ''detectors'',
      ''processors'', ''stored'', ''auto_encrypt_prefix'', ''has_detailed_context'',
      ''skip_data_types'', ''only_data_types'', ''severity'', ''description'',
      ''remediation_messafe'', ''cwe_ids'', ''languages'', ''patterns'', ''sanitizer'',
      ''documentation_url'', ''is_auxilary'', ''dependency_check'', ''dependency'',
      ''metavars'', ''param_parenting'', ''detect_presence'', ''omit_parent'']"

definition yaml_Rule_field :: "decoder \<Rightarrow> string \<Rightarrow> yaml \<Rightarrow> Rule unmarshal" where
  "yaml_Rule_field d k v out =
     (if k = ''id'' then
        into_field (\<lambda>x r. r\<lparr>rule_Id := x\<rparr>) out (yaml_string v (rule_Id out))
      else if k = ''associated_recipe'' then
        into_field (\<lambda>x r. r\<lparr>rule_AssociatedRecipe := x\<rparr>) out (yaml_string v (rule_AssociatedRecipe out))
      else if k = ''type'' then
        into_field (\<lambda>x r. r\<lparr>rule_Type := x\<rparr>) out (yaml_string v (rule_Type out))
      else if k = ''trigger'' then
        into_field (\<lambda>x r. r\<lparr>rule_Trigger := x\<rparr>) out (yaml_RuleTrigger d v (rule_Trigger out))
      else if k = ''is_local'' then
        into_field (\<lambda>x r. r\<lparr>rule_IsLocal := x\<rparr>) out (yaml_bool v (rule_IsLocal out))
      else if k = ''detectors'' then
        into_field (\<lambda>x r. r\<lparr>rule_Detectors := x\<rparr>) out (yaml_string_slice v (rule_Detectors out))
      else if k = ''processors'' then
        into_field (\<lambda>x r. r\<lparr>rule_Processors := x\<rparr>) out (yaml_string_slice v (rule_Processors out))
      else if k = ''stored'' then
        into_field (\<lambda>x r. r\<lparr>rule_Stored := x\<rparr>) out (yaml_bool v (rule_Stored out))
      else if k = ''auto_encrypt_prefix'' then
        into_field (\<lambda>x r. r\<lparr>rule_AutoEncrytPrefix := x\<rparr>) out (yaml_string v (rule_AutoEncrytPrefix out))
      else if k = ''has_detailed_context'' then
        into_field (\<lambda>x r. r\<lparr>rule_HasDetailedContext := x\<rparr>) out (yaml_bool v (rule_HasDetailedContext out))
      else if k = ''skip_data_types'' then
        into_field (\<lambda>x r. r\<lparr>rule_SkipDataTypes := x\<rparr>) out (yaml_string_slice v (rule_SkipDataTypes out))
      else if k = ''only_data_types'' then
        into_field (\<lambda>x r. r\<lparr>rule_OnlyDataTypes := x\<rparr>) out (yaml_string_slice v (rule_OnlyDataTypes out))
      else if k = ''severity'' then
        into_field (\<lambda>x r. r\<lparr>rule_Severity := x\<rparr>) out (yaml_string v (rule_Severity out))
      else if k = ''description'' then
        into_field (\<lambda>x r. r\<lparr>rule_Description := x\<rparr>) out (yaml_string v (rule_Description out))
      else if k = ''remediation_messafe'' then
        into_field (\<lambda>x r. r\<lparr>rule_RemediationMessage := x\<rparr>) out (yaml_string v (rule_RemediationMessage out))
      else if k = ''cwe_ids'' then
        into_field (\<lambda>x r. r\<lparr>rule_CWEIDs := x\<rparr>) out (yaml_string_slice v (rule_CWEIDs out))
      else if k = ''languages'' then
        into_field (\<lambda>x r. r\<lparr>rule_Languages := x\<rparr>) out (yaml_string_slice_nil v (rule_Languages out))
      else if k = ''patterns'' then
        into_field (\<lambda>x r. r\<lparr>rule_Patterns := x\<rparr>) out (yaml_RulePattern_slice d v (rule_Patterns out))
      else if k = ''sanitizer'' then
        into_field (\<lambda>x r. r\<lparr>rule_SanitizerRuleID := x\<rparr>) out (yaml_string v (rule_SanitizerRuleID out))
      else if k = ''documentation_url'' then
        into_field (\<lambda>x r. r\<lparr>rule_DocumentationUrl := x\<rparr>) out (yaml_string v (rule_DocumentationUrl out))
      else if k = ''is_auxilary'' then
        into_field (\<lambda>x r. r\<lparr>rule_IsAuxilary := x\<rparr>) out (yaml_bool v (rule_IsAuxilary out))
      else if k = ''dependency_check'' then
        into_field (\<lambda>x r. r\<lparr>rule_DependencyCheck := x\<rparr>) out (yaml_bool v (rule_DependencyCheck out))
      else if k = ''dependency'' then
        into_field (\<lambda>x r. r\<lparr>rule_Dependency := x\<rparr>) out (decode_ptr (yaml_Dependency d) zero_Dependency v (rule_Dependency out))
      else if k = ''metavars'' then
        into_field (\<lambda>x r. r\<lparr>rule_Metavars := x\<rparr>) out (yaml_MetaVar_map d v (rule_Metavars out))
      else if k = ''param_parenting'' then
        into_field (\<lambda>x r. r\<lparr>rule_ParamParenting := x\<rparr>) out (yaml_bool v (rule_ParamParenting out))
      else if k = ''detect_presence'' then
        into_field (\<lambda>x r. r\<lparr>rule_DetectPresence := x\<rparr>) out (yaml_bool v (rule_DetectPresence out))
      else if k = ''omit_parent'' then
        into_field (\<lambda>x r. r\<lparr>rule_OmitParent := x\<rparr>) out (yaml_bool v (rule_OmitParent out))
      else Inl (field_not_found k ''settings.Rule''))"

definition yaml_Rule :: "decoder \<Rightarrow> yaml \<Rightarrow> Rule unmarshal" where
  "yaml_Rule d n out =
     decode_struct d ''settings.Rule'' Rule_keys (yaml_Rule_field d) n out"


text \<open>
  Modelled from the spec: the decoder with which the rule loader reads the rule files.
  The loader (\<open>loadRules\<close>) is defined in another file of the package; the spec says
  of the rule files it parses that "Unknown keys are rejected" (4.1) and that the deserialisers
  "try strict schema first" (9). Such a decoder has \<open>knownFields\<close> set; the patterns
  that \<open>Regexp\<close> accepts stay a parameter.
\<close>

definition loader_decoder :: "(string \<Rightarrow> bool) \<Rightarrow> decoder" where
  "loader_decoder compiles = \<lparr>knownFields = True, regexpCompiles = compiles\<rparr>"

text \<open>The parameter at which every pattern is accepted, to run the decoder on documents.\<close>

definition every_pattern :: "string \<Rightarrow> bool" where
  "every_pattern pattern = True"

text \<open>
  What it is for a field to be decoded from a mapping: without the key in the mapping
  the field keeps its value; with the key, it holds what the node under the key decodes
  to.
\<close>

definition decoded_field ::
  "(string \<times> yaml) list \<Rightarrow> string \<Rightarrow> (yaml \<Rightarrow> 'a unmarshal) \<Rightarrow> 'a \<Rightarrow> 'a \<Rightarrow> bool" where
  "decoded_field kvs key decode before after =
     (case map_of kvs key of
        None \<Rightarrow> after = before
      | Some v \<Rightarrow> decode v before = Inr after)"

subsection \<open>Sample documents\<close>

text \<open>
  \<^verbatim>\<open>{variable: X, detection: aux}\<close>: a reference filter without scope and without
  the flag \<open>contains\<close>.
\<close>

definition doc_reference :: yaml where
  "doc_reference =
     YMap [(''variable'', YScalar ''X'' RStr), (''detection'', YScalar ''aux'' RStr)]"

text \<open>\<^verbatim>\<open>{variable: X, detection: aux, contains: false}\<close>\<close>

definition doc_contains_false :: yaml where
  "doc_contains_false =
     YMap [(''variable'', YScalar ''X'' RStr), (''detection'', YScalar ''aux'' RStr),
           (''contains'', YScalar ''false'' (RBool False))]"

text \<open>\<^verbatim>\<open>{variable: X, detection: aux, contains: true}\<close>\<close>

definition doc_contains_true :: yaml where
  "doc_contains_true =
     YMap [(''variable'', YScalar ''X'' RStr), (''detection'', YScalar ''aux'' RStr),
           (''contains'', YScalar ''true'' (RBool True))]"

text \<open>
  \<^verbatim>\<open>{variable: X, values: [a], contains: false}\<close>: the flag on a filter that names no
  detection.
\<close>

definition doc_values_contains_false :: yaml where
  "doc_values_contains_false =
     YMap [(''variable'', YScalar ''X'' RStr), (''values'', YSeq [YScalar ''a'' RStr]),
           (''contains'', YScalar ''false'' (RBool False))]"

text \<open>\<^verbatim>\<open>{variable: X, detection: aux, scope: result, contains: true}\<close>\<close>

definition doc_scope_contains_true :: yaml where
  "doc_scope_contains_true =
     YMap [(''variable'', YScalar ''X'' RStr), (''detection'', YScalar ''aux'' RStr),
           (''scope'', YScalar ''result'' RStr), (''contains'', YScalar ''true'' (RBool True))]"

text \<open>\<^verbatim>\<open>{variable: X, detektion: aux}\<close>: a key that names no field.\<close>

definition doc_unknown_key :: yaml where
  "doc_unknown_key =
     YMap [(''variable'', YScalar ''X'' RStr), (''detektion'', YScalar ''aux'' RStr)]"

text \<open>The pattern \<^verbatim>\<open>logger.info($X)\<close> as a bare string.\<close>

definition doc_pattern_string :: yaml where
  "doc_pattern_string = YScalar ''logger.info($X)'' RStr"

text \<open>
  \<^verbatim>\<open>{pattern: Tracer.in_span($A), focus: A, filters: [{variable: A, detection: aux}]}\<close>
\<close>

definition doc_pattern_mapping :: yaml where
  "doc_pattern_mapping =
     YMap [(''pattern'', YScalar ''Tracer.in_span($A)'' RStr), (''focus'', YScalar ''A'' RStr),
           (''filters'',
            YSeq [YMap [(''variable'', YScalar ''A'' RStr), (''detection'', YScalar ''aux'' RStr)]])]"

text \<open>\<^verbatim>\<open>{pattern: p, filterz: []}\<close>: a key that names no field.\<close>

definition doc_pattern_unknown_key :: yaml where
  "doc_pattern_unknown_key = YMap [(''pattern'', YScalar ''p'' RStr), (''filterz'', YSeq [])]"

text \<open>
  \<^verbatim>\<open>{pattern: p, filters: [{variable: X, detektion: aux}]}\<close>: the key that names no
  field stands in a filter of the pattern.
\<close>

definition doc_nested_unknown_key :: yaml where
  "doc_nested_unknown_key =
     YMap [(''pattern'', YScalar ''p'' RStr),
           (''filters'',
            YSeq [YMap [(''variable'', YScalar ''X'' RStr),
                        (''detektion'', YScalar ''aux'' RStr)]])]"

text \<open>
  \<^verbatim>\<open>{id: logger_leak, languages: [ruby], patterns: [logger.info($X)], severety: high}\<close>:
  a rule with a key that names no field of \<open>Rule\<close>.
\<close>

definition doc_rule_unknown_key :: yaml where
  "doc_rule_unknown_key =
     YMap [(''id'', YScalar ''logger_leak'' RStr),
           (''languages'', YSeq [YScalar ''ruby'' RStr]),
           (''patterns'', YSeq [YScalar ''logger.info($X)'' RStr]),
           (''severety'', YScalar ''high'' RStr)]"

text \<open>
  \<^verbatim>\<open>{id: logger_leak, patterns: [{pattern: p, filters: [{not: {variable: X, detektion: aux}}]}]}\<close>:
  a rule whose keys are all declared, with the key that names no field in the filter
  under \<open>not\<close> of a filter of a pattern.
\<close>

definition doc_rule_nested_unknown_key :: yaml where
  "doc_rule_nested_unknown_key =
     YMap [(''id'', YScalar ''logger_leak'' RStr),
           (''patterns'',
            YSeq [YMap [(''pattern'', YScalar ''p'' RStr),
                        (''filters'',
                         YSeq [YMap [(''not'',
                                      YMap [(''variable'', YScalar ''X'' RStr),
                                            (''detektion'', YScalar ''aux'' RStr)])]])]])]"

text \<open>
  \<^verbatim>\<open>{type: risk, metadata: {id: logger_leak, cwe: [532]}}\<close>: a rule definition with
  a key that names no field of \<open>RuleMetadata\<close>.
\<close>

definition doc_definition_unknown_key :: yaml where
  "doc_definition_unknown_key =
     YMap [(''type'', YScalar ''risk'' RStr),
           (''metadata'',
            YMap [(''id'', YScalar ''logger_leak'' RStr),
                  (''cwe'', YSeq [YScalar ''532'' (RInt 532)])])]"

text \<open>
  \<^verbatim>\<open>{id: logger_leak, languages: [ruby], patterns: [logger.info($X)], severity: high}\<close>:
  the rule with every key declared.
\<close>

definition doc_rule :: yaml where
  "doc_rule =
     YMap [(''id'', YScalar ''logger_leak'' RStr),
           (''languages'', YSeq [YScalar ''ruby'' RStr]),
           (''patterns'', YSeq [YScalar ''logger.info($X)'' RStr]),
           (''severity'', YScalar ''high'' RStr)]"

section \<open>Keys that name no field\<close>

text \<open>
  The types that a node of a rule document is decoded into: the structs of the package
  with \<open>yaml\<close> tags, the slices and the map of structs among their fields, and
  \<open>TOther\<close> for every type that holds no struct (strings, booleans, integers, slices
  of strings, regular expressions).
\<close>

datatype target =
    TRuleDefinition
  | TRuleDefinitionTrigger
  | TRuleMetadata
  | TAuxiliary
  | TAuxiliary_slice
  | TDependency
  | TRule
  | TRuleTrigger
  | TMetaVar
  | TMetaVar_map
  | TRulePattern
  | TRulePattern_slice
  | TPatternFilter
  | TPatternFilter_slice
  | TRuleReferenceImport
  | TRuleReferenceImport_slice
  | TOther

text \<open>
  The declared fields of each struct: the key of the \<open>yaml\<close> tag with the type of the
  field, a pointer standing for the type it points to.
\<close>

definition PatternFilter_fields :: "(string \<times> target) list" where
  "PatternFilter_fields =
     [(''not'', TPatternFilter), (''either'', TPatternFilter_slice), (''variable'', TOther),
      (''detection'', TOther), (''scope'', TOther), (''filters'', TPatternFilter_slice),
      (''imports'', TRuleReferenceImport_slice), (''contains'', TOther), (''regex'', TOther),
      (''values'', TOther), (''length_less_than'', TOther), (''less_than'', TOther),
      (''less_than_or_equal'', TOther), (''greater_than'', TOther),
      (''greater_than_or_equal'', TOther), (''string_regex'', TOther),
      (''filename_regex'', TOther)]"

definition RuleReferenceImport_fields :: "(string \<times> target) list" where
  "RuleReferenceImport_fields =
     [(''variable'', TOther), (''as'', TOther)]"

definition RulePattern_fields :: "(string \<times> target) list" where
  "RulePattern_fields =
     [(''pattern'', TOther), (''focus'', TOther), (''filters'', TPatternFilter_slice)]"

definition Dependency_fields :: "(string \<times> target) list" where
  "Dependency_fields =
     [(''filename'', TOther), (''name'', TOther), (''min_version'', TOther)]"

definition MetaVar_fields :: "(string \<times> target) list" where
  "MetaVar_fields =
     [(''input'', TOther), (''output'', TOther), (''regex'', TOther)]"

definition RuleTrigger_fields :: "(string \<times> target) list" where
  "RuleTrigger_fields =
     [(''match_on'', TOther), (''data_types_required'', TOther),
      (''required_detection'', TOther)]"

definition RuleDefinitionTrigger_fields :: "(string \<times> target) list" where
  "RuleDefinitionTrigger_fields =
     [(''match_on'', TOther), (''required_detection'', TOther),
      (''data_types_required'', TOther)]"

definition RuleMetadata_fields :: "(string \<times> target) list" where
  "RuleMetadata_fields =
     [(''description'', TOther), (''remediation_message'', TOther),
      (''cwe_id'', TOther), (''associated_recipe'', TOther), (''id'', TOther),
      (''documentation_url'', TOther)]"

definition Auxiliary_fields :: "(string \<times> target) list" where
  "Auxiliary_fields =
     [(''id'', TOther), (''type'', TOther), (''languages'', TOther),
      (''patterns'', TRulePattern_slice), (''sanitizer'', TOther),
      (''root_singularize'', TOther), (''root_lowercase'', TOther),
      (''stored'', TOther), (''detectors'', TOther), (''processors'', TOther),
      (''auto_encrypt_prefix'', TOther), (''param_parenting'', TOther),
      (''detect_presence'', TOther), (''omit_parent'', TOther)]"

definition RuleDefinition_fields :: "(string \<times> target) list" where
  "RuleDefinition_fields =
     [(''disabled'', TOther), (''type'', TOther), (''languages'', TOther),
      (''imports'', TOther), (''param_parenting'', TOther),
      (''patterns'', TRulePattern_slice), (''sanitizer'', TOther), (''stored'', TOther),
      (''detectors'', TOther), (''processors'', TOther),
      (''auto_encrypt_prefix'', TOther), (''detect_presence'', TOther),
      (''trigger'', TRuleDefinitionTrigger), (''severity'', TOther),
      (''skip_data_types'', TOther), (''only_data_types'', TOther),
      (''has_detailed_context'', TOther), (''metadata'', TRuleMetadata),
      (''auxiliary'', TAuxiliary_slice), (''dependency_check'', TOther),
      (''dependency'', TDependency)]"

definition Rule_fields :: "(string \<times> target) list" where
  "Rule_fields =
     [(''id'', TOther), (''associated_recipe'', TOther), (''type'', TOther),
      (''trigger'', TRuleTrigger), (''is_local'', TOther), (''detectors'', TOther),
      (''processors'', TOther), (''stored'', TOther), (''auto_encrypt_prefix'', TOther),
      (''has_detailed_context'', TOther), (''skip_data_types'', TOther),
      (''only_data_types'', TOther), (''severity'', TOther), (''description'', TOther),
      (''remediation_messafe'', TOther), (''cwe_ids'', TOther), (''languages'', TOther),
      (''patterns'', TRulePattern_slice), (''sanitizer'', TOther),
      (''documentation_url'', TOther), (''is_auxilary'', TOther),
      (''dependency_check'', TOther), (''dependency'', TDependency),
      (''metavars'', TMetaVar_map), (''param_parenting'', TOther),
      (''detect_presence'', TOther), (''omit_parent'', TOther)]"


datatype shape = Struct "(string \<times> target) list" | Slice target | Map target | Leaf

fun shape_of :: "target \<Rightarrow> shape" where
  "shape_of TRuleDefinition = Struct RuleDefinition_fields"
| "shape_of TRuleDefinitionTrigger = Struct RuleDefinitionTrigger_fields"
| "shape_of TRuleMetadata = Struct RuleMetadata_fields"
| "shape_of TAuxiliary = Struct Auxiliary_fields"
| "shape_of TAuxiliary_slice = Slice TAuxiliary"
| "shape_of TDependency = Struct Dependency_fields"
| "shape_of TRule = Struct Rule_fields"
| "shape_of TRuleTrigger = Struct RuleTrigger_fields"
| "shape_of TMetaVar = Struct MetaVar_fields"
| "shape_of TMetaVar_map = Map TMetaVar"
| "shape_of TRulePattern = Struct RulePattern_fields"
| "shape_of TRulePattern_slice = Slice TRulePattern"
| "shape_of TPatternFilter = Struct PatternFilter_fields"
| "shape_of TPatternFilter_slice = Slice TPatternFilter"
| "shape_of TRuleReferenceImport = Struct RuleReferenceImport_fields"
| "shape_of TRuleReferenceImport_slice = Slice TRuleReferenceImport"
| "shape_of TOther = Leaf"

text \<open>The size of a node under a key, for the recursion over a document.\<close>

lemma size_under_key [termination_simp]:
  "(k, v) \<in> set kvs \<Longrightarrow> size v < Suc (size_list (size_prod (\<lambda>k. 0) size) kvs)"
  by (induction kvs) auto

text \<open>
  \<open>undeclared_key t n\<close>: the node \<open>n\<close>, decoded into the type \<open>t\<close>, holds somewhere a
  mapping for a struct with a key that is no declared field of the struct. The key may
  stand in the mapping itself, in the node under a declared key, in an element of a
  sequence or in a value of a map. A key \<open><<\<close> is left out: unquoted it is the
  merge key of YAML, which names no field of a struct.
\<close>

fun undeclared_key :: "target \<Rightarrow> yaml \<Rightarrow> bool" where
  "undeclared_key t (YMap kvs) =
     (case shape_of t of
        Struct declared \<Rightarrow>
          (\<exists>(k, v) \<in> set kvs.
             (case map_of declared k of
                None \<Rightarrow> k \<noteq> ''<<''
              | Some t' \<Rightarrow> undeclared_key t' v))
      | Map t' \<Rightarrow> (\<exists>(k, v) \<in> set kvs. undeclared_key t' v)
      | _ \<Rightarrow> False)"
| "undeclared_key t (YSeq ns) =
     (case shape_of t of
        Slice t' \<Rightarrow> (\<exists>n \<in> set ns. undeclared_key t' n)
      | _ \<Rightarrow> False)"
| "undeclared_key t n = False"

text \<open>
  \<open>rejects d t n\<close>: the decoder \<open>d\<close> returns an error for the node \<open>n\<close> decoded into
  the type \<open>t\<close>, whatever the target holds before.
\<close>

fun rejects :: "decoder \<Rightarrow> target \<Rightarrow> yaml \<Rightarrow> bool" where
  "rejects d TRuleDefinition n = (\<forall>out. \<exists>err. yaml_RuleDefinition d n out = Inl err)"
| "rejects d TRuleDefinitionTrigger n =
     (\<forall>out. \<exists>err. yaml_RuleDefinitionTrigger d n out = Inl err)"
| "rejects d TRuleMetadata n = (\<forall>out. \<exists>err. yaml_RuleMetadata d n out = Inl err)"
| "rejects d TAuxiliary n = (\<forall>out. \<exists>err. yaml_Auxiliary d n out = Inl err)"
| "rejects d TAuxiliary_slice n = (\<forall>out. \<exists>err. yaml_Auxiliary_slice d n out = Inl err)"
| "rejects d TDependency n = (\<forall>out. \<exists>err. yaml_Dependency d n out = Inl err)"
| "rejects d TRule n = (\<forall>out. \<exists>err. yaml_Rule d n out = Inl err)"
| "rejects d TRuleTrigger n = (\<forall>out. \<exists>err. yaml_RuleTrigger d n out = Inl err)"
| "rejects d TMetaVar n = (\<forall>out. \<exists>err. yaml_MetaVar d n out = Inl err)"
| "rejects d TMetaVar_map n = (\<forall>out. \<exists>err. yaml_MetaVar_map d n out = Inl err)"
| "rejects d TRulePattern n = (\<forall>out. \<exists>err. yaml_RulePattern d n out = Inl err)"
| "rejects d TRulePattern_slice n = (\<forall>out. \<exists>err. yaml_RulePattern_slice d n out = Inl err)"
| "rejects d TPatternFilter n = (\<forall>out. \<exists>err. yaml_PatternFilter d n out = Inl err)"
| "rejects d TPatternFilter_slice n =
     (\<forall>out. \<exists>err. yaml_PatternFilter_slice d n out = Inl err)"
| "rejects d TRuleReferenceImport n =
     (\<forall>out. \<exists>err. yaml_RuleReferenceImport d n out = Inl err)"
| "rejects d TRuleReferenceImport_slice n =
     (\<forall>out. \<exists>err. yaml_RuleReferenceImport_slice d n out = Inl err)"
| "rejects d TOther n = False"

section \<open>Configuration loading (package settings)\<close>

text \<open>
  \<open>WorkerOptions\<close> with the package variables it is filled from; a \<open>time.Duration\<close>
  is a number of nanoseconds. The fields carry the prefix \<open>wo_\<close>.
\<close>

definition Second :: int where
  "Second = 1000000000"

definition Minute :: int where
  "Minute = 60 * Second"

definition Timeout :: int where
  "Timeout = 10 * Minute"

definition TimeoutFileMinimum :: int where
  "TimeoutFileMinimum = 5 * Second"

definition TimeoutFileMaximum :: int where
  "TimeoutFileMaximum = 30 * Second"

definition TimeoutFileBytesPerSecond :: int where
  "TimeoutFileBytesPerSecond = 1 * 1000"

definition TimeoutWorkerOnline :: int where
  "TimeoutWorkerOnline = 60 * Second"

definition FileSizeMaximum :: int where
  "FileSizeMaximum = 2 * 1000 * 1000"

definition ExistingWorker :: string where
  "ExistingWorker = ''''"

record WorkerOptions =
  wo_Timeout :: int
  wo_TimeoutFileMinimum :: int
  wo_TimeoutFileMaximum :: int
  wo_TimeoutFileBytesPerSecond :: int
  wo_TimeoutWorkerOnline :: int
  wo_FileSizeMaximum :: int
  wo_ExistingWorker :: string

definition defaultWorkerOptions :: WorkerOptions where
  "defaultWorkerOptions =
     \<lparr>wo_Timeout = Timeout,
      wo_TimeoutFileMinimum = TimeoutFileMinimum,
      wo_TimeoutFileMaximum = TimeoutFileMaximum,
      wo_TimeoutFileBytesPerSecond = TimeoutFileBytesPerSecond,
      wo_TimeoutWorkerOnline = TimeoutWorkerOnline,
      wo_FileSizeMaximum = FileSizeMaximum,
      wo_ExistingWorker = ExistingWorker\<rparr>"

text \<open>\<open>PolicyModule\<close> (prefix \<open>pm_\<close>) and \<open>Policy\<close> (prefix \<open>pol_\<close>).\<close>

record PolicyModule =
  pm_Path :: string
  pm_Name :: string
  pm_Content :: string

record Policy =
  pol_Type :: string
  pol_Query :: string
  pol_Modules :: "PolicyModule list"

text \<open>
  The options come from the packages \<open>flag\<close> and \<open>api\<close>, which are declared elsewhere:
  the records hold the fields that the functions here read. \<open>ScanOptions\<close> has the
  prefix \<open>scan_\<close>, \<open>ReportOptions\<close> the prefix \<open>report_\<close>, \<open>GeneralOptions\<close> the
  prefix \<open>general_\<close>, \<open>Options\<close> the prefix \<open>opts_\<close>, \<open>API\<close> the prefix \<open>api_\<close>.
  The rule options are passed on unread, so their type is a parameter.
\<close>

record ScanOptions =
  scan_Target :: string
  scan_Force :: bool
  scan_Quiet :: bool
  scan_DiffBaseBranch :: string

record ReportOptions =
  report_Format :: string
  report_Report :: string
  report_Output :: string

record GeneralOptions =
  general_IgnoreFile :: string
  general_NoColor :: bool
  general_Debug :: bool
  general_LogLevel :: string
  general_DebugProfile :: bool

record API =
  api_Error :: "string option"

record 'r Options =
  opts_ExternalRuleDir :: string
  opts_RuleOptions :: 'r
  opts_ScanOptions :: ScanOptions
  opts_ReportOptions :: ReportOptions
  opts_GeneralOptions :: GeneralOptions
  opts_Client :: "API option"

text \<open>
  \<open>LoadRulesResult\<close> (prefix \<open>lrr_\<close>) and \<open>Config\<close> (prefix \<open>cfg_\<close>). A Go map is an
  association list. The ignored fingerprints are values of a type declared elsewhere,
  a parameter here.
\<close>

record LoadRulesResult =
  lrr_BuiltInRules :: "(string \<times> Rule) list"
  lrr_Rules :: "(string \<times> Rule) list"
  lrr_CacheUsed :: bool
  lrr_BearerRulesVersion :: string

record 'i Config =
  cfg_Client :: "API option"
  cfg_Worker :: WorkerOptions
  cfg_Scan :: ScanOptions
  cfg_Report :: ReportOptions
  cfg_IgnoredFingerprints :: 'i
  cfg_StaleIgnoredFingerprintIds :: "string list"
  cfg_CloudIgnoresUsed :: bool
  cfg_Policies :: "(string \<times> Policy) list"
  cfg_Target :: string
  cfg_IgnoreFile :: string
  cfg_Rules :: "(string \<times> Rule) list"
  cfg_BuiltInRules :: "(string \<times> Rule) list"
  cfg_CacheUsed :: bool
  cfg_BearerRulesVersion :: string
  cfg_NoColor :: bool
  cfg_Debug :: bool
  cfg_LogLevel :: string
  cfg_DebugProfile :: bool

text \<open>
  What \<open>FromOptions\<close> takes from outside the package:
  \<^item> \<open>loadRules\<close>, called with the external rule directory, the rule options, the
    version descriptor and the force flag;
  \<^item> \<open>ignore.GetIgnoredFingerprints\<close>, called with the ignore file and the target;
  \<^item> \<open>policiesFs.ReadFile\<close>, the embedded directory \<open>policies/*\<close>: the text of the file
    at a path, or \<open>None\<close> when the read fails;
  \<^item> the embedded \<open>policies.yml\<close>, as \<open>yaml.Unmarshal\<close> decodes it into a list of
    policies, or the error of the decoding;
  \<^item> the constant \<open>flag.ReportSecurity\<close>.
\<close>

record ('r, 'v, 'i) environment =
  loadRules :: "string \<Rightarrow> 'r \<Rightarrow> 'v \<Rightarrow> bool \<Rightarrow> error + LoadRulesResult"
  GetIgnoredFingerprints :: "string \<Rightarrow> string \<Rightarrow> error + 'i"
  policiesFs_ReadFile :: "string \<Rightarrow> string option"
  defaultPolicies :: "error + Policy list"
  flag_ReportSecurity :: string

text \<open>
  \<open>DefaultPolicies\<close>: the decoded policies, entered into a map under their types one
  after the other; \<open>output.Fatal\<close> on a file that does not decode ends the process.
\<close>

definition DefaultPolicies :: "('r, 'v, 'i) environment \<Rightarrow> error + (string \<times> Policy) list" where
  "DefaultPolicies env =
     (case defaultPolicies env of
        Inl err \<Rightarrow> Inl (Panic ''failed to unmarshal policy file'')
      | Inr policy \<Rightarrow> Inr (fold (\<lambda>policy policies. AList.update (pol_Type policy) policy policies) policy []))"

text \<open>
  The two loops of \<open>FromOptions\<close> over the policies and over the modules of a policy.
  A module is reached through a pointer, so the assignment to \<open>module.Content\<close>
  changes the module of the policy in the map. The order in which Go ranges over the
  map is not fixed; the list is one such order.
\<close>

fun FromOptions_modules ::
  "(string \<Rightarrow> string option) \<Rightarrow> PolicyModule list \<Rightarrow> error + PolicyModule list" where
  "FromOptions_modules readFile [] = Inr []"
| "FromOptions_modules readFile (module # modules) =
     (if pm_Path module \<noteq> '''' then
        (case readFile (pm_Path module) of
           None \<Rightarrow> Inl (Error (''open '' @ pm_Path module @ '': file does not exist''))
         | Some content \<Rightarrow>
             (case FromOptions_modules readFile modules of
                Inl err \<Rightarrow> Inl err
              | Inr modules' \<Rightarrow> Inr (module\<lparr>pm_Content := content\<rparr> # modules')))
      else
        (case FromOptions_modules readFile modules of
           Inl err \<Rightarrow> Inl err
         | Inr modules' \<Rightarrow> Inr (module # modules')))"

fun FromOptions_policies ::
  "(string \<Rightarrow> string option) \<Rightarrow> (string \<times> Policy) list \<Rightarrow> error + (string \<times> Policy) list" where
  "FromOptions_policies readFile [] = Inr []"
| "FromOptions_policies readFile ((key, policy) # policies) =
     (case FromOptions_modules readFile (pol_Modules policy) of
        Inl err \<Rightarrow> Inl err
      | Inr modules' \<Rightarrow>
          (case FromOptions_policies readFile policies of
             Inl err \<Rightarrow> Inl err
           | Inr policies' \<Rightarrow> Inr ((key, policy\<lparr>pol_Modules := modules'\<rparr>) # policies')))"

text \<open>
  \<open>FromOptions\<close>. An error return of the Go function is \<open>Config{}, err\<close>: the zero
  configuration with the error, which is \<open>Inl err\<close> here.
\<close>

definition FromOptions ::
  "('r, 'v, 'i) environment \<Rightarrow> 'r Options \<Rightarrow> 'v \<Rightarrow> error + 'i Config" where
  "FromOptions env opts versionMeta =
     (case DefaultPolicies env of
        Inl p \<Rightarrow> Inl p
      | Inr policies \<Rightarrow>
     (let workerOptions = defaultWorkerOptions in
      case loadRules env (opts_ExternalRuleDir opts) (opts_RuleOptions opts) versionMeta
             (scan_Force (opts_ScanOptions opts)) of
        Inl err \<Rightarrow> Inl err
      | Inr result \<Rightarrow>
     (case FromOptions_policies (policiesFs_ReadFile env) policies of
        Inl err \<Rightarrow> Inl err
      | Inr policies \<Rightarrow>
     (case GetIgnoredFingerprints env (general_IgnoreFile (opts_GeneralOptions opts))
             (scan_Target (opts_ScanOptions opts)) of
        Inl err \<Rightarrow> Inl err
      | Inr ignoredFingerprints \<Rightarrow>
     (let config =
            \<lparr>cfg_Client = opts_Client opts,
             cfg_Worker = workerOptions,
             cfg_Scan = opts_ScanOptions opts,
             cfg_Report = opts_ReportOptions opts,
             cfg_IgnoredFingerprints = ignoredFingerprints,
             cfg_StaleIgnoredFingerprintIds = [],
             cfg_CloudIgnoresUsed = False,
             cfg_Policies = policies,
             cfg_Target = '''',
             cfg_IgnoreFile = general_IgnoreFile (opts_GeneralOptions opts),
             cfg_Rules = lrr_Rules result,
             cfg_BuiltInRules = lrr_BuiltInRules result,
             cfg_CacheUsed = lrr_CacheUsed result,
             cfg_BearerRulesVersion = lrr_BearerRulesVersion result,
             cfg_NoColor =
               (general_NoColor (opts_GeneralOptions opts)
                \<or> report_Output (opts_ReportOptions opts) \<noteq> ''''),
             cfg_Debug = general_Debug (opts_GeneralOptions opts),
             cfg_LogLevel = general_LogLevel (opts_GeneralOptions opts),
             cfg_DebugProfile = general_DebugProfile (opts_GeneralOptions opts)\<rparr>
      in if scan_DiffBaseBranch (cfg_Scan config) \<noteq> '''' then
           (if report_Report (cfg_Report config) \<noteq> flag_ReportSecurity env then
              Inl (Error ''diff base branch is only supported for the security report'')
            else if cfg_Client config \<noteq> None then
              Inl (Error ''diff base branch is not supported when using an api key'')
            else Inr config)
         else Inr config)))))"

text \<open>
  What the expansion of the policy modules is to achieve: a module with a path holds
  the text of the embedded file at that path, a module without a path keeps its
  content, and nothing else of a module or of a policy changes.
\<close>

definition module_expanded ::
  "(string \<Rightarrow> string option) \<Rightarrow> PolicyModule \<Rightarrow> PolicyModule \<Rightarrow> bool" where
  "module_expanded readFile module module' =
     (pm_Path module' = pm_Path module \<and> pm_Name module' = pm_Name module \<and>
      (if pm_Path module \<noteq> '''' then readFile (pm_Path module) = Some (pm_Content module')
       else pm_Content module' = pm_Content module))"

definition policy_expanded ::
  "(string \<Rightarrow> string option) \<Rightarrow> string \<times> Policy \<Rightarrow> string \<times> Policy \<Rightarrow> bool" where
  "policy_expanded readFile entry entry' =
     (fst entry' = fst entry \<and> pol_Type (snd entry') = pol_Type (snd entry) \<and>
      pol_Query (snd entry') = pol_Query (snd entry) \<and>
      list_all2 (module_expanded readFile) (pol_Modules (snd entry)) (pol_Modules (snd entry')))"

text \<open>
  A module whose path the embedded file system cannot read.
\<close>

definition missing_module :: "(string \<Rightarrow> string option) \<Rightarrow> PolicyModule \<Rightarrow> bool" where
  "missing_module readFile module = (pm_Path module \<noteq> '''' \<and> readFile (pm_Path module) = None)"

subsection \<open>A sample environment\<close>

text \<open>
  One policy with a module read from a file and a module with inline content, a rule
  loader and an ignore file that succeed, and options that ask for the security report.
\<close>

definition sample_policy :: Policy where
  "sample_policy =
     \<lparr>pol_Type = ''risk'', pol_Query = ''policy_failure = data.bearer.risk_policy.policy_failure'',
      pol_Modules =
        [\<lparr>pm_Path = ''policies/common.rego'', pm_Name = ''bearer.common'', pm_Content = ''''\<rparr>,
         \<lparr>pm_Path = '''', pm_Name = ''bearer.inline'', pm_Content = ''package bearer.inline''\<rparr>]\<rparr>"

definition sample_files :: "string \<Rightarrow> string option" where
  "sample_files path =
     (if path = ''policies/common.rego'' then Some ''package bearer.common'' else None)"

definition no_files :: "string \<Rightarrow> string option" where
  "no_files path = None"

definition sample_rules :: "string \<Rightarrow> unit \<Rightarrow> unit \<Rightarrow> bool \<Rightarrow> error + LoadRulesResult" where
  "sample_rules dir ruleOptions versionMeta force =
     Inr \<lparr>lrr_BuiltInRules = [], lrr_Rules = [], lrr_CacheUsed = False,
          lrr_BearerRulesVersion = ''v0.0.0''\<rparr>"

definition sample_fingerprints :: "string \<Rightarrow> string \<Rightarrow> error + unit" where
  "sample_fingerprints ignoreFile target = Inr ()"

definition sample_environment :: "(unit, unit, unit) environment" where
  "sample_environment =
     \<lparr>loadRules = sample_rules,
      GetIgnoredFingerprints = sample_fingerprints,
      policiesFs_ReadFile = sample_files,
      defaultPolicies = Inr [sample_policy],
      flag_ReportSecurity = ''security''\<rparr>"

definition sample_options :: "unit Options" where
  "sample_options =
     \<lparr>opts_ExternalRuleDir = '''',
      opts_RuleOptions = (),
      opts_ScanOptions =
        \<lparr>scan_Target = ''.'', scan_Force = False, scan_Quiet = False, scan_DiffBaseBranch = ''''\<rparr>,
      opts_ReportOptions =
        \<lparr>report_Format = '''', report_Report = ''security'', report_Output = ''''\<rparr>,
      opts_GeneralOptions =
        \<lparr>general_IgnoreFile = ''bearer.ignore'', general_NoColor = False, general_Debug = False,
         general_LogLevel = ''info'', general_DebugProfile = False\<rparr>,
      opts_Client = None\<rparr>"

text \<open>The same options with a base branch to diff against, for the privacy report.\<close>

definition sample_options_diff :: "unit Options" where
  "sample_options_diff =
     sample_options
       \<lparr>opts_ScanOptions := (opts_ScanOptions sample_options)\<lparr>scan_DiffBaseBranch := ''main''\<rparr>,
        opts_ReportOptions := (opts_ReportOptions sample_options)\<lparr>report_Report := ''privacy''\<rparr>\<rparr>"

text \<open>The configuration that the sample environment and options lead to.\<close>

definition sample_config :: "unit Config" where
  "sample_config =
     \<lparr>cfg_Client = None,
      cfg_Worker = defaultWorkerOptions,
      cfg_Scan = opts_ScanOptions sample_options,
      cfg_Report = opts_ReportOptions sample_options,
      cfg_IgnoredFingerprints = (),
      cfg_StaleIgnoredFingerprintIds = [],
      cfg_CloudIgnoresUsed = False,
      cfg_Policies =
        [(''risk'', sample_policy
           \<lparr>pol_Modules :=
              [\<lparr>pm_Path = ''policies/common.rego'', pm_Name = ''bearer.common'',
                pm_Content = ''package bearer.common''\<rparr>,
               \<lparr>pm_Path = '''', pm_Name = ''bearer.inline'',
                pm_Content = ''package bearer.inline''\<rparr>]\<rparr>)],
      cfg_Target = '''',
      cfg_IgnoreFile = ''bearer.ignore'',
      cfg_Rules = [],
      cfg_BuiltInRules = [],
      cfg_CacheUsed = False,
      cfg_BearerRulesVersion = ''v0.0.0'',
      cfg_NoColor = False,
      cfg_Debug = False,
      cfg_LogLevel = ''info'',
      cfg_DebugProfile = False\<rparr>"

section \<open>Report data (package output)\<close>

text \<open>
  A value of the empty interface, as far as the report holds one: a detection is stored
  in \<open>ReportData.Detectors\<close> as an \<open>interface{}\<close> and is expected to be a
  \<open>map[string]interface{}\<close>.
\<close>

datatype any =
    ANil
  | ABool bool
  | AInt int
  | AString string
  | ASlice "any list"
  | AMap "(string \<times> any) list"

text \<open>
  \<open>types.ReportData\<close> is declared elsewhere: the record holds the two fields that
  the package reads and writes, and the others together as \<open>rd_Other\<close>.
  \<open>Detectors\<close> is an \<open>option\<close>, \<open>None\<close> for the \<open>nil\<close> slice, because \<open>GetDataflow\<close>
  compares it with \<open>nil\<close>.
\<close>

record 'a ReportData =
  rd_Detectors :: "any list option"
  rd_SendToCloud :: bool
  rd_Other :: 'a

text \<open>
  The two functions of other packages that \<open>GetDataflow\<close> calls. Each works on the
  report data through a pointer and returns an error or \<open>nil\<close>: in the model it returns
  the report data after the call with the error, if any.
\<close>

record ('a, 'rep, 'cfg) collaborators =
  detectors_AddReportData ::
    "'a ReportData \<Rightarrow> 'rep \<Rightarrow> 'cfg \<Rightarrow> 'a ReportData \<times> error option"
  dataflow_AddReportData ::
    "'a ReportData \<Rightarrow> 'cfg \<Rightarrow> bool \<Rightarrow> 'a ReportData \<times> error option"

text \<open>
  The loop of \<open>GetDataflow\<close> over the detections. \<open>uuid.NewString()\<close> returns a fresh
  random identifier at each call: \<open>uuids i\<close> is what call number \<open>i\<close> of a run returns.
  A detection that is no map makes the type assertion panic.
\<close>

fun GetDataflow_ids :: "(nat \<Rightarrow> string) \<Rightarrow> nat \<Rightarrow> any list \<Rightarrow> error + any list" where
  "GetDataflow_ids uuids i [] = Inr []"
| "GetDataflow_ids uuids i (detection # detections) =
     (case detection of
        AMap m \<Rightarrow>
          (case GetDataflow_ids uuids (Suc i) detections of
             Inl p \<Rightarrow> Inl p
           | Inr detections' \<Rightarrow>
               Inr (AMap (AList.update ''id'' (AString (uuids i)) m) # detections'))
      | _ \<Rightarrow> Inl (Panic ''interface conversion: interface {} is not map[string]interface {}''))"

definition GetDataflow ::
  "('a, 'rep, 'cfg) collaborators \<Rightarrow> (nat \<Rightarrow> string) \<Rightarrow>
   'a ReportData \<Rightarrow> 'rep \<Rightarrow> 'cfg \<Rightarrow> bool \<Rightarrow> 'a ReportData \<times> error option" where
  "GetDataflow env uuids reportData report config isInternal =
     (case (if rd_Detectors reportData = None
            then detectors_AddReportData env reportData report config
            else (reportData, None)) of
        (reportData, Some err) \<Rightarrow> (reportData, Some err)
      | (reportData, None) \<Rightarrow>
          (case rd_Detectors reportData of
             None \<Rightarrow> dataflow_AddReportData env reportData config isInternal
           | Some detections \<Rightarrow>
               (case GetDataflow_ids uuids 0 detections of
                  Inl p \<Rightarrow> (reportData, Some p)
                | Inr detections' \<Rightarrow>
                    dataflow_AddReportData env
                      (reportData\<lparr>rd_Detectors := Some detections'\<rparr>) config isInternal)))"

text \<open>A detection without its identifier, to compare the data of two runs.\<close>

fun without_id :: "any \<Rightarrow> any" where
  "without_id (AMap m) = AMap (AList.delete ''id'' m)"
| "without_id v = v"

subsection \<open>Sample report data\<close>

text \<open>
  Collaborators that leave the report data as it is, one detection, and the
  identifiers drawn in two runs.
\<close>

definition keep_detectors :: "unit ReportData \<Rightarrow> unit \<Rightarrow> unit \<Rightarrow> unit ReportData \<times> error option" where
  "keep_detectors reportData report config = (reportData, None)"

definition keep_dataflow :: "unit ReportData \<Rightarrow> unit \<Rightarrow> bool \<Rightarrow> unit ReportData \<times> error option" where
  "keep_dataflow reportData config isInternal = (reportData, None)"

definition sample_collaborators :: "(unit, unit, unit) collaborators" where
  "sample_collaborators =
     \<lparr>detectors_AddReportData = keep_detectors, dataflow_AddReportData = keep_dataflow\<rparr>"

definition sample_detection :: any where
  "sample_detection =
     AMap [(''detector_type'', AString ''ruby''), (''type'', AString ''schema_classified'')]"

definition sample_report_data :: "unit ReportData" where
  "sample_report_data =
     \<lparr>rd_Detectors = Some [sample_detection], rd_SendToCloud = False, rd_Other = ()\<rparr>"

definition first_run_uuids :: "nat \<Rightarrow> string" where
  "first_run_uuids i = ''6ba7b810-9dad-41d1-80b4-00c04fd430c8''"

definition second_run_uuids :: "nat \<Rightarrow> string" where
  "second_run_uuids i = ''f47ac10b-58cc-4372-a567-0e02b2c3d479''"

section \<open>Properties of the deserialisers\<close>

text \<open>The update of the scope and the fields that the method reads.\<close>

lemma pf_Scope_update_sel [simp]:
  "pf_Scope (pf_Scope_update s f) = s"
  "pf_Detection (pf_Scope_update s f) = pf_Detection f"
  "pf_Contains (pf_Scope_update s f) = pf_Contains f"
  by (cases f; simp)+

lemma pf_Scope_update_idem [simp]:
  "pf_Scope_update s (pf_Scope_update s' f) = pf_Scope_update s f"
  "pf_Scope_update (pf_Scope f) f = f"
  by (cases f; simp)+

text \<open>The definitions that running the decoder on a document unfolds.\<close>

lemmas run_decoder =
  PatternFilter_UnmarshalYAML_def PatternFilter_keys_def RulePattern_keys_def
  RuleReferenceImport_keys_def yaml_wrapper_leaf_def yaml_rawRulePattern_field_def
  yaml_rawRulePattern_def yaml_RuleReferenceImport_field_def yaml_RuleReferenceImport_def
  yaml_RuleReferenceImport_slice_def yaml_RulePattern_slice_def yaml_string_slice_def
  decode_struct_def decode_slice_def decode_ptr_def into_field_def loader_decoder_def
  every_pattern_def zero_PatternFilter_def zero_RulePattern_def zero_RuleReferenceImport_def
  yaml_RulePattern_def RulePattern_UnmarshalYAML_def yaml_unmarshal_def cannot_unmarshal_def
  field_not_found_def key_already_defined_def CURSOR_SCOPE_def NESTED_SCOPE_def

subsection \<open>The flag \<open>contains\<close> and the scope\<close>

text \<open>
  C1. For every pattern filter deserialised from YAML that names a detection (its
  \<open>detection\<close> is not empty), the flag \<open>contains\<close> stands for a scope: when
  \<open>contains\<close> is false the resulting filter has the scope \<open>cursor\<close>, and when
  \<open>contains\<close> is true or absent and no scope is given the resulting filter has the
  scope \<open>nested\<close>, the default. Here \<open>wrapped\<close> is the filter as the decoder fills it
  from the keys of the mapping; the method returns it with nothing but the scope
  changed.
\<close>

theorem PatternFilter_UnmarshalYAML_contains:
  assumes "unmarshal zero_PatternFilter = Inr wrapped"
    and "pf_Detection wrapped \<noteq> ''''"
  shows "\<exists>f. PatternFilter_UnmarshalYAML unmarshal flt = Inr f \<and>
           f = pf_Scope_update (pf_Scope f) wrapped \<and>
           (pf_Contains wrapped = Some False \<longrightarrow> pf_Scope f = ''cursor'') \<and>
           (pf_Contains wrapped \<noteq> Some False \<and> pf_Scope wrapped = '''' \<longrightarrow>
              pf_Scope f = ''nested'')"
  using assms
  by (cases "pf_Contains wrapped")
    (auto simp add: PatternFilter_UnmarshalYAML_def NESTED_SCOPE_def CURSOR_SCOPE_def)

lemma doc_contains_false_wrapper:
  "yaml_wrapper (loader_decoder every_pattern) doc_contains_false zero_PatternFilter =
     Inr (PatternFilter None [] ''X'' ''aux'' '''' [] [] (Some False) None [] None None None None
            None None None)"
  by (simp add: doc_contains_false_def run_decoder)

lemma doc_contains_true_wrapper:
  "yaml_wrapper (loader_decoder every_pattern) doc_contains_true zero_PatternFilter =
     Inr (PatternFilter None [] ''X'' ''aux'' '''' [] [] (Some True) None [] None None None None
            None None None)"
  by (simp add: doc_contains_true_def run_decoder)

theorem PatternFilter_UnmarshalYAML_contains_witness:
  "yaml_PatternFilter (loader_decoder every_pattern) doc_contains_false zero_PatternFilter =
     Inr (PatternFilter None [] ''X'' ''aux'' ''cursor'' [] [] (Some False) None [] None None None
            None None None None) \<and>
   yaml_PatternFilter (loader_decoder every_pattern) doc_contains_true zero_PatternFilter =
     Inr (PatternFilter None [] ''X'' ''aux'' ''nested'' [] [] (Some True) None [] None None None
            None None None None)"
proof -
  let ?d = "loader_decoder every_pattern"
  let ?wf = "PatternFilter None [] ''X'' ''aux'' '''' [] [] (Some False) None [] None None None None
            None None None"
  let ?wt = "PatternFilter None [] ''X'' ''aux'' '''' [] [] (Some True) None [] None None None None
            None None None"
  from PatternFilter_UnmarshalYAML_contains
    [of "yaml_wrapper ?d doc_contains_false" ?wf zero_PatternFilter] doc_contains_false_wrapper
  obtain f where
    "PatternFilter_UnmarshalYAML (yaml_wrapper ?d doc_contains_false) zero_PatternFilter = Inr f"
    "f = pf_Scope_update (pf_Scope f) ?wf" "pf_Scope f = ''cursor''"
    by auto
  then have a: "PatternFilter_UnmarshalYAML (yaml_wrapper ?d doc_contains_false) zero_PatternFilter =
      Inr (pf_Scope_update ''cursor'' ?wf)"
    by simp
  from PatternFilter_UnmarshalYAML_contains
    [of "yaml_wrapper ?d doc_contains_true" ?wt zero_PatternFilter] doc_contains_true_wrapper
  obtain g where
    "PatternFilter_UnmarshalYAML (yaml_wrapper ?d doc_contains_true) zero_PatternFilter = Inr g"
    "g = pf_Scope_update (pf_Scope g) ?wt" "pf_Scope g = ''nested''"
    by auto
  then have b: "PatternFilter_UnmarshalYAML (yaml_wrapper ?d doc_contains_true) zero_PatternFilter =
      Inr (pf_Scope_update ''nested'' ?wt)"
    by simp
  have "doc_contains_false \<noteq> YNull" "doc_contains_true \<noteq> YNull"
    by (simp_all add: doc_contains_false_def doc_contains_true_def)
  with a b show ?thesis by (simp split: yaml.splits)
qed

text \<open>
  Without a detection the flag leaves the scope alone, and with a scope in the document
  the flag \<open>contains: true\<close> does not bring the default: the filter of
  \<^verbatim>\<open>{variable: X, values: [a], contains: false}\<close> has the empty scope, not
  \<open>cursor\<close>, and the filter of
  \<^verbatim>\<open>{variable: X, detection: aux, scope: result, contains: true}\<close> has the scope
  \<open>result\<close>, not \<open>nested\<close>.
\<close>

theorem contains_flag_counterexample:
  "yaml_PatternFilter (loader_decoder every_pattern) doc_values_contains_false zero_PatternFilter =
     Inr (PatternFilter None [] ''X'' '''' '''' [] [] (Some False) None [''a''] None None None
            None None None None) \<and>
   pf_Contains (PatternFilter None [] ''X'' '''' '''' [] [] (Some False) None [''a''] None None None
            None None None None) = Some False \<and>
   pf_Scope (PatternFilter None [] ''X'' '''' '''' [] [] (Some False) None [''a''] None None None
            None None None None) \<noteq> CURSOR_SCOPE \<and>
   yaml_PatternFilter (loader_decoder every_pattern) doc_scope_contains_true zero_PatternFilter =
     Inr (PatternFilter None [] ''X'' ''aux'' ''result'' [] [] (Some True) None [] None None None
            None None None None) \<and>
   pf_Contains (PatternFilter None [] ''X'' ''aux'' ''result'' [] [] (Some True) None [] None None
            None None None None None) = Some True \<and>
   pf_Scope (PatternFilter None [] ''X'' ''aux'' ''result'' [] [] (Some True) None [] None None
            None None None None None) \<noteq> NESTED_SCOPE"
  by (simp add: doc_values_contains_false_def doc_scope_contains_true_def run_decoder)

text \<open>
  C3. For every reference filter (a pattern filter whose \<open>detection\<close> is not empty)
  deserialised from YAML with no scope and no flag \<open>contains\<close>, the resulting scope is
  \<open>nested\<close>.
\<close>

theorem PatternFilter_UnmarshalYAML_default_scope:
  assumes "unmarshal zero_PatternFilter = Inr wrapped"
    and "pf_Detection wrapped \<noteq> ''''"
    and "pf_Scope wrapped = ''''"
    and "pf_Contains wrapped = None"
  shows "PatternFilter_UnmarshalYAML unmarshal flt = Inr (pf_Scope_update ''nested'' wrapped)"
  using assms by (simp add: PatternFilter_UnmarshalYAML_def NESTED_SCOPE_def)

lemma doc_reference_wrapper:
  "yaml_wrapper (loader_decoder every_pattern) doc_reference zero_PatternFilter =
     Inr (PatternFilter None [] ''X'' ''aux'' '''' [] [] None None [] None None None None None None None)"
  by (simp add: doc_reference_def run_decoder)

theorem PatternFilter_UnmarshalYAML_default_scope_witness:
  "yaml_wrapper (loader_decoder every_pattern) doc_reference zero_PatternFilter =
     Inr (PatternFilter None [] ''X'' ''aux'' '''' [] [] None None [] None None None None None
            None None) \<and>
   yaml_PatternFilter (loader_decoder every_pattern) doc_reference zero_PatternFilter =
     Inr (PatternFilter None [] ''X'' ''aux'' ''nested'' [] [] None None [] None None None None
            None None None)"
proof -
  let ?w = "PatternFilter None [] ''X'' ''aux'' '''' [] [] None None [] None None None None None None None"
  have "PatternFilter_UnmarshalYAML (yaml_wrapper (loader_decoder every_pattern) doc_reference)
          zero_PatternFilter = Inr (pf_Scope_update ''nested'' ?w)"
    using PatternFilter_UnmarshalYAML_default_scope
      [of "yaml_wrapper (loader_decoder every_pattern) doc_reference" ?w zero_PatternFilter]
      doc_reference_wrapper
    by simp
  moreover have "doc_reference \<noteq> YNull" by (simp add: doc_reference_def)
  ultimately show ?thesis using doc_reference_wrapper by (simp split: yaml.splits)
qed

subsection \<open>The decoder of the filters, by the general functions\<close>

text \<open>
  The recursion through the filters does what the general functions for structs, slices
  and their elements do.
\<close>

lemma yaml_wrapper_fields_eq:
  "yaml_wrapper_fields d kvs out =
     decode_fields d ''settings.wrapper'' PatternFilter_keys (yaml_wrapper_field d) kvs out"
  by (induction kvs arbitrary: out) (auto simp del: yaml_wrapper_field.simps split: sum.splits)

lemma yaml_wrapper_eq:
  "yaml_wrapper d n out =
     decode_struct d ''settings.wrapper'' PatternFilter_keys (yaml_wrapper_field d) n out"
  by (cases n) (simp_all add: decode_struct_def yaml_wrapper_fields_eq del: yaml_wrapper_field.simps)

lemma yaml_PatternFilters_eq:
  "yaml_PatternFilters d ns = decode_elems (\<lambda>e. yaml_PatternFilter d e zero_PatternFilter) ns"
  by (induction ns) (auto simp del: yaml_PatternFilter.simps split: sum.splits)

lemma yaml_PatternFilter_slice_eq:
  "yaml_PatternFilter_slice d n out =
     decode_slice ''[]settings.PatternFilter'' (\<lambda>e. yaml_PatternFilter d e zero_PatternFilter) n out"
  by (cases n) (simp_all add: decode_slice_def yaml_PatternFilters_eq del: yaml_PatternFilter.simps)

text \<open>
  A null element of a sequence gives no element of the slice, and a mapping that repeats
  a key is an error, whether the key names a field or not and whatever the mode of the
  decoder.
\<close>

lemma null_element_dropped:
  "yaml_PatternFilter_slice d (YSeq [YNull, doc_reference]) [] =
     (case yaml_PatternFilter d doc_reference zero_PatternFilter of
        Inl err \<Rightarrow> Inl err | Inr f \<Rightarrow> Inr [f])"
  by (simp add: doc_reference_def del: yaml_PatternFilter.simps split: sum.splits)

lemma repeated_key_rejected:
  "yaml_PatternFilter d (YMap [(''variable'', YScalar ''X'' RStr), (''variable'', YScalar ''Y'' RStr)])
     zero_PatternFilter = Inl key_already_defined"
  "yaml_PatternFilter d (YMap [(''variabel'', YScalar ''X'' RStr), (''variabel'', YScalar ''Y'' RStr)])
     zero_PatternFilter = Inl key_already_defined"
  by (simp_all add: PatternFilter_UnmarshalYAML_def)

subsection \<open>The scope of a reference filter, by the keys of its mapping\<close>

text \<open>One step of the decoding of a mapping, for one field.\<close>

lemma decoded_field_step:
  assumes "map_of kvs k = None"
    and "decoded_field kvs key decode mid after"
    and "k \<noteq> key \<Longrightarrow> mid = before"
    and "k = key \<Longrightarrow> decode v before = Inr mid"
  shows "decoded_field ((k, v) # kvs) key decode before after"
  using assms by (cases "k = key") (auto simp add: decoded_field_def split: option.splits)

text \<open>
  A struct decoded from a mapping: the field of a key holds what the node under the key
  decodes to, when the decoding of a key changes no field but its own.
\<close>

lemma decode_fields_decoded:
  assumes "decode_fields d ty keys field kvs out = Inr out'"
    and "distinct (map fst kvs)"
    and "key \<in> set keys"
    and keeps: "\<And>k v before after. k \<noteq> key \<Longrightarrow> field k v before = Inr after \<Longrightarrow>
                  sel after = sel before"
    and sets: "\<And>v before after. field key v before = Inr after \<Longrightarrow>
                  decode v (sel before) = Inr (sel after)"
  shows "decoded_field kvs key decode (sel out) (sel out')"
  using assms(1,2)
proof (induction kvs arbitrary: out)
  case Nil
  then show ?case by (simp add: decoded_field_def)
next
  case (Cons kv kvs)
  obtain k v where kv: "kv = (k, v)" by (cases kv)
  from Cons.prems(2) kv have fresh: "map_of kvs k = None" and dist: "distinct (map fst kvs)"
    by (auto simp add: map_of_eq_None_iff)
  show ?case
  proof (cases "k \<in> set keys")
    case False
    with Cons.prems(1) kv have "decode_fields d ty keys field kvs out = Inr out'"
      by (simp split: if_splits)
    from Cons.IH [OF this dist] have "decoded_field kvs key decode (sel out) (sel out')" .
    moreover from False assms(3) have "k \<noteq> key" by auto
    ultimately show ?thesis
      unfolding kv by (intro decoded_field_step [OF fresh]) auto
  next
    case True
    with Cons.prems(1) kv obtain mid where
      step: "field k v out = Inr mid" and
      rest: "decode_fields d ty keys field kvs mid = Inr out'"
      by (simp split: sum.splits)
    from Cons.IH [OF rest dist] have "decoded_field kvs key decode (sel mid) (sel out')" .
    then show ?thesis
      unfolding kv using keeps [OF _ step] sets step
      by (intro decoded_field_step [OF fresh]) auto
  qed
qed

text \<open>
  The three fields that the method reads are decoded from the nodes under their keys;
  the decoding of another key leaves them alone.
\<close>

lemma yaml_wrapper_field_keeps:
  assumes "yaml_wrapper_field d k v out = Inr out'"
  shows "k \<noteq> ''detection'' \<Longrightarrow> pf_Detection out' = pf_Detection out"
    and "k \<noteq> ''scope'' \<Longrightarrow> pf_Scope out' = pf_Scope out"
    and "k \<noteq> ''contains'' \<Longrightarrow> pf_Contains out' = pf_Contains out"
  using assms
  by (cases out; auto simp add: yaml_wrapper_leaf_def into_field_def
      split: if_splits sum.splits yaml.splits)+

lemma yaml_wrapper_field_sets:
  "yaml_wrapper_field d ''detection'' v out = Inr out' \<Longrightarrow>
     yaml_string v (pf_Detection out) = Inr (pf_Detection out')"
  "yaml_wrapper_field d ''scope'' v out = Inr out' \<Longrightarrow>
     yaml_string v (pf_Scope out) = Inr (pf_Scope out')"
  "yaml_wrapper_field d ''contains'' v out = Inr out' \<Longrightarrow>
     decode_ptr yaml_bool False v (pf_Contains out) = Inr (pf_Contains out')"
  by (cases out; auto simp add: yaml_wrapper_leaf_def into_field_def split: sum.splits)+

lemma yaml_wrapper_decoded:
  assumes "yaml_wrapper d (YMap kvs) out = Inr out'"
  shows "decoded_field kvs ''detection'' yaml_string (pf_Detection out) (pf_Detection out')"
    and "decoded_field kvs ''scope'' yaml_string (pf_Scope out) (pf_Scope out')"
    and "decoded_field kvs ''contains'' (decode_ptr yaml_bool False)
           (pf_Contains out) (pf_Contains out')"
proof -
  from assms have f: "decode_fields d ''settings.wrapper'' PatternFilter_keys
      (yaml_wrapper_field d) kvs out = Inr out'" and dist: "distinct (map fst kvs)"
    by (simp_all add: yaml_wrapper_fields_eq del: yaml_wrapper_field.simps split: if_splits)
  show "decoded_field kvs ''detection'' yaml_string (pf_Detection out) (pf_Detection out')"
    by (rule decode_fields_decoded [OF f dist])
      (simp_all add: PatternFilter_keys_def yaml_wrapper_field_keeps yaml_wrapper_field_sets
        del: yaml_wrapper_field.simps)
  show "decoded_field kvs ''scope'' yaml_string (pf_Scope out) (pf_Scope out')"
    by (rule decode_fields_decoded [OF f dist])
      (simp_all add: PatternFilter_keys_def yaml_wrapper_field_keeps yaml_wrapper_field_sets
        del: yaml_wrapper_field.simps)
  show "decoded_field kvs ''contains'' (decode_ptr yaml_bool False)
           (pf_Contains out) (pf_Contains out')"
    by (rule decode_fields_decoded [OF f dist])
      (simp_all add: PatternFilter_keys_def yaml_wrapper_field_keeps yaml_wrapper_field_sets
        del: yaml_wrapper_field.simps)
qed

text \<open>
  The scope of a reference filter, read off the document: with \<^verbatim>\<open>contains: false\<close>
  the scope is \<open>cursor\<close>; with \<^verbatim>\<open>contains: true\<close> or no key \<open>contains\<close>, and no
  key \<open>scope\<close>, it is \<open>nested\<close>.
\<close>

lemma reference_filter_scope_of_document:
  assumes "yaml_PatternFilter d (YMap kvs) flt = Inr f"
    and "pf_Detection f \<noteq> ''''"
  shows "(map_of kvs ''contains'' = Some (YScalar text (RBool False)) \<longrightarrow> pf_Scope f = ''cursor'') \<and>
         ((map_of kvs ''contains'' = None \<or>
           map_of kvs ''contains'' = Some (YScalar text (RBool True))) \<and>
          map_of kvs ''scope'' = None \<longrightarrow> pf_Scope f = ''nested'')"
proof -
  from assms(1) obtain wrapped where
    y: "yaml_wrapper d (YMap kvs) zero_PatternFilter = Inr wrapped" and
    u: "PatternFilter_UnmarshalYAML (yaml_wrapper d (YMap kvs)) flt = Inr f"
    by (auto simp add: PatternFilter_UnmarshalYAML_def simp del: yaml_wrapper.simps
        split: sum.splits)
  from yaml_wrapper_decoded [OF y] have
    s: "decoded_field kvs ''scope'' yaml_string '''' (pf_Scope wrapped)" and
    c: "decoded_field kvs ''contains'' (decode_ptr yaml_bool False) None (pf_Contains wrapped)"
    by (simp_all add: zero_PatternFilter_def)
  from u y assms(2) have det: "pf_Detection wrapped \<noteq> ''''"
    by (auto simp add: PatternFilter_UnmarshalYAML_def Let_def simp del: yaml_wrapper.simps
        split: if_splits option.splits)
  show ?thesis
  proof (intro conjI impI)
    assume "map_of kvs ''contains'' = Some (YScalar text (RBool False))"
    with c have "pf_Contains wrapped = Some False"
      by (simp add: decoded_field_def decode_ptr_def)
    with u y det show "pf_Scope f = ''cursor''"
      by (auto simp add: PatternFilter_UnmarshalYAML_def CURSOR_SCOPE_def
          simp del: yaml_wrapper.simps)
  next
    assume a: "(map_of kvs ''contains'' = None \<or>
           map_of kvs ''contains'' = Some (YScalar text (RBool True))) \<and>
          map_of kvs ''scope'' = None"
    with c have "pf_Contains wrapped \<noteq> Some False"
      by (auto simp add: decoded_field_def decode_ptr_def)
    moreover from a s have "pf_Scope wrapped = ''''" by (simp add: decoded_field_def)
    ultimately show "pf_Scope f = ''nested''"
      using u y det
      by (cases "pf_Contains wrapped")
        (auto simp add: PatternFilter_UnmarshalYAML_def NESTED_SCOPE_def
          simp del: yaml_wrapper.simps)
  qed
qed

subsection \<open>The two shapes of a rule pattern\<close>

text \<open>Each field of the struct is decoded from the node under its key.\<close>

lemma yaml_rawRulePattern_field_keeps:
  assumes "yaml_rawRulePattern_field d k v out = Inr out'"
  shows "k \<noteq> ''pattern'' \<Longrightarrow> rp_Pattern out' = rp_Pattern out"
    and "k \<noteq> ''focus'' \<Longrightarrow> rp_Focus out' = rp_Focus out"
    and "k \<noteq> ''filters'' \<Longrightarrow> rp_Filters out' = rp_Filters out"
  using assms
  by (auto simp add: yaml_rawRulePattern_field_def into_field_def split: if_splits sum.splits)

lemma yaml_rawRulePattern_field_sets:
  "yaml_rawRulePattern_field d ''pattern'' v out = Inr out' \<Longrightarrow>
     yaml_string v (rp_Pattern out) = Inr (rp_Pattern out')"
  "yaml_rawRulePattern_field d ''focus'' v out = Inr out' \<Longrightarrow>
     yaml_string v (rp_Focus out) = Inr (rp_Focus out')"
  "yaml_rawRulePattern_field d ''filters'' v out = Inr out' \<Longrightarrow>
     yaml_PatternFilter_slice d v (rp_Filters out) = Inr (rp_Filters out')"
  by (auto simp add: yaml_rawRulePattern_field_def into_field_def split: sum.splits)

text \<open>
  C2. For every rule pattern deserialised from YAML, a bare string produces a rule
  pattern whose \<open>Pattern\<close> is that string and whose \<open>Focus\<close> and \<open>Filters\<close> are
  empty, and a mapping is parsed field by field into the struct. The decoder starts a
  pattern of the list \<open>patterns\<close> from the zero value.
\<close>

theorem RulePattern_from_string_or_mapping:
  "yaml_RulePattern d (YScalar s r) zero_RulePattern =
     Inr \<lparr>rp_Pattern = s, rp_Focus = '''', rp_Filters = []\<rparr> \<and>
   (\<forall>rulePattern'. yaml_RulePattern d (YMap kvs) rulePattern = Inr rulePattern' \<longrightarrow>
      decoded_field kvs ''pattern'' yaml_string (rp_Pattern rulePattern) (rp_Pattern rulePattern') \<and>
      decoded_field kvs ''focus'' yaml_string (rp_Focus rulePattern) (rp_Focus rulePattern') \<and>
      decoded_field kvs ''filters'' (yaml_PatternFilter_slice d)
        (rp_Filters rulePattern) (rp_Filters rulePattern'))"
proof (intro conjI allI impI)
  show "yaml_RulePattern d (YScalar s r) zero_RulePattern =
     Inr \<lparr>rp_Pattern = s, rp_Focus = '''', rp_Filters = []\<rparr>"
    by (simp add: yaml_RulePattern_def RulePattern_UnmarshalYAML_def yaml_unmarshal_def
        zero_RulePattern_def)
next
  fix rulePattern'
  assume "yaml_RulePattern d (YMap kvs) rulePattern = Inr rulePattern'"
  then have f: "decode_fields d ''settings.rawRulePattern'' RulePattern_keys
      (yaml_rawRulePattern_field d) kvs rulePattern = Inr rulePattern'"
    and dist: "distinct (map fst kvs)"
    by (simp_all add: yaml_RulePattern_def RulePattern_UnmarshalYAML_def yaml_unmarshal_def
        yaml_rawRulePattern_def decode_struct_def split: if_splits)
  show "decoded_field kvs ''pattern'' yaml_string (rp_Pattern rulePattern) (rp_Pattern rulePattern')"
    by (rule decode_fields_decoded [OF f dist])
      (simp_all add: RulePattern_keys_def yaml_rawRulePattern_field_keeps
        yaml_rawRulePattern_field_sets)
  show "decoded_field kvs ''focus'' yaml_string (rp_Focus rulePattern) (rp_Focus rulePattern')"
    by (rule decode_fields_decoded [OF f dist])
      (simp_all add: RulePattern_keys_def yaml_rawRulePattern_field_keeps
        yaml_rawRulePattern_field_sets)
  show "decoded_field kvs ''filters'' (yaml_PatternFilter_slice d)
        (rp_Filters rulePattern) (rp_Filters rulePattern')"
    by (rule decode_fields_decoded [OF f dist])
      (simp_all add: RulePattern_keys_def yaml_rawRulePattern_field_keeps
        yaml_rawRulePattern_field_sets)
qed

theorem RulePattern_from_string_or_mapping_witness:
  "yaml_RulePattern (loader_decoder every_pattern) doc_pattern_string zero_RulePattern =
     Inr \<lparr>rp_Pattern = ''logger.info($X)'', rp_Focus = '''', rp_Filters = []\<rparr> \<and>
   yaml_RulePattern (loader_decoder every_pattern) doc_pattern_mapping zero_RulePattern =
     Inr \<lparr>rp_Pattern = ''Tracer.in_span($A)'', rp_Focus = ''A'',
          rp_Filters =
            [PatternFilter None [] ''A'' ''aux'' ''nested'' [] [] None None [] None None None
               None None None None]\<rparr> \<and>
   decoded_field
     [(''pattern'', YScalar ''Tracer.in_span($A)'' RStr), (''focus'', YScalar ''A'' RStr),
      (''filters'',
       YSeq [YMap [(''variable'', YScalar ''A'' RStr), (''detection'', YScalar ''aux'' RStr)]])]
     ''filters'' (yaml_PatternFilter_slice (loader_decoder every_pattern)) []
     [PatternFilter None [] ''A'' ''aux'' ''nested'' [] [] None None [] None None None
        None None None None]"
proof -
  let ?d = "loader_decoder every_pattern"
  let ?kvs = "[(''pattern'', YScalar ''Tracer.in_span($A)'' RStr), (''focus'', YScalar ''A'' RStr),
      (''filters'',
       YSeq [YMap [(''variable'', YScalar ''A'' RStr), (''detection'', YScalar ''aux'' RStr)]])]"
  let ?r = "\<lparr>rp_Pattern = ''Tracer.in_span($A)'', rp_Focus = ''A'',
          rp_Filters =
            [PatternFilter None [] ''A'' ''aux'' ''nested'' [] [] None None [] None None None
               None None None None]\<rparr>"
  have m: "yaml_RulePattern ?d (YMap ?kvs) zero_RulePattern = Inr ?r"
    by (simp add: run_decoder)
  note t = RulePattern_from_string_or_mapping
    [of ?d "''logger.info($X)''" RStr ?kvs zero_RulePattern]
  from t have s: "yaml_RulePattern ?d (YScalar ''logger.info($X)'' RStr) zero_RulePattern =
     Inr \<lparr>rp_Pattern = ''logger.info($X)'', rp_Focus = '''', rp_Filters = []\<rparr>"
    by (rule conjunct1)
  from t m have "decoded_field ?kvs ''filters'' (yaml_PatternFilter_slice ?d)
      (rp_Filters zero_RulePattern) (rp_Filters ?r)"
    by blast
  then have f: "decoded_field ?kvs ''filters'' (yaml_PatternFilter_slice ?d) []
      [PatternFilter None [] ''A'' ''aux'' ''nested'' [] [] None None [] None None None
        None None None None]"
    by (simp add: zero_RulePattern_def)
  from s m f show ?thesis
    by (simp only: doc_pattern_string_def doc_pattern_mapping_def simp_thms)
qed

subsection \<open>Keys that name no field\<close>

text \<open>
  An error in the decoding of a part is the error of the whole: of a field for its
  struct, of an element for its slice, of a value for its map, of the value pointed to
  for its pointer. In the strict mode a key that names no field is such an error.
\<close>

lemma into_field_rejects:
  "\<exists>err. r = Inl err \<Longrightarrow> \<exists>err. into_field upd out r = Inl err"
  by (auto simp add: into_field_def)

lemma decode_fields_rejects:
  assumes "knownFields d" and "(k, v) \<in> set kvs"
    and "k \<in> set keys \<Longrightarrow> \<forall>before. \<exists>err. field k v before = Inl err"
  shows "\<exists>err. decode_fields d ty keys field kvs out = Inl err"
  using assms
proof (induction kvs arbitrary: out)
  case Nil
  then show ?case by simp
next
  case (Cons kv kvs)
  obtain k' v' where kv: "kv = (k', v')" by (cases kv)
  show ?case
  proof (cases "k' \<in> set keys")
    case False
    with Cons.prems(1) kv show ?thesis by simp
  next
    case True
    show ?thesis
    proof (cases "field k' v' out")
      case (Inl err)
      with True kv show ?thesis by simp
    next
      case (Inr mid)
      have "(k, v) \<noteq> (k', v')"
      proof
        assume "(k, v) = (k', v')"
        with True Cons.prems(3) have "\<exists>err. field k' v' out = Inl err" by simp
        with Inr show False by simp
      qed
      with Cons.prems(2) kv have "(k, v) \<in> set kvs" by auto
      with Cons.IH [of mid] Cons.prems(1,3)
      have "\<exists>err. decode_fields d ty keys field kvs mid = Inl err" by blast
      with Inr True kv show ?thesis by simp
    qed
  qed
qed

lemma decode_struct_rejects:
  assumes "knownFields d" and "(k, v) \<in> set kvs"
    and "k \<in> set keys \<Longrightarrow> \<forall>before. \<exists>err. field k v before = Inl err"
  shows "\<exists>err. decode_struct d ty keys field (YMap kvs) out = Inl err"
proof -
  from assms have "\<exists>err. decode_fields d ty keys field kvs out = Inl err"
    by (rule decode_fields_rejects)
  then show ?thesis by (auto simp add: decode_struct_def)
qed

lemma decode_elems_rejects:
  assumes "n \<in> set ns" and "n \<noteq> YNull" and "\<exists>err. elem n = Inl err"
  shows "\<exists>err. decode_elems elem ns = Inl err"
  using assms by (induction ns) (auto split: sum.splits)

lemma decode_slice_rejects:
  assumes "n \<in> set ns" and "n \<noteq> YNull" and "\<exists>err. elem n = Inl err"
  shows "\<exists>err. decode_slice ty elem (YSeq ns) out = Inl err"
proof -
  from assms have "\<exists>err. decode_elems elem ns = Inl err" by (rule decode_elems_rejects)
  then show ?thesis by (simp add: decode_slice_def)
qed

lemma decode_ptr_rejects:
  assumes "v \<noteq> YNull" and "\<forall>before. \<exists>err. elem v before = Inl err"
  shows "\<exists>err. decode_ptr elem zero v out = Inl err"
proof -
  from assms(2) obtain err where
    "elem v (case out of None \<Rightarrow> zero | Some x \<Rightarrow> x) = Inl err" by blast
  with assms(1) show ?thesis by (cases v) (simp_all add: decode_ptr_def)
qed

lemma decode_entries_rejects:
  assumes "(k, v) \<in> set kvs" and "v \<noteq> YNull" and "\<exists>err. elem v = Inl err"
  shows "\<exists>err. decode_entries elem zero kvs m = Inl err"
  using assms by (induction kvs arbitrary: m) (auto split: sum.splits)

lemma decode_map_rejects:
  assumes "(k, v) \<in> set kvs" and "v \<noteq> YNull" and "\<exists>err. elem v = Inl err"
  shows "\<exists>err. decode_map ty elem zero (YMap kvs) out = Inl err"
proof -
  from assms have "\<exists>err. decode_entries elem zero kvs out = Inl err"
    by (rule decode_entries_rejects)
  then show ?thesis by (auto simp add: decode_map_def)
qed

lemma undeclared_key_not_null: "undeclared_key t n \<Longrightarrow> n \<noteq> YNull"
  by auto

lemma struct_rejects:
  assumes "knownFields d" and "(k, v) \<in> set kvs" and "map fst declared = keys"
    and "\<And>t' before. map_of declared k = Some t' \<Longrightarrow> \<exists>err. field k v before = Inl err"
  shows "\<exists>err. decode_struct d ty keys field (YMap kvs) out = Inl err"
  using assms(1,2)
proof (rule decode_struct_rejects)
  assume "k \<in> set keys"
  with assms(3) have "k \<in> fst ` set declared" by auto
  then obtain t' where "map_of declared k = Some t'"
    by (cases "map_of declared k") (auto simp add: map_of_eq_None_iff)
  with assms(4) show "\<forall>before. \<exists>err. field k v before = Inl err" by blast
qed

text \<open>
  The structs one by one: the table of the declared fields lists the keys of the
  decoder, the decoding of a key fails when the node under it is rejected for the type
  of the field, and so a mapping is rejected when it holds a key that is not declared or
  a declared key with a rejected node.
\<close>

lemma RuleReferenceImport_fields_keys: "map fst RuleReferenceImport_fields = RuleReferenceImport_keys"
  by (simp add: RuleReferenceImport_fields_def RuleReferenceImport_keys_def)

lemma yaml_RuleReferenceImport_field_rejects:
  assumes "map_of RuleReferenceImport_fields k = Some t'" and "rejects d t' v" and "v \<noteq> YNull"
  shows "\<exists>err. yaml_RuleReferenceImport_field d k v out = Inl err"
  using assms by (auto simp add: RuleReferenceImport_fields_def split: if_splits)

lemma RuleReferenceImport_mapping_rejects:
  assumes "knownFields d" and "(k, v) \<in> set kvs"
    and "\<And>t'. map_of RuleReferenceImport_fields k = Some t' \<Longrightarrow> rejects d t' v \<and> v \<noteq> YNull"
  shows "\<exists>err. yaml_RuleReferenceImport d (YMap kvs) out = Inl err"
  unfolding yaml_RuleReferenceImport_def
proof (rule struct_rejects [OF assms(1,2) RuleReferenceImport_fields_keys])
  fix t' before
  assume "map_of RuleReferenceImport_fields k = Some t'"
  with assms(3) show "\<exists>err. yaml_RuleReferenceImport_field d k v before = Inl err"
    by (blast intro: yaml_RuleReferenceImport_field_rejects)
qed

lemma RulePattern_fields_keys: "map fst RulePattern_fields = RulePattern_keys"
  by (simp add: RulePattern_fields_def RulePattern_keys_def)

lemma yaml_rawRulePattern_field_rejects:
  assumes "map_of RulePattern_fields k = Some t'" and "rejects d t' v" and "v \<noteq> YNull"
  shows "\<exists>err. yaml_rawRulePattern_field d k v out = Inl err"
proof -
  from assms(1,2) consider
    "k = ''filters''" and "t' = TPatternFilter_slice"
    by (auto simp add: RulePattern_fields_def split: if_splits)
  then show ?thesis
  proof cases
    case 1
    from assms(2) 1 have "\<exists>err. yaml_PatternFilter_slice d v (rp_Filters out) = Inl err"
      by simp
    with 1 show ?thesis
      by (auto simp add: yaml_rawRulePattern_field_def into_field_def)
  qed
qed

lemma rawRulePattern_mapping_rejects:
  assumes "knownFields d" and "(k, v) \<in> set kvs"
    and "\<And>t'. map_of RulePattern_fields k = Some t' \<Longrightarrow> rejects d t' v \<and> v \<noteq> YNull"
  shows "\<exists>err. yaml_rawRulePattern d (YMap kvs) out = Inl err"
  unfolding yaml_rawRulePattern_def
proof (rule struct_rejects [OF assms(1,2) RulePattern_fields_keys])
  fix t' before
  assume "map_of RulePattern_fields k = Some t'"
  with assms(3) show "\<exists>err. yaml_rawRulePattern_field d k v before = Inl err"
    by (blast intro: yaml_rawRulePattern_field_rejects)
qed

lemma Dependency_fields_keys: "map fst Dependency_fields = Dependency_keys"
  by (simp add: Dependency_fields_def Dependency_keys_def)

lemma yaml_Dependency_field_rejects:
  assumes "map_of Dependency_fields k = Some t'" and "rejects d t' v" and "v \<noteq> YNull"
  shows "\<exists>err. yaml_Dependency_field d k v out = Inl err"
  using assms by (auto simp add: Dependency_fields_def split: if_splits)

lemma Dependency_mapping_rejects:
  assumes "knownFields d" and "(k, v) \<in> set kvs"
    and "\<And>t'. map_of Dependency_fields k = Some t' \<Longrightarrow> rejects d t' v \<and> v \<noteq> YNull"
  shows "\<exists>err. yaml_Dependency d (YMap kvs) out = Inl err"
  unfolding yaml_Dependency_def
proof (rule struct_rejects [OF assms(1,2) Dependency_fields_keys])
  fix t' before
  assume "map_of Dependency_fields k = Some t'"
  with assms(3) show "\<exists>err. yaml_Dependency_field d k v before = Inl err"
    by (blast intro: yaml_Dependency_field_rejects)
qed

lemma MetaVar_fields_keys: "map fst MetaVar_fields = MetaVar_keys"
  by (simp add: MetaVar_fields_def MetaVar_keys_def)

lemma yaml_MetaVar_field_rejects:
  assumes "map_of MetaVar_fields k = Some t'" and "rejects d t' v" and "v \<noteq> YNull"
  shows "\<exists>err. yaml_MetaVar_field d k v out = Inl err"
  using assms by (auto simp add: MetaVar_fields_def split: if_splits)

lemma MetaVar_mapping_rejects:
  assumes "knownFields d" and "(k, v) \<in> set kvs"
    and "\<And>t'. map_of MetaVar_fields k = Some t' \<Longrightarrow> rejects d t' v \<and> v \<noteq> YNull"
  shows "\<exists>err. yaml_MetaVar d (YMap kvs) out = Inl err"
  unfolding yaml_MetaVar_def
proof (rule struct_rejects [OF assms(1,2) MetaVar_fields_keys])
  fix t' before
  assume "map_of MetaVar_fields k = Some t'"
  with assms(3) show "\<exists>err. yaml_MetaVar_field d k v before = Inl err"
    by (blast intro: yaml_MetaVar_field_rejects)
qed

lemma RuleTrigger_fields_keys: "map fst RuleTrigger_fields = RuleTrigger_keys"
  by (simp add: RuleTrigger_fields_def RuleTrigger_keys_def)

lemma yaml_RuleTrigger_field_rejects:
  assumes "map_of RuleTrigger_fields k = Some t'" and "rejects d t' v" and "v \<noteq> YNull"
  shows "\<exists>err. yaml_RuleTrigger_field d k v out = Inl err"
  using assms by (auto simp add: RuleTrigger_fields_def split: if_splits)

lemma RuleTrigger_mapping_rejects:
  assumes "knownFields d" and "(k, v) \<in> set kvs"
    and "\<And>t'. map_of RuleTrigger_fields k = Some t' \<Longrightarrow> rejects d t' v \<and> v \<noteq> YNull"
  shows "\<exists>err. yaml_RuleTrigger d (YMap kvs) out = Inl err"
  unfolding yaml_RuleTrigger_def
proof (rule struct_rejects [OF assms(1,2) RuleTrigger_fields_keys])
  fix t' before
  assume "map_of RuleTrigger_fields k = Some t'"
  with assms(3) show "\<exists>err. yaml_RuleTrigger_field d k v before = Inl err"
    by (blast intro: yaml_RuleTrigger_field_rejects)
qed

lemma RuleDefinitionTrigger_fields_keys: "map fst RuleDefinitionTrigger_fields = RuleDefinitionTrigger_keys"
  by (simp add: RuleDefinitionTrigger_fields_def RuleDefinitionTrigger_keys_def)

lemma yaml_RuleDefinitionTrigger_field_rejects:
  assumes "map_of RuleDefinitionTrigger_fields k = Some t'" and "rejects d t' v" and "v \<noteq> YNull"
  shows "\<exists>err. yaml_RuleDefinitionTrigger_field d k v out = Inl err"
  using assms by (auto simp add: RuleDefinitionTrigger_fields_def split: if_splits)

lemma RuleDefinitionTrigger_mapping_rejects:
  assumes "knownFields d" and "(k, v) \<in> set kvs"
    and "\<And>t'. map_of RuleDefinitionTrigger_fields k = Some t' \<Longrightarrow> rejects d t' v \<and> v \<noteq> YNull"
  shows "\<exists>err. yaml_RuleDefinitionTrigger d (YMap kvs) out = Inl err"
  unfolding yaml_RuleDefinitionTrigger_def
proof (rule struct_rejects [OF assms(1,2) RuleDefinitionTrigger_fields_keys])
  fix t' before
  assume "map_of RuleDefinitionTrigger_fields k = Some t'"
  with assms(3) show "\<exists>err. yaml_RuleDefinitionTrigger_field d k v before = Inl err"
    by (blast intro: yaml_RuleDefinitionTrigger_field_rejects)
qed

lemma RuleMetadata_fields_keys: "map fst RuleMetadata_fields = RuleMetadata_keys"
  by (simp add: RuleMetadata_fields_def RuleMetadata_keys_def)

lemma yaml_RuleMetadata_field_rejects:
  assumes "map_of RuleMetadata_fields k = Some t'" and "rejects d t' v" and "v \<noteq> YNull"
  shows "\<exists>err. yaml_RuleMetadata_field d k v out = Inl err"
  using assms by (auto simp add: RuleMetadata_fields_def split: if_splits)

lemma RuleMetadata_mapping_rejects:
  assumes "knownFields d" and "(k, v) \<in> set kvs"
    and "\<And>t'. map_of RuleMetadata_fields k = Some t' \<Longrightarrow> rejects d t' v \<and> v \<noteq> YNull"
  shows "\<exists>err. yaml_RuleMetadata d (YMap kvs) out = Inl err"
  unfolding yaml_RuleMetadata_def
proof (rule struct_rejects [OF assms(1,2) RuleMetadata_fields_keys])
  fix t' before
  assume "map_of RuleMetadata_fields k = Some t'"
  with assms(3) show "\<exists>err. yaml_RuleMetadata_field d k v before = Inl err"
    by (blast intro: yaml_RuleMetadata_field_rejects)
qed

lemma Auxiliary_fields_keys: "map fst Auxiliary_fields = Auxiliary_keys"
  by (simp add: Auxiliary_fields_def Auxiliary_keys_def)

lemma yaml_Auxiliary_field_rejects:
  assumes "map_of Auxiliary_fields k = Some t'" and "rejects d t' v" and "v \<noteq> YNull"
  shows "\<exists>err. yaml_Auxiliary_field d k v out = Inl err"
proof -
  from assms(1,2) consider
    "k = ''patterns''" and "t' = TRulePattern_slice"
    by (auto simp add: Auxiliary_fields_def split: if_splits)
  then show ?thesis
  proof cases
    case 1
    from assms(2) 1 have "\<exists>err. yaml_RulePattern_slice d v (aux_Patterns out) = Inl err"
      by simp
    with 1 show ?thesis
      by (auto simp add: yaml_Auxiliary_field_def into_field_def)
  qed
qed

lemma Auxiliary_mapping_rejects:
  assumes "knownFields d" and "(k, v) \<in> set kvs"
    and "\<And>t'. map_of Auxiliary_fields k = Some t' \<Longrightarrow> rejects d t' v \<and> v \<noteq> YNull"
  shows "\<exists>err. yaml_Auxiliary d (YMap kvs) out = Inl err"
  unfolding yaml_Auxiliary_def
proof (rule struct_rejects [OF assms(1,2) Auxiliary_fields_keys])
  fix t' before
  assume "map_of Auxiliary_fields k = Some t'"
  with assms(3) show "\<exists>err. yaml_Auxiliary_field d k v before = Inl err"
    by (blast intro: yaml_Auxiliary_field_rejects)
qed

lemma RuleDefinition_fields_keys: "map fst RuleDefinition_fields = RuleDefinition_keys"
  by (simp add: RuleDefinition_fields_def RuleDefinition_keys_def)

lemma yaml_RuleDefinition_field_rejects:
  assumes "map_of RuleDefinition_fields k = Some t'" and "rejects d t' v" and "v \<noteq> YNull"
  shows "\<exists>err. yaml_RuleDefinition_field d k v out = Inl err"
proof -
  from assms(1,2) consider
    "k = ''patterns''" and "t' = TRulePattern_slice" |
    "k = ''trigger''" and "t' = TRuleDefinitionTrigger" |
    "k = ''metadata''" and "t' = TRuleMetadata" |
    "k = ''auxiliary''" and "t' = TAuxiliary_slice" |
    "k = ''dependency''" and "t' = TDependency"
    by (auto simp add: RuleDefinition_fields_def split: if_splits)
  then show ?thesis
  proof cases
    case 1
    from assms(2) 1 have "\<exists>err. yaml_RulePattern_slice d v (def_Patterns out) = Inl err"
      by simp
    with 1 show ?thesis
      by (auto simp add: yaml_RuleDefinition_field_def into_field_def)
  next
    case 2
    from assms(2,3) 2 have "\<exists>err. decode_ptr (yaml_RuleDefinitionTrigger d) zero_RuleDefinitionTrigger v (def_Trigger out) = Inl err"
      by (intro decode_ptr_rejects) simp_all
    with 2 show ?thesis
      by (auto simp add: yaml_RuleDefinition_field_def into_field_def)
  next
    case 3
    from assms(2,3) 3 have "\<exists>err. decode_ptr (yaml_RuleMetadata d) zero_RuleMetadata v (def_Metadata out) = Inl err"
      by (intro decode_ptr_rejects) simp_all
    with 3 show ?thesis
      by (auto simp add: yaml_RuleDefinition_field_def into_field_def)
  next
    case 4
    from assms(2) 4 have "\<exists>err. yaml_Auxiliary_slice d v (def_Auxiliary out) = Inl err"
      by simp
    with 4 show ?thesis
      by (auto simp add: yaml_RuleDefinition_field_def into_field_def)
  next
    case 5
    from assms(2,3) 5 have "\<exists>err. decode_ptr (yaml_Dependency d) zero_Dependency v (def_Dependency out) = Inl err"
      by (intro decode_ptr_rejects) simp_all
    with 5 show ?thesis
      by (auto simp add: yaml_RuleDefinition_field_def into_field_def)
  qed
qed

lemma RuleDefinition_mapping_rejects:
  assumes "knownFields d" and "(k, v) \<in> set kvs"
    and "\<And>t'. map_of RuleDefinition_fields k = Some t' \<Longrightarrow> rejects d t' v \<and> v \<noteq> YNull"
  shows "\<exists>err. yaml_RuleDefinition d (YMap kvs) out = Inl err"
  unfolding yaml_RuleDefinition_def
proof (rule struct_rejects [OF assms(1,2) RuleDefinition_fields_keys])
  fix t' before
  assume "map_of RuleDefinition_fields k = Some t'"
  with assms(3) show "\<exists>err. yaml_RuleDefinition_field d k v before = Inl err"
    by (blast intro: yaml_RuleDefinition_field_rejects)
qed

lemma Rule_fields_keys: "map fst Rule_fields = Rule_keys"
  by (simp add: Rule_fields_def Rule_keys_def)

lemma yaml_Rule_field_rejects:
  assumes "map_of Rule_fields k = Some t'" and "rejects d t' v" and "v \<noteq> YNull"
  shows "\<exists>err. yaml_Rule_field d k v out = Inl err"
proof -
  from assms(1,2) consider
    "k = ''trigger''" and "t' = TRuleTrigger" |
    "k = ''patterns''" and "t' = TRulePattern_slice" |
    "k = ''dependency''" and "t' = TDependency" |
    "k = ''metavars''" and "t' = TMetaVar_map"
    by (auto simp add: Rule_fields_def split: if_splits)
  then show ?thesis
  proof cases
    case 1
    from assms(2) 1 have "\<exists>err. yaml_RuleTrigger d v (rule_Trigger out) = Inl err"
      by simp
    with 1 show ?thesis
      by (auto simp add: yaml_Rule_field_def into_field_def)
  next
    case 2
    from assms(2) 2 have "\<exists>err. yaml_RulePattern_slice d v (rule_Patterns out) = Inl err"
      by simp
    with 2 show ?thesis
      by (auto simp add: yaml_Rule_field_def into_field_def)
  next
    case 3
    from assms(2,3) 3 have "\<exists>err. decode_ptr (yaml_Dependency d) zero_Dependency v (rule_Dependency out) = Inl err"
      by (intro decode_ptr_rejects) simp_all
    with 3 show ?thesis
      by (auto simp add: yaml_Rule_field_def into_field_def)
  next
    case 4
    from assms(2) 4 have "\<exists>err. yaml_MetaVar_map d v (rule_Metavars out) = Inl err"
      by simp
    with 4 show ?thesis
      by (auto simp add: yaml_Rule_field_def into_field_def)
  qed
qed

lemma Rule_mapping_rejects:
  assumes "knownFields d" and "(k, v) \<in> set kvs"
    and "\<And>t'. map_of Rule_fields k = Some t' \<Longrightarrow> rejects d t' v \<and> v \<noteq> YNull"
  shows "\<exists>err. yaml_Rule d (YMap kvs) out = Inl err"
  unfolding yaml_Rule_def
proof (rule struct_rejects [OF assms(1,2) Rule_fields_keys])
  fix t' before
  assume "map_of Rule_fields k = Some t'"
  with assms(3) show "\<exists>err. yaml_Rule_field d k v before = Inl err"
    by (blast intro: yaml_Rule_field_rejects)
qed

lemma PatternFilter_fields_keys: "map fst PatternFilter_fields = PatternFilter_keys"
  by (simp add: PatternFilter_fields_def PatternFilter_keys_def)

lemma yaml_wrapper_field_rejects:
  assumes "map_of PatternFilter_fields k = Some t'" and "rejects d t' v" and "v \<noteq> YNull"
  shows "\<exists>err. yaml_wrapper_field d k v out = Inl err"
proof -
  from assms(1,2) consider
    "k = ''not''" and "t' = TPatternFilter" |
    "k = ''either''" and "t' = TPatternFilter_slice" |
    "k = ''filters''" and "t' = TPatternFilter_slice" |
    "k = ''imports''" and "t' = TRuleReferenceImport_slice"
    by (auto simp add: PatternFilter_fields_def split: if_splits)
  then show ?thesis
  proof cases
    case 1
    from assms(2) 1 obtain err where
      "yaml_PatternFilter d v (case pf_Not out of None \<Rightarrow> zero_PatternFilter | Some f \<Rightarrow> f) =
         Inl err"
      by (auto simp del: yaml_PatternFilter.simps)
    with 1 assms(3) show ?thesis
      by (cases v) (simp_all del: yaml_PatternFilter.simps)
  next
    case 2
    from assms(2) 2 obtain err where "yaml_PatternFilter_slice d v (pf_Either out) = Inl err"
      by auto
    with 2 assms(3) show ?thesis
      by (cases v) (simp_all add: cannot_unmarshal_def)
  next
    case 3
    from assms(2) 3 obtain err where "yaml_PatternFilter_slice d v (pf_Filters out) = Inl err"
      by auto
    with 3 assms(3) show ?thesis
      by (cases v) (simp_all add: cannot_unmarshal_def)
  next
    case 4
    from assms(2) 4 have
      "\<exists>err. yaml_RuleReferenceImport_slice d v (pf_Imports out) = Inl err"
      by simp
    with 4 show ?thesis
      by (auto simp add: yaml_wrapper_leaf_def into_field_def)
  qed
qed

lemma wrapper_mapping_rejects:
  assumes "knownFields d" and "(k, v) \<in> set kvs"
    and "\<And>t'. map_of PatternFilter_fields k = Some t' \<Longrightarrow> rejects d t' v \<and> v \<noteq> YNull"
  shows "\<exists>err. yaml_wrapper d (YMap kvs) out = Inl err"
  unfolding yaml_wrapper_eq
proof (rule struct_rejects [OF assms(1,2) PatternFilter_fields_keys])
  fix t' before
  assume "map_of PatternFilter_fields k = Some t'"
  with assms(3) show "\<exists>err. yaml_wrapper_field d k v before = Inl err"
    by (blast intro: yaml_wrapper_field_rejects)
qed

lemma PatternFilter_mapping_rejects:
  assumes "knownFields d" and "(k, v) \<in> set kvs"
    and "\<And>t'. map_of PatternFilter_fields k = Some t' \<Longrightarrow> rejects d t' v \<and> v \<noteq> YNull"
  shows "\<exists>err. yaml_PatternFilter d (YMap kvs) out = Inl err"
proof -
  from assms obtain err where "yaml_wrapper d (YMap kvs) zero_PatternFilter = Inl err"
    using wrapper_mapping_rejects by blast
  then show ?thesis
    by (simp add: PatternFilter_UnmarshalYAML_def del: yaml_wrapper.simps)
qed

lemma RulePattern_mapping_rejects:
  assumes "knownFields d" and "(k, v) \<in> set kvs"
    and "\<And>t'. map_of RulePattern_fields k = Some t' \<Longrightarrow> rejects d t' v \<and> v \<noteq> YNull"
  shows "\<exists>err. yaml_RulePattern d (YMap kvs) out = Inl err"
proof -
  from assms obtain err where "yaml_rawRulePattern d (YMap kvs) out = Inl err"
    using rawRulePattern_mapping_rejects by blast
  then show ?thesis
    by (simp add: yaml_RulePattern_def RulePattern_UnmarshalYAML_def yaml_unmarshal_def)
qed

text \<open>The same by the shape of the target: a struct, a slice, a map.\<close>

lemma struct_target_rejects:
  assumes known: "knownFields d" and kv: "(k, v) \<in> set kvs"
    and shape: "shape_of t = Struct declared"
    and sub: "\<And>t'. map_of declared k = Some t' \<Longrightarrow> rejects d t' v \<and> v \<noteq> YNull"
  shows "rejects d t (YMap kvs)"
proof (cases t)
  case TRuleDefinition
  with shape have "declared = RuleDefinition_fields" by simp
  with sub have "\<And>t'. map_of RuleDefinition_fields k = Some t' \<Longrightarrow> rejects d t' v \<and> v \<noteq> YNull"
    by simp
  with known kv have "\<And>out. \<exists>err. yaml_RuleDefinition d (YMap kvs) out = Inl err"
    by (rule RuleDefinition_mapping_rejects)
  with TRuleDefinition show ?thesis by simp
next
  case TRuleDefinitionTrigger
  with shape have "declared = RuleDefinitionTrigger_fields" by simp
  with sub have "\<And>t'. map_of RuleDefinitionTrigger_fields k = Some t' \<Longrightarrow> rejects d t' v \<and> v \<noteq> YNull"
    by simp
  with known kv have "\<And>out. \<exists>err. yaml_RuleDefinitionTrigger d (YMap kvs) out = Inl err"
    by (rule RuleDefinitionTrigger_mapping_rejects)
  with TRuleDefinitionTrigger show ?thesis by simp
next
  case TRuleMetadata
  with shape have "declared = RuleMetadata_fields" by simp
  with sub have "\<And>t'. map_of RuleMetadata_fields k = Some t' \<Longrightarrow> rejects d t' v \<and> v \<noteq> YNull"
    by simp
  with known kv have "\<And>out. \<exists>err. yaml_RuleMetadata d (YMap kvs) out = Inl err"
    by (rule RuleMetadata_mapping_rejects)
  with TRuleMetadata show ?thesis by simp
next
  case TAuxiliary
  with shape have "declared = Auxiliary_fields" by simp
  with sub have "\<And>t'. map_of Auxiliary_fields k = Some t' \<Longrightarrow> rejects d t' v \<and> v \<noteq> YNull"
    by simp
  with known kv have "\<And>out. \<exists>err. yaml_Auxiliary d (YMap kvs) out = Inl err"
    by (rule Auxiliary_mapping_rejects)
  with TAuxiliary show ?thesis by simp
next
  case TDependency
  with shape have "declared = Dependency_fields" by simp
  with sub have "\<And>t'. map_of Dependency_fields k = Some t' \<Longrightarrow> rejects d t' v \<and> v \<noteq> YNull"
    by simp
  with known kv have "\<And>out. \<exists>err. yaml_Dependency d (YMap kvs) out = Inl err"
    by (rule Dependency_mapping_rejects)
  with TDependency show ?thesis by simp
next
  case TRule
  with shape have "declared = Rule_fields" by simp
  with sub have "\<And>t'. map_of Rule_fields k = Some t' \<Longrightarrow> rejects d t' v \<and> v \<noteq> YNull"
    by simp
  with known kv have "\<And>out. \<exists>err. yaml_Rule d (YMap kvs) out = Inl err"
    by (rule Rule_mapping_rejects)
  with TRule show ?thesis by simp
next
  case TRuleTrigger
  with shape have "declared = RuleTrigger_fields" by simp
  with sub have "\<And>t'. map_of RuleTrigger_fields k = Some t' \<Longrightarrow> rejects d t' v \<and> v \<noteq> YNull"
    by simp
  with known kv have "\<And>out. \<exists>err. yaml_RuleTrigger d (YMap kvs) out = Inl err"
    by (rule RuleTrigger_mapping_rejects)
  with TRuleTrigger show ?thesis by simp
next
  case TMetaVar
  with shape have "declared = MetaVar_fields" by simp
  with sub have "\<And>t'. map_of MetaVar_fields k = Some t' \<Longrightarrow> rejects d t' v \<and> v \<noteq> YNull"
    by simp
  with known kv have "\<And>out. \<exists>err. yaml_MetaVar d (YMap kvs) out = Inl err"
    by (rule MetaVar_mapping_rejects)
  with TMetaVar show ?thesis by simp
next
  case TRulePattern
  with shape have "declared = RulePattern_fields" by simp
  with sub have "\<And>t'. map_of RulePattern_fields k = Some t' \<Longrightarrow> rejects d t' v \<and> v \<noteq> YNull"
    by simp
  with known kv have "\<And>out. \<exists>err. yaml_RulePattern d (YMap kvs) out = Inl err"
    by (rule RulePattern_mapping_rejects)
  with TRulePattern show ?thesis by simp
next
  case TPatternFilter
  with shape have "declared = PatternFilter_fields" by simp
  with sub have "\<And>t'. map_of PatternFilter_fields k = Some t' \<Longrightarrow> rejects d t' v \<and> v \<noteq> YNull"
    by simp
  with known kv have "\<And>out. \<exists>err. yaml_PatternFilter d (YMap kvs) out = Inl err"
    by (rule PatternFilter_mapping_rejects)
  with TPatternFilter show ?thesis by simp
next
  case TRuleReferenceImport
  with shape have "declared = RuleReferenceImport_fields" by simp
  with sub have "\<And>t'. map_of RuleReferenceImport_fields k = Some t' \<Longrightarrow> rejects d t' v \<and> v \<noteq> YNull"
    by simp
  with known kv have "\<And>out. \<exists>err. yaml_RuleReferenceImport d (YMap kvs) out = Inl err"
    by (rule RuleReferenceImport_mapping_rejects)
  with TRuleReferenceImport show ?thesis by simp
qed (use shape in simp_all)

lemma slice_target_rejects:
  assumes elem: "n \<in> set ns" and shape: "shape_of t = Slice t'"
    and sub: "rejects d t' n" and nonnull: "n \<noteq> YNull"
  shows "rejects d t (YSeq ns)"
proof (cases t)
  case TAuxiliary_slice
  with shape sub have "\<exists>err. yaml_Auxiliary d n zero_Auxiliary = Inl err" by simp
  with elem nonnull have "\<And>out. \<exists>err. yaml_Auxiliary_slice d (YSeq ns) out = Inl err"
    unfolding yaml_Auxiliary_slice_def by (intro decode_slice_rejects [where n = n]) simp_all
  with TAuxiliary_slice show ?thesis by simp
next
  case TRulePattern_slice
  with shape sub have "\<exists>err. yaml_RulePattern d n zero_RulePattern = Inl err" by simp
  with elem nonnull have "\<And>out. \<exists>err. yaml_RulePattern_slice d (YSeq ns) out = Inl err"
    unfolding yaml_RulePattern_slice_def by (intro decode_slice_rejects [where n = n]) simp_all
  with TRulePattern_slice show ?thesis by simp
next
  case TPatternFilter_slice
  with shape sub have "\<exists>err. yaml_PatternFilter d n zero_PatternFilter = Inl err" by simp
  with elem nonnull have "\<exists>err. decode_elems (\<lambda>e. yaml_PatternFilter d e zero_PatternFilter) ns = Inl err"
    by (intro decode_elems_rejects [where n = n]) simp_all
  with TPatternFilter_slice show ?thesis by (simp add: yaml_PatternFilters_eq del: yaml_PatternFilter.simps)
next
  case TRuleReferenceImport_slice
  with shape sub have "\<exists>err. yaml_RuleReferenceImport d n zero_RuleReferenceImport = Inl err" by simp
  with elem nonnull have "\<And>out. \<exists>err. yaml_RuleReferenceImport_slice d (YSeq ns) out = Inl err"
    unfolding yaml_RuleReferenceImport_slice_def by (intro decode_slice_rejects [where n = n]) simp_all
  with TRuleReferenceImport_slice show ?thesis by simp
qed (use shape in simp_all)

lemma map_target_rejects:
  assumes kv: "(k, v) \<in> set kvs" and shape: "shape_of t = Map t'"
    and sub: "rejects d t' v" and nonnull: "v \<noteq> YNull"
  shows "rejects d t (YMap kvs)"
proof (cases t)
  case TMetaVar_map
  with shape sub have "\<exists>err. yaml_MetaVar d v zero_MetaVar = Inl err" by simp
  with kv nonnull have "\<And>out. \<exists>err. yaml_MetaVar_map d (YMap kvs) out = Inl err"
    unfolding yaml_MetaVar_map_def by (intro decode_map_rejects [where k = k and v = v]) simp_all
  with TMetaVar_map show ?thesis by simp
qed (use shape in simp_all)

text \<open>
  In the strict mode a document with an undeclared key, at any depth, is rejected: by
  induction over the document.
\<close>

lemma undeclared_key_rejects:
  assumes known: "knownFields d"
  shows "undeclared_key t n \<Longrightarrow> rejects d t n"
proof (induction t n rule: undeclared_key.induct)
  case (1 t kvs)
  show ?case
  proof (cases "shape_of t")
    case (Struct declared)
    with "1.prems" obtain k v where kv: "(k, v) \<in> set kvs"
      and u: "case map_of declared k of None \<Rightarrow> k \<noteq> ''<<'' | Some t' \<Rightarrow> undeclared_key t' v"
      by auto
    have "rejects d t' v \<and> v \<noteq> YNull" if m: "map_of declared k = Some t'" for t'
    proof -
      from u m have "undeclared_key t' v" by simp
      with "1.IH"(1) [OF Struct kv refl m] show ?thesis by auto
    qed
    with known kv Struct show ?thesis by (rule struct_target_rejects)
  next
    case (Map t')
    with "1.prems" obtain k v where kv: "(k, v) \<in> set kvs" and u: "undeclared_key t' v"
      by auto
    from "1.IH"(2) [OF Map kv refl] u have "rejects d t' v" and "v \<noteq> YNull" by auto
    with kv Map show ?thesis by (rule map_target_rejects)
  next
    case (Slice t')
    with "1.prems" show ?thesis by simp
  next
    case Leaf
    with "1.prems" show ?thesis by simp
  qed
next
  case (2 t ns)
  show ?case
  proof (cases "shape_of t")
    case (Slice t')
    with "2.prems" obtain n where n: "n \<in> set ns" and u: "undeclared_key t' n" by auto
    from "2.IH" [OF Slice n] u have "rejects d t' n" and "n \<noteq> YNull" by auto
    with n Slice show ?thesis by (rule slice_target_rejects)
  qed (use "2.prems" in simp_all)
qed simp_all

text \<open>
  For a rule, a rule definition, a rule pattern and a pattern filter, with the error of
  the decoder written out.
\<close>

lemma undeclared_key_rejected_by_decoders:
  assumes "knownFields d"
  shows "undeclared_key TRule n \<Longrightarrow> \<exists>err. yaml_Rule d n rule = Inl err"
    and "undeclared_key TRuleDefinition n \<Longrightarrow> \<exists>err. yaml_RuleDefinition d n ruleDefinition = Inl err"
    and "undeclared_key TRulePattern n \<Longrightarrow> \<exists>err. yaml_RulePattern d n rulePattern = Inl err"
    and "undeclared_key TPatternFilter n \<Longrightarrow> \<exists>err. yaml_PatternFilter d n flt = Inl err"
  using undeclared_key_rejects [OF assms, of TRule n]
    undeclared_key_rejects [OF assms, of TRuleDefinition n]
    undeclared_key_rejects [OF assms, of TRulePattern n]
    undeclared_key_rejects [OF assms, of TPatternFilter n]
  by (simp_all del: yaml_PatternFilter.simps)

text \<open>
  C4. When the rule loader deserialises the YAML of a rule, an input that holds a key
  that is not a declared field of its target type is rejected with an error. The target
  \<open>t\<close> is any type of a rule document: the rule itself (\<open>Rule\<close>, \<open>RuleDefinition\<close>),
  a struct below it (trigger, metadata, auxiliary rule, dependency, metavariable, rule
  pattern, pattern filter, import) or a slice or map of these; the key may stand in the
  mapping of the node itself or in a mapping below it, at any depth; a key \<open><<\<close>
  is not counted. The two methods add no check of the keys: they return the error of the
  decoder, which is the strict one of the loader.
\<close>

theorem undeclared_key_rejected:
  assumes "undeclared_key t n"
  shows "rejects (loader_decoder compiles) t n"
proof -
  have "knownFields (loader_decoder compiles)" by (simp add: loader_decoder_def)
  from this assms show ?thesis by (rule undeclared_key_rejects)
qed

text \<open>The tables that the sample documents run through.\<close>

lemmas field_tables =
  Rule_fields_def RuleDefinition_fields_def RuleMetadata_fields_def RulePattern_fields_def
  PatternFilter_fields_def

lemma doc_nested_unknown_key_undeclared: "undeclared_key TRulePattern doc_nested_unknown_key"
  by (simp add: doc_nested_unknown_key_def field_tables)

lemma doc_rule_unknown_key_undeclared: "undeclared_key TRule doc_rule_unknown_key"
  by (simp add: doc_rule_unknown_key_def field_tables)

lemma doc_rule_nested_unknown_key_undeclared: "undeclared_key TRule doc_rule_nested_unknown_key"
  by (simp add: doc_rule_nested_unknown_key_def field_tables)

lemma doc_definition_unknown_key_undeclared:
  "undeclared_key TRuleDefinition doc_definition_unknown_key"
  by (simp add: doc_definition_unknown_key_def field_tables)

lemma doc_nested_unknown_key_error:
  "yaml_RulePattern (loader_decoder every_pattern) doc_nested_unknown_key zero_RulePattern =
     Inl (Error ''field detektion not found in type settings.wrapper'')"
  by (simp add: doc_nested_unknown_key_def run_decoder)

lemma doc_rule_unknown_key_error:
  "yaml_Rule (loader_decoder every_pattern) doc_rule_unknown_key zero_Rule =
     Inl (Error ''field severety not found in type settings.Rule'')"
  by (simp add: doc_rule_unknown_key_def run_decoder yaml_Rule_def Rule_keys_def
      yaml_Rule_field_def zero_Rule_def yaml_string_slice_nil_def decode_slice_nil_def)

theorem undeclared_key_rejected_witness:
  "undeclared_key TRulePattern doc_nested_unknown_key \<and>
   rejects (loader_decoder every_pattern) TRulePattern doc_nested_unknown_key \<and>
   yaml_RulePattern (loader_decoder every_pattern) doc_nested_unknown_key zero_RulePattern =
     Inl (Error ''field detektion not found in type settings.wrapper'') \<and>
   undeclared_key TRule doc_rule_unknown_key \<and>
   rejects (loader_decoder every_pattern) TRule doc_rule_unknown_key \<and>
   yaml_Rule (loader_decoder every_pattern) doc_rule_unknown_key zero_Rule =
     Inl (Error ''field severety not found in type settings.Rule'') \<and>
   undeclared_key TRule doc_rule_nested_unknown_key \<and>
   rejects (loader_decoder every_pattern) TRule doc_rule_nested_unknown_key \<and>
   undeclared_key TRuleDefinition doc_definition_unknown_key \<and>
   rejects (loader_decoder every_pattern) TRuleDefinition doc_definition_unknown_key"
  using
    undeclared_key_rejected [OF doc_nested_unknown_key_undeclared, of every_pattern]
    undeclared_key_rejected [OF doc_rule_unknown_key_undeclared, of every_pattern]
    undeclared_key_rejected [OF doc_rule_nested_unknown_key_undeclared, of every_pattern]
    undeclared_key_rejected [OF doc_definition_unknown_key_undeclared, of every_pattern]
    doc_nested_unknown_key_undeclared doc_rule_unknown_key_undeclared
    doc_rule_nested_unknown_key_undeclared doc_definition_unknown_key_undeclared
    doc_nested_unknown_key_error doc_rule_unknown_key_error
  by (simp only: simp_thms)

text \<open>
  The error for a key of the mapping of a filter or of a pattern itself. Without the
  strict mode the same key is passed over, and with it a rule whose keys are all declared
  is decoded.
\<close>

lemma unknown_key_errors:
  "yaml_PatternFilter (loader_decoder every_pattern) doc_unknown_key zero_PatternFilter =
     Inl (Error ''field detektion not found in type settings.wrapper'')"
  "yaml_RulePattern (loader_decoder every_pattern) doc_pattern_unknown_key zero_RulePattern =
     Inl (Error ''field filterz not found in type settings.rawRulePattern'')"
  by (simp_all add: doc_unknown_key_def doc_pattern_unknown_key_def run_decoder)

lemma unknown_key_skipped:
  "yaml_PatternFilter \<lparr>knownFields = False, regexpCompiles = every_pattern\<rparr> doc_unknown_key
     zero_PatternFilter = Inr (pf_Variable_update ''X'' zero_PatternFilter)"
  by (simp add: doc_unknown_key_def PatternFilter_UnmarshalYAML_def PatternFilter_keys_def
      yaml_wrapper_leaf_def into_field_def zero_PatternFilter_def)

lemma declared_keys_accepted:
  "yaml_Rule (loader_decoder every_pattern) doc_rule zero_Rule =
     Inr (zero_Rule\<lparr>rule_Id := ''logger_leak'', rule_Languages := Some [''ruby''],
            rule_Patterns := [\<lparr>rp_Pattern = ''logger.info($X)'', rp_Focus = '''', rp_Filters = []\<rparr>],
            rule_Severity := ''high''\<rparr>)"
  by (simp add: doc_rule_def run_decoder yaml_Rule_def Rule_keys_def
      yaml_Rule_field_def zero_Rule_def yaml_string_slice_nil_def decode_slice_nil_def)

section \<open>Properties of the rule methods\<close>

text \<open>
  C7. For every rule whose severity field is empty, \<open>GetSeverity\<close> returns the severity
  \<open>low\<close>; for every rule with a non-empty severity field, it returns that field
  unchanged.
\<close>

theorem GetSeverity_default_low:
  "(rule_Severity rule = '''' \<longrightarrow> GetSeverity rule = ''low'') \<and>
   (rule_Severity rule \<noteq> '''' \<longrightarrow> GetSeverity rule = rule_Severity rule)"
  by (simp add: GetSeverity_def LevelLow_def)

theorem GetSeverity_default_low_witness:
  "rule_Severity zero_Rule = '''' \<and> GetSeverity zero_Rule = ''low'' \<and>
   rule_Severity (zero_Rule\<lparr>rule_Severity := ''high''\<rparr>) \<noteq> '''' \<and>
   GetSeverity (zero_Rule\<lparr>rule_Severity := ''high''\<rparr>) = ''high''"
  using GetSeverity_default_low [of zero_Rule]
    GetSeverity_default_low [of "zero_Rule\<lparr>rule_Severity := ''high''\<rparr>"]
  by (simp add: zero_Rule_def)

text \<open>
  C8. A rule whose list of languages is empty applies to secrets and text: \<open>Language\<close>
  is to return \<open>secret\<close> for it. On the empty list that is not \<open>nil\<close> (the value that
  \<open>languages: []\<close> in a rule file decodes to) the method does not: the comparison
  with \<open>nil\<close> fails and the index expression panics.
\<close>

theorem Language_empty_slice_panics:
  "Language (zero_Rule\<lparr>rule_Languages := Some []\<rparr>) =
     Inl (Panic ''runtime error: index out of range'')"
  by (simp add: Language_def index_def)

text \<open>
  With at least one language tag the method returns the display name of the first tag:
  \<open>Java\<close>, \<open>JavaScript\<close>, \<open>Ruby\<close>, \<open>SQL\<close> for the known tags and the tag itself
  otherwise.
\<close>

lemma Language_first_tag:
  "rule_Languages rule = Some (tag # tags) \<Longrightarrow>
   Language rule =
     Inr (if tag = ''java'' then ''Java''
          else if tag = ''javascript'' then ''JavaScript''
          else if tag = ''ruby'' then ''Ruby''
          else if tag = ''sql'' then ''SQL''
          else tag)"
  by (simp add: Language_def index_def)

text \<open>
  C9. \<open>Language\<close> tells the \<open>nil\<close> list, for which it returns \<open>secret\<close>, from the
  empty list that is not \<open>nil\<close>, for which the unguarded index of the first element
  panics; it returns a result exactly when the list is \<open>nil\<close> or not empty.
\<close>

theorem Language_total_iff:
  "(rule_Languages rule = None \<longrightarrow> Language rule = Inr ''secret'') \<and>
   (rule_Languages rule = Some [] \<longrightarrow>
      Language rule = Inl (Panic ''runtime error: index out of range'')) \<and>
   ((\<exists>name. Language rule = Inr name) \<longleftrightarrow> rule_Languages rule \<noteq> Some [])"
proof (cases "rule_Languages rule")
  case None
  then show ?thesis by (simp add: Language_def)
next
  case (Some languages)
  show ?thesis
  proof (cases languages)
    case Nil
    with Some show ?thesis by (simp add: Language_def index_def)
  next
    case (Cons tag tags)
    with Some show ?thesis by (simp add: Language_first_tag)
  qed
qed

theorem Language_total_iff_witness:
  "rule_Languages zero_Rule = None \<and> Language zero_Rule = Inr ''secret'' \<and>
   rule_Languages (zero_Rule\<lparr>rule_Languages := Some []\<rparr>) = Some [] \<and>
   Language (zero_Rule\<lparr>rule_Languages := Some []\<rparr>) =
     Inl (Panic ''runtime error: index out of range'') \<and>
   rule_Languages (zero_Rule\<lparr>rule_Languages := Some [''ruby'']\<rparr>) \<noteq> Some [] \<and>
   Language (zero_Rule\<lparr>rule_Languages := Some [''ruby'']\<rparr>) = Inr ''Ruby''"
  using Language_total_iff [of zero_Rule]
    Language_total_iff [of "zero_Rule\<lparr>rule_Languages := Some []\<rparr>"]
    Language_total_iff [of "zero_Rule\<lparr>rule_Languages := Some [''ruby'']\<rparr>"]
  by (simp add: zero_Rule_def Language_def index_def)

section \<open>Properties of the configuration loading\<close>

text \<open>The loop over the modules of a policy, when it ends without an error.\<close>

lemma FromOptions_modules_expanded:
  "FromOptions_modules readFile modules = Inr modules' \<Longrightarrow>
   list_all2 (module_expanded readFile) modules modules'"
proof (induction modules arbitrary: modules')
  case Nil
  then show ?case by simp
next
  case (Cons module modules)
  show ?case
  proof (cases "pm_Path module = ''''")
    case True
    with Cons.prems obtain rest where
      r: "FromOptions_modules readFile modules = Inr rest" and m: "modules' = module # rest"
      by (auto split: sum.splits)
    from True have "module_expanded readFile module module"
      by (simp add: module_expanded_def)
    with Cons.IH [OF r] m show ?thesis by simp
  next
    case False
    with Cons.prems obtain content rest where
      c: "readFile (pm_Path module) = Some content" and
      r: "FromOptions_modules readFile modules = Inr rest" and
      m: "modules' = module\<lparr>pm_Content := content\<rparr> # rest"
      by (auto split: option.splits sum.splits)
    from False c have "module_expanded readFile module (module\<lparr>pm_Content := content\<rparr>)"
      by (simp add: module_expanded_def)
    with Cons.IH [OF r] m show ?thesis by simp
  qed
qed

text \<open>The only failure of that loop is the error of a read.\<close>

lemma FromOptions_modules_error:
  "FromOptions_modules readFile modules = Inl err \<Longrightarrow> \<exists>msg. err = Error msg"
  by (induction modules) (auto split: if_splits option.splits sum.splits)

lemma FromOptions_modules_missing:
  "module \<in> set modules \<Longrightarrow> missing_module readFile module \<Longrightarrow>
   \<exists>msg. FromOptions_modules readFile modules = Inl (Error msg)"
proof (induction modules)
  case Nil
  then show ?case by simp
next
  case (Cons m modules)
  then show ?case
    by (auto simp add: missing_module_def split: option.splits sum.splits)
qed

text \<open>The loop over the policies.\<close>

lemma FromOptions_policies_expanded:
  "FromOptions_policies readFile policies = Inr policies' \<Longrightarrow>
   list_all2 (policy_expanded readFile) policies policies'"
proof (induction policies arbitrary: policies')
  case Nil
  then show ?case by simp
next
  case (Cons entry policies)
  obtain key policy where entry: "entry = (key, policy)" by (cases entry)
  from Cons.prems entry obtain modules' rest where
    m: "FromOptions_modules readFile (pol_Modules policy) = Inr modules'" and
    r: "FromOptions_policies readFile policies = Inr rest" and
    p: "policies' = (key, policy\<lparr>pol_Modules := modules'\<rparr>) # rest"
    by (auto split: sum.splits)
  from FromOptions_modules_expanded [OF m] Cons.IH [OF r] show ?case
    by (simp add: p entry policy_expanded_def)
qed

lemma FromOptions_policies_missing:
  "entry \<in> set policies \<Longrightarrow> module \<in> set (pol_Modules (snd entry)) \<Longrightarrow>
   missing_module readFile module \<Longrightarrow>
   \<exists>msg. FromOptions_policies readFile policies = Inl (Error msg)"
proof (induction policies)
  case Nil
  then show ?case by simp
next
  case (Cons e policies)
  obtain key policy where e: "e = (key, policy)" by (cases e)
  show ?case
  proof (cases "FromOptions_modules readFile (pol_Modules policy)")
    case (Inl err)
    with FromOptions_modules_error [OF Inl] e show ?thesis by auto
  next
    case (Inr modules')
    have "entry \<noteq> e"
    proof
      assume "entry = e"
      with Cons.prems e FromOptions_modules_missing [of module "pol_Modules policy" readFile] Inr
      show False by auto
    qed
    with Cons have "\<exists>msg. FromOptions_policies readFile policies = Inl (Error msg)" by auto
    with Inr e show ?thesis by auto
  qed
qed

text \<open>
  C6. During configuration loading, for every policy module carrying a non-empty path,
  the embedded file at that path is read and its text is stored in the content of the
  module; if the embedded file of some module is missing, loading fails with an error
  and no configuration is returned. The policies are those of \<open>DefaultPolicies\<close>; a
  configuration that \<open>FromOptions\<close> returns holds each of them expanded.
\<close>

theorem FromOptions_expands_policy_modules:
  assumes "DefaultPolicies env = Inr policies"
  shows "(\<forall>config. FromOptions env opts versionMeta = Inr config \<longrightarrow>
            list_all2 (policy_expanded (policiesFs_ReadFile env)) policies (cfg_Policies config)) \<and>
         ((\<exists>entry \<in> set policies. \<exists>module \<in> set (pol_Modules (snd entry)).
              missing_module (policiesFs_ReadFile env) module) \<longrightarrow>
          (\<exists>err. FromOptions env opts versionMeta = Inl err))"
proof (intro conjI allI impI)
  fix config
  assume ok: "FromOptions env opts versionMeta = Inr config"
  with assms obtain policies' where
    "FromOptions_policies (policiesFs_ReadFile env) policies = Inr policies'"
    "cfg_Policies config = policies'"
    by (auto simp add: FromOptions_def Let_def split: sum.splits if_splits)
  with FromOptions_policies_expanded
  show "list_all2 (policy_expanded (policiesFs_ReadFile env)) policies (cfg_Policies config)"
    by blast
next
  assume "\<exists>entry \<in> set policies. \<exists>module \<in> set (pol_Modules (snd entry)).
            missing_module (policiesFs_ReadFile env) module"
  then obtain msg where
    "FromOptions_policies (policiesFs_ReadFile env) policies = Inl (Error msg)"
    using FromOptions_policies_missing by blast
  with assms show "\<exists>err. FromOptions env opts versionMeta = Inl err"
    by (auto simp add: FromOptions_def Let_def split: sum.splits)
qed

text \<open>
  In the sample environment the module with a path receives the text of its file and
  the inline module keeps its content; without the file the loading fails with the
  error of the read.
\<close>

lemma sample_DefaultPolicies:
  "DefaultPolicies (sample_environment\<lparr>policiesFs_ReadFile := readFile\<rparr>) =
     Inr [(''risk'', sample_policy)]"
  by (simp add: DefaultPolicies_def sample_environment_def sample_policy_def)

lemma sample_FromOptions:
  "FromOptions sample_environment sample_options () = Inr sample_config"
proof -
  have "DefaultPolicies sample_environment = Inr [(''risk'', sample_policy)]"
    using sample_DefaultPolicies [of sample_files] by (simp add: sample_environment_def)
  moreover have "policiesFs_ReadFile sample_environment = sample_files"
    by (simp add: sample_environment_def)
  moreover have "loadRules sample_environment = sample_rules"
    and "GetIgnoredFingerprints sample_environment = sample_fingerprints"
    and "flag_ReportSecurity sample_environment = ''security''"
    by (simp_all add: sample_environment_def)
  ultimately show ?thesis
    by (simp add: FromOptions_def sample_rules_def sample_fingerprints_def sample_files_def
        sample_policy_def sample_options_def sample_config_def)
qed

theorem FromOptions_expands_policy_modules_witness:
  "DefaultPolicies sample_environment = Inr [(''risk'', sample_policy)] \<and>
   FromOptions sample_environment sample_options () = Inr sample_config \<and>
   list_all2 (policy_expanded sample_files) [(''risk'', sample_policy)] (cfg_Policies sample_config) \<and>
   map (\<lambda>entry. map pm_Content (pol_Modules (snd entry))) (cfg_Policies sample_config) =
     [[''package bearer.common'', ''package bearer.inline'']] \<and>
   missing_module no_files (hd (pol_Modules sample_policy)) \<and>
   FromOptions (sample_environment\<lparr>policiesFs_ReadFile := no_files\<rparr>) sample_options () =
     Inl (Error ''open policies/common.rego: file does not exist'')"
proof -
  have d: "DefaultPolicies sample_environment = Inr [(''risk'', sample_policy)]"
    using sample_DefaultPolicies [of sample_files] by (simp add: sample_environment_def)
  have f: "policiesFs_ReadFile sample_environment = sample_files"
    by (simp add: sample_environment_def)
  from FromOptions_expands_policy_modules [OF d, of sample_options "()"] sample_FromOptions f
  have e: "list_all2 (policy_expanded sample_files) [(''risk'', sample_policy)]
             (cfg_Policies sample_config)"
    by simp
  have p: "map (\<lambda>entry. map pm_Content (pol_Modules (snd entry))) (cfg_Policies sample_config) =
     [[''package bearer.common'', ''package bearer.inline'']]"
    by (simp add: sample_config_def)
  have m: "missing_module no_files (hd (pol_Modules sample_policy))"
    by (simp add: missing_module_def no_files_def sample_policy_def)
  have n: "FromOptions (sample_environment\<lparr>policiesFs_ReadFile := no_files\<rparr>) sample_options () =
     Inl (Error ''open policies/common.rego: file does not exist'')"
  proof -
    have "loadRules (sample_environment\<lparr>policiesFs_ReadFile := no_files\<rparr>) = sample_rules"
      by (simp add: sample_environment_def)
    then show ?thesis
      by (simp add: FromOptions_def sample_DefaultPolicies sample_rules_def sample_policy_def
          no_files_def)
  qed
  from d sample_FromOptions e p m n show ?thesis by blast
qed

text \<open>
  C10. \<open>FromOptions\<close> fails with an error whenever the scan option \<open>DiffBaseBranch\<close> is
  not empty and either the report is not the security report or an API client is
  configured; no configuration is returned then.
\<close>

theorem FromOptions_diff_base_branch:
  assumes "scan_DiffBaseBranch (opts_ScanOptions opts) \<noteq> ''''"
    and "report_Report (opts_ReportOptions opts) \<noteq> flag_ReportSecurity env \<or>
         opts_Client opts \<noteq> None"
  shows "\<exists>err. FromOptions env opts versionMeta = Inl err"
  using assms by (auto simp add: FromOptions_def Let_def split: sum.splits)

theorem FromOptions_diff_base_branch_witness:
  "scan_DiffBaseBranch (opts_ScanOptions sample_options_diff) \<noteq> '''' \<and>
   report_Report (opts_ReportOptions sample_options_diff) \<noteq>
     flag_ReportSecurity sample_environment \<and>
   FromOptions sample_environment sample_options_diff () =
     Inl (Error ''diff base branch is only supported for the security report'')"
proof -
  have a: "scan_DiffBaseBranch (opts_ScanOptions sample_options_diff) \<noteq> ''''"
    by (simp add: sample_options_diff_def sample_options_def)
  have b: "report_Report (opts_ReportOptions sample_options_diff) \<noteq>
      flag_ReportSecurity sample_environment"
    by (simp add: sample_options_diff_def sample_options_def sample_environment_def)
  from FromOptions_diff_base_branch [OF a disjI1 [OF b], of "()"]
  obtain err where "FromOptions sample_environment sample_options_diff () = Inl err" ..
  moreover have "FromOptions sample_environment sample_options_diff () =
     Inl (Error ''diff base branch is only supported for the security report'')"
  proof -
    have "DefaultPolicies sample_environment = Inr [(''risk'', sample_policy)]"
      using sample_DefaultPolicies [of sample_files] by (simp add: sample_environment_def)
    moreover have "policiesFs_ReadFile sample_environment = sample_files"
      and "loadRules sample_environment = sample_rules"
      and "GetIgnoredFingerprints sample_environment = sample_fingerprints"
      and "flag_ReportSecurity sample_environment = ''security''"
      by (simp_all add: sample_environment_def)
    ultimately show ?thesis
      by (simp add: FromOptions_def sample_rules_def sample_fingerprints_def sample_files_def
          sample_policy_def sample_options_diff_def sample_options_def)
  qed
  ultimately show ?thesis using a b by simp
qed

section \<open>Properties of the report data\<close>

text \<open>
  The loop over the detections fails or succeeds whatever identifiers are drawn, and the
  identifiers are all that the drawn values change.
\<close>

lemma GetDataflow_ids_panic:
  "GetDataflow_ids uuids i detections = Inl p \<Longrightarrow> GetDataflow_ids uuids' j detections = Inl p"
proof (induction detections arbitrary: i j)
  case Nil
  then show ?case by simp
next
  case (Cons detection detections)
  show ?case
  proof (cases detection)
    case (AMap m)
    with Cons.prems have "GetDataflow_ids uuids (Suc i) detections = Inl p"
      by (simp split: sum.splits)
    from Cons.IH [OF this, of "Suc j"] AMap show ?thesis by simp
  qed (use Cons.prems in simp_all)
qed

lemma GetDataflow_ids_without_id:
  "GetDataflow_ids uuids i detections = Inr detections' \<Longrightarrow>
   map without_id detections' = map without_id detections"
proof (induction detections arbitrary: i detections')
  case Nil
  then show ?case by simp
next
  case (Cons detection detections)
  show ?case
  proof (cases detection)
    case (AMap m)
    with Cons.prems obtain rest where
      r: "GetDataflow_ids uuids (Suc i) detections = Inr rest" and
      d: "detections' = AMap (AList.update ''id'' (AString (uuids i)) m) # rest"
      by (auto split: sum.splits)
    from Cons.IH [OF r] d AMap show ?thesis by (simp add: delete_update_same)
  qed (use Cons.prems in simp_all)
qed

lemma GetDataflow_ids_agree:
  "(case GetDataflow_ids uuids i detections of
      Inl p \<Rightarrow> GetDataflow_ids uuids' j detections = Inl p
    | Inr detections' \<Rightarrow>
        (\<exists>detections''. GetDataflow_ids uuids' j detections = Inr detections'' \<and>
           map without_id detections'' = map without_id detections'))"
proof (cases "GetDataflow_ids uuids i detections")
  case (Inl p)
  from GetDataflow_ids_panic [OF this, of uuids' j] Inl show ?thesis by simp
next
  case (Inr detections')
  show ?thesis
  proof (cases "GetDataflow_ids uuids' j detections")
    case (Inl p)
    from GetDataflow_ids_panic [OF this, of uuids i] Inr show ?thesis by simp
  next
    case r: (Inr detections'')
    from GetDataflow_ids_without_id [OF Inr] GetDataflow_ids_without_id [OF r] Inr r
    show ?thesis by simp
  qed
qed

text \<open>
  Two runs of \<open>GetDataflow\<close> on the same report data, report and configuration agree
  on the detections that the function leaves in \<open>ReportData.Detectors\<close>, up to the
  entry \<open>id\<close> of each detection, as long as \<open>dataflow.AddReportData\<close> leaves the
  detections in place. This is a fact about the detections of the report data only: what
  the formatters print of them is decided in other packages.
\<close>

lemma GetDataflow_detections_agree_up_to_ids:
  assumes "\<And>reportData config isInternal.
     rd_Detectors (fst (dataflow_AddReportData env reportData config isInternal)) =
       rd_Detectors reportData"
  shows "map_option (map without_id)
           (rd_Detectors (fst (GetDataflow env uuids reportData report config isInternal))) =
         map_option (map without_id)
           (rd_Detectors (fst (GetDataflow env uuids' reportData report config isInternal)))"
proof -
  obtain rd err where s: "(if rd_Detectors reportData = None
            then detectors_AddReportData env reportData report config
            else (reportData, None)) = (rd, err)"
    by (cases "(if rd_Detectors reportData = None
            then detectors_AddReportData env reportData report config
            else (reportData, None))")
  show ?thesis
  proof (cases err)
    case (Some e)
    with s show ?thesis by (simp add: GetDataflow_def)
  next
    case None
    show ?thesis
    proof (cases "rd_Detectors rd")
      case n: None
      with s None show ?thesis by (simp add: GetDataflow_def)
    next
      case (Some detections)
      from GetDataflow_ids_agree [of uuids 0 detections uuids' 0] s None Some assms
      show ?thesis
        by (auto simp add: GetDataflow_def split: sum.splits)
    qed
  qed
qed

lemma GetDataflow_sample_runs:
  "(\<forall>reportData config isInternal.
      rd_Detectors (fst (dataflow_AddReportData sample_collaborators reportData config isInternal)) =
        rd_Detectors reportData) \<and>
   rd_Detectors (fst (GetDataflow sample_collaborators first_run_uuids sample_report_data () () False)) =
     Some [AMap [(''detector_type'', AString ''ruby''), (''type'', AString ''schema_classified''),
                 (''id'', AString ''6ba7b810-9dad-41d1-80b4-00c04fd430c8'')]] \<and>
   map_option (map without_id)
     (rd_Detectors (fst (GetDataflow sample_collaborators first_run_uuids sample_report_data () () False))) =
   map_option (map without_id)
     (rd_Detectors (fst (GetDataflow sample_collaborators second_run_uuids sample_report_data () () False)))"
proof -
  have k: "\<And>reportData config isInternal.
      rd_Detectors (fst (dataflow_AddReportData sample_collaborators reportData config isInternal)) =
        rd_Detectors reportData"
    by (simp add: sample_collaborators_def keep_dataflow_def)
  have r: "rd_Detectors (fst (GetDataflow sample_collaborators first_run_uuids sample_report_data () () False)) =
     Some [AMap [(''detector_type'', AString ''ruby''), (''type'', AString ''schema_classified''),
                 (''id'', AString ''6ba7b810-9dad-41d1-80b4-00c04fd430c8'')]]"
    by (simp add: GetDataflow_def sample_collaborators_def sample_report_data_def
      sample_detection_def keep_dataflow_def first_run_uuids_def)
  from GetDataflow_detections_agree_up_to_ids [of sample_collaborators first_run_uuids
      sample_report_data "()" "()" False second_run_uuids, OF k] k r
  show ?thesis by blast
qed

text \<open>
  With collaborators that leave the report data as it is, the report data after two runs
  that draw different identifiers is not the same.
\<close>

lemma GetDataflow_sample_runs_differ:
  "GetDataflow sample_collaborators first_run_uuids sample_report_data () () False \<noteq>
   GetDataflow sample_collaborators second_run_uuids sample_report_data () () False"
  by (simp add: GetDataflow_def sample_collaborators_def sample_report_data_def
      sample_detection_def keep_dataflow_def first_run_uuids_def second_run_uuids_def)

end
